theory Spec2Isabelle
  imports Complex_Main
begin

section \<open>Numbers and vectors\<close>

text \<open>
  The programs compute with C++ \<^verbatim>\<open>float\<close> and \<^verbatim>\<open>double\<close>. They are modelled by
  \<^typ>\<open>real\<close>: every literal is read as the decimal it is written as, and the
  arithmetic is exact. Rounding, infinities and NaN are outside this model. The one
  computation of which a property below depends on the rounding, the bounce of the ball
  off the paddle, is modelled a second time with the rounding of the program, in the
  section on binary32.
  \<^verbatim>\<open>glm::vec2\<close> and \<^verbatim>\<open>glm::vec3\<close> are tuples of such numbers; their fields
  \<^verbatim>\<open>.x .y .z\<close> are the selectors below.
\<close>

datatype vec2 = Vec2 (vx: real) (vy: real)

datatype vec3 = Vec3 (v3x: real) (v3y: real) (v3z: real)

definition vadd2 :: "vec2 \<Rightarrow> vec2 \<Rightarrow> vec2" where
  "vadd2 a b = Vec2 (vx a + vx b) (vy a + vy b)"

text \<open>
  \<^verbatim>\<open>glm::length\<close> of a two-component vector, in exact arithmetic: the Euclidean length.
  \<open>length32\<close> below is the function with the rounding of the program.
\<close>

definition length2 :: "vec2 \<Rightarrow> real" where
  "length2 v = sqrt (vx v * vx v + vy v * vy v)"

section \<open>The breakout game (game2D.cpp)\<close>

subsection \<open>Constants and state\<close>

definition PADDLE_WIDTH :: real where "PADDLE_WIDTH = 0.2"
definition PADDLE_HEIGHT :: real where "PADDLE_HEIGHT = 0.03"
definition BALL_SIZE :: real where "BALL_SIZE = 0.02"
definition BRICK_WIDTH :: real where "BRICK_WIDTH = 0.1"
definition BRICK_HEIGHT :: real where "BRICK_HEIGHT = 0.04"
definition BRICK_ROWS :: nat where "BRICK_ROWS = 5"
definition BRICK_COLS :: nat where "BRICK_COLS = 8"
definition BALL_VELOCITY :: real where "BALL_VELOCITY = 0.01"
definition WAIT_TIME_SECONDS :: real where "WAIT_TIME_SECONDS = 240"

text \<open>
  \<^verbatim>\<open>struct GameObject\<close>. The field \<^verbatim>\<open>size\<close> is written \<open>size_o\<close>, since
  \<open>size\<close> is a constant of HOL.
\<close>

record GameObject =
  position :: vec2
  size_o :: vec2
  color :: vec3
  active :: bool

text \<open>
  \<^verbatim>\<open>struct GameState\<close>, the one global \<^verbatim>\<open>gameState\<close>. The \<^verbatim>\<open>int\<close> score is an
  unbounded integer here: it grows by 10 per brick and is reset with every cleared board.
\<close>

record GameState =
  paddle :: GameObject
  ball :: GameObject
  ballVelocity :: vec2
  bricks :: "GameObject list"
  gameOver :: bool
  score :: int
  gameStarted :: bool
  startTime :: real

subsection \<open>checkCollision\<close>

definition checkCollision :: "GameObject \<Rightarrow> GameObject \<Rightarrow> bool" where
  "checkCollision a b =
    (let collisionX =
           (vx (position a) + vx (size_o a) / 2 \<ge> vx (position b) - vx (size_o b) / 2 \<and>
            vx (position b) + vx (size_o b) / 2 \<ge> vx (position a) - vx (size_o a) / 2);
         collisionY =
           (vy (position a) + vy (size_o a) / 2 \<ge> vy (position b) - vy (size_o b) / 2 \<and>
            vy (position b) + vy (size_o b) / 2 \<ge> vy (position a) - vy (size_o a) / 2)
     in collisionX \<and> collisionY)"

text \<open>
  The closed intervals a game object covers on each axis, as sets of reals: from the
  centre minus half the size to the centre plus half the size.
\<close>

definition xInterval :: "GameObject \<Rightarrow> real set" where
  "xInterval a = {vx (position a) - vx (size_o a) / 2 .. vx (position a) + vx (size_o a) / 2}"

definition yInterval :: "GameObject \<Rightarrow> real set" where
  "yInterval a = {vy (position a) - vy (size_o a) / 2 .. vy (position a) + vy (size_o a) / 2}"

definition overlapBothAxes :: "GameObject \<Rightarrow> GameObject \<Rightarrow> bool" where
  "overlapBothAxes a b \<longleftrightarrow>
     xInterval a \<inter> xInterval b \<noteq> {} \<and> yInterval a \<inter> yInterval b \<noteq> {}"

text \<open>A square of side 1 around a given centre.\<close>

definition unitBox :: "real \<Rightarrow> real \<Rightarrow> GameObject" where
  "unitBox cx cy = \<lparr>position = Vec2 cx cy, size_o = Vec2 1 1, color = Vec3 1 1 1, active = True\<rparr>"

subsection \<open>resetBall and initGame\<close>

text \<open>
  \<^verbatim>\<open>resetBall\<close> calls \<^verbatim>\<open>rand()\<close> once. The C library is outside the program: the
  value it returns is the parameter \<open>r\<close> of \<open>resetBall\<close> and of every function that
  may call it.
\<close>

definition resetBall :: "nat \<Rightarrow> GameState \<Rightarrow> GameState" where
  "resetBall r s =
    (let angle = real_of_int (int r mod 90 - 45) * 3.14159 / 180
     in s\<lparr>ball := (ball s)\<lparr>position := Vec2 0 (- 0.7),
                              size_o := Vec2 BALL_SIZE BALL_SIZE,
                              color := Vec3 1 1 1\<rparr>,
          ballVelocity := Vec2 (BALL_VELOCITY * sin angle) BALL_VELOCITY\<rparr>)"

text \<open>The \<^verbatim>\<open>switch (row)\<close> of \<^verbatim>\<open>initGame\<close>.\<close>

definition rowColor :: "nat \<Rightarrow> vec3" where
  "rowColor row =
    (if row = 0 then Vec3 1 0.2 0.2
     else if row = 1 then Vec3 1 0.6 0.2
     else if row = 2 then Vec3 1 1 0.2
     else if row = 3 then Vec3 0.2 1 0.2
     else if row = 4 then Vec3 0.2 0.4 1
     else Vec3 1 1 1)"

text \<open>The body of the inner loop: a fresh \<^verbatim>\<open>GameObject brick\<close> is active.\<close>

definition newBrick :: "nat \<Rightarrow> nat \<Rightarrow> GameObject" where
  "newBrick row col =
    \<lparr>position = Vec2 (- 0.9 + real col * (BRICK_WIDTH + 0.02))
                      (0.7 - real row * (BRICK_HEIGHT + 0.02)),
     size_o = Vec2 BRICK_WIDTH BRICK_HEIGHT,
     color = rowColor row,
     active = True\<rparr>"

text \<open>
  The two nested \<^verbatim>\<open>for\<close> loops after \<^verbatim>\<open>bricks.clear()\<close>: rows outside, columns
  inside, each brick pushed at the back.
\<close>

definition brickGrid :: "GameObject list" where
  "brickGrid = concat (map (\<lambda>row. map (newBrick row) [0..<BRICK_COLS]) [0..<BRICK_ROWS])"

definition initGame :: "nat \<Rightarrow> GameState \<Rightarrow> GameState" where
  "initGame r s =
    (let s1 = s\<lparr>paddle := (paddle s)\<lparr>position := Vec2 0 (- 0.9),
                                    size_o := Vec2 PADDLE_WIDTH PADDLE_HEIGHT,
                                    color := Vec3 0.2 0.6 1\<rparr>\<rparr>;
         s2 = resetBall r s1;
         s3 = s2\<lparr>bricks := brickGrid\<rparr>
     in s3\<lparr>gameOver := False, score := 0, gameStarted := False\<rparr>)"

subsection \<open>updateGame\<close>

text \<open>
  \<^verbatim>\<open>updateGame\<close> is a sequence of blocks on the global state; each block is a
  function here, in the order of the source. Its parameter \<^verbatim>\<open>currentTime\<close> is not
  used by the body and is left out.
\<close>

definition moveBall :: "GameState \<Rightarrow> GameState" where
  "moveBall s = s\<lparr>ball := (ball s)\<lparr>position := vadd2 (position (ball s)) (ballVelocity s)\<rparr>\<rparr>"

definition wallCollisions :: "GameState \<Rightarrow> GameState" where
  "wallCollisions s =
    (let s1 = (if vx (position (ball s)) - vx (size_o (ball s)) / 2 < - 1 \<or>
                  vx (position (ball s)) + vx (size_o (ball s)) / 2 > 1
               then s\<lparr>ballVelocity := Vec2 (- vx (ballVelocity s)) (vy (ballVelocity s))\<rparr>
               else s)
     in if vy (position (ball s1)) + vy (size_o (ball s1)) / 2 > 1
        then s1\<lparr>ballVelocity := Vec2 (vx (ballVelocity s1)) (- vy (ballVelocity s1))\<rparr>
        else s1)"

text \<open>
  The paddle block in exact arithmetic. \<open>paddleCollision32\<close> below is the block with the
  rounding of the program.
\<close>

definition paddleCollision :: "GameState \<Rightarrow> GameState" where
  "paddleCollision s =
    (if checkCollision (ball s) (paddle s) then
       (let hitPos = (vx (position (ball s)) - vx (position (paddle s))) /
                     (vx (size_o (paddle s)) / 2);
            angle = hitPos * 60 * 3.14159 / 180;
            speed = length2 (ballVelocity s);
            s1 = s\<lparr>ballVelocity := Vec2 (speed * sin angle) (speed * cos angle)\<rparr>
        in if vy (ballVelocity s1) < 0
           then s1\<lparr>ballVelocity := Vec2 (vx (ballVelocity s1)) (- vy (ballVelocity s1))\<rparr>
           else s1)
     else s)"

text \<open>
  The loop over the bricks, which stops at the first active brick the ball collides
  with: the bricks after the loop, and whether one was hit.
\<close>

fun hitBricks :: "GameObject \<Rightarrow> GameObject list \<Rightarrow> GameObject list \<times> bool" where
  "hitBricks b [] = ([], False)"
| "hitBricks b (brick # rest) =
    (if active brick \<and> checkCollision b brick
     then (brick\<lparr>active := False\<rparr> # rest, True)
     else (brick # fst (hitBricks b rest), snd (hitBricks b rest)))"

definition brickCollisions :: "GameState \<Rightarrow> GameState" where
  "brickCollisions s =
    (if snd (hitBricks (ball s) (bricks s))
     then s\<lparr>bricks := fst (hitBricks (ball s) (bricks s)),
            ballVelocity := Vec2 (vx (ballVelocity s)) (- vy (ballVelocity s)),
            score := score s + 10\<rparr>
     else s)"

definition fellBelow :: "GameState \<Rightarrow> GameState" where
  "fellBelow s =
    (if vy (position (ball s)) - vy (size_o (ball s)) / 2 < - 1
     then s\<lparr>gameOver := True\<rparr> else s)"

text \<open>The loop that computes \<^verbatim>\<open>allBricksDestroyed\<close>, with its \<^verbatim>\<open>break\<close>.\<close>

fun allBricksDestroyed :: "GameObject list \<Rightarrow> bool" where
  "allBricksDestroyed [] = True"
| "allBricksDestroyed (brick # rest) = (if active brick then False else allBricksDestroyed rest)"

text \<open>The state in which \<^verbatim>\<open>updateGame\<close> reaches its last block, the check of the board.\<close>

definition beforeBoardCheck :: "GameState \<Rightarrow> GameState" where
  "beforeBoardCheck s = fellBelow (brickCollisions (paddleCollision (wallCollisions (moveBall s))))"

definition updateGame :: "nat \<Rightarrow> GameState \<Rightarrow> GameState" where
  "updateGame r s =
    (let s1 = beforeBoardCheck s
     in if allBricksDestroyed (bricks s1)
        then (initGame r s1)\<lparr>gameStarted := True\<rparr>
        else s1)"

subsection \<open>The main program: start-up, input and the render loop\<close>

text \<open>
  What the program writes to \<^verbatim>\<open>std::cout\<close>, one item per inserted value. Line ends
  and carriage returns are not recorded.
\<close>

datatype ConsoleItem =
  Str string
  | Num int
  | Num2 int \<comment> \<open>an \<^verbatim>\<open>int\<close> written after \<^verbatim>\<open>setfill('0')\<close> and \<^verbatim>\<open>setw(2)\<close>\<close>

text \<open>
  The libraries the program calls (GLFW, GLAD, OpenGL, the C library) are its
  environment. \<open>Env\<close> holds, for each call of the start-up whose result the program
  inspects, the result that call gives when it is made; \<open>time0\<close> is the first reading
  of \<^verbatim>\<open>glfwGetTime()\<close> and \<open>rand0\<close> the result of the \<^verbatim>\<open>rand()\<close> of the first
  \<^verbatim>\<open>initGame\<close>.
\<close>

record Env =
  glfwInit_ok :: bool
  createWindow_ok :: bool
  gladLoad_ok :: bool
  vertexCompile_ok :: bool
  vertexLog :: string
  fragmentCompile_ok :: bool
  fragmentLog :: string
  link_ok :: bool
  linkLog :: string
  programId :: nat
  time0 :: real
  rand0 :: nat

text \<open>
  The start-up of \<^verbatim>\<open>main\<close> either returns a status at once or goes on with the
  program id that \<^verbatim>\<open>glCreateProgram\<close> gave.
\<close>

datatype Startup = Exit int | Running nat

definition shaderLogs :: "Env \<Rightarrow> ConsoleItem list" where
  "shaderLogs e =
    (if vertexCompile_ok e then []
     else [Str ''ERROR::SHADER::VERTEX::COMPILATION_FAILED'', Str (vertexLog e)]) @
    (if fragmentCompile_ok e then []
     else [Str ''ERROR::SHADER::FRAGMENT::COMPILATION_FAILED'', Str (fragmentLog e)]) @
    (if link_ok e then []
     else [Str ''ERROR::SHADER::PROGRAM::LINKING_FAILED'', Str (linkLog e)])"

definition startup :: "Env \<Rightarrow> ConsoleItem list \<times> Startup" where
  "startup e =
    (if \<not> glfwInit_ok e then ([Str ''Failed to initialize GLFW''], Exit (- 1))
     else if \<not> createWindow_ok e then ([Str ''Failed to create GLFW window''], Exit (- 1))
     else if \<not> gladLoad_ok e then ([Str ''Failed to initialize GLAD''], Exit (- 1))
     else (shaderLogs e, Running (programId e)))"

text \<open>
  What one pass of the render loop reads from outside: the keys \<^verbatim>\<open>processInput\<close>
  polls, the reading of \<^verbatim>\<open>glfwGetTime()\<close>, the value \<^verbatim>\<open>rand()\<close> returns if it is
  called, and whether the user closed the window during \<^verbatim>\<open>glfwPollEvents\<close>.
\<close>

record Input =
  keyEscape :: bool
  keyLeft :: bool
  keyRight :: bool
  now :: real
  rnd :: nat
  closeRequested :: bool

text \<open>
  The state of the running program: the global \<^verbatim>\<open>gameState\<close>, the close flag of the
  window, the \<^verbatim>\<open>static int lastSecond\<close> of \<^verbatim>\<open>displayCountdown\<close>, and the console.
\<close>

record Program =
  gameState :: GameState
  windowShouldClose :: bool
  lastSecond :: int
  console :: "ConsoleItem list"

definition paddleLeft :: "GameState \<Rightarrow> GameState" where
  "paddleLeft g =
    (let g1 = g\<lparr>paddle := (paddle g)\<lparr>position :=
                  Vec2 (vx (position (paddle g)) - 0.03) (vy (position (paddle g)))\<rparr>\<rparr>
     in if vx (position (paddle g1)) - vx (size_o (paddle g1)) / 2 < - 1
        then g1\<lparr>paddle := (paddle g1)\<lparr>position :=
                  Vec2 (- 1 + vx (size_o (paddle g1)) / 2) (vy (position (paddle g1)))\<rparr>\<rparr>
        else g1)"

definition paddleRight :: "GameState \<Rightarrow> GameState" where
  "paddleRight g =
    (let g1 = g\<lparr>paddle := (paddle g)\<lparr>position :=
                  Vec2 (vx (position (paddle g)) + 0.03) (vy (position (paddle g)))\<rparr>\<rparr>
     in if vx (position (paddle g1)) + vx (size_o (paddle g1)) / 2 > 1
        then g1\<lparr>paddle := (paddle g1)\<lparr>position :=
                  Vec2 (1 - vx (size_o (paddle g1)) / 2) (vy (position (paddle g1)))\<rparr>\<rparr>
        else g1)"

definition processInput :: "Input \<Rightarrow> Program \<Rightarrow> Program" where
  "processInput i p =
    (let p1 = (if keyEscape i then p\<lparr>windowShouldClose := True\<rparr> else p)
     in if gameStarted (gameState p1) then
          (let p2 = (if keyLeft i then p1\<lparr>gameState := paddleLeft (gameState p1)\<rparr> else p1)
           in if keyRight i then p2\<lparr>gameState := paddleRight (gameState p2)\<rparr> else p2)
        else p1)"

text \<open>\<^verbatim>\<open>static_cast<int>\<close> of a \<^verbatim>\<open>double\<close> truncates towards zero.\<close>

definition truncate :: "real \<Rightarrow> int" where
  "truncate t = (if 0 \<le> t then \<lfloor>t\<rfloor> else \<lceil>t\<rceil>)"

text \<open>
  \<^verbatim>\<open>currentSecond / 60\<close> and \<^verbatim>\<open>currentSecond % 60\<close> on \<^verbatim>\<open>int\<close>, which round
  towards zero in C++.
\<close>

definition cdiv :: "int \<Rightarrow> int \<Rightarrow> int" where
  "cdiv a b = sgn a * sgn b * (\<bar>a\<bar> div \<bar>b\<bar>)"

definition cmod :: "int \<Rightarrow> int \<Rightarrow> int" where
  "cmod a b = a - b * cdiv a b"

definition displayCountdown :: "real \<Rightarrow> Program \<Rightarrow> Program" where
  "displayCountdown remainingTime p =
    (let currentSecond = truncate remainingTime
     in if currentSecond \<noteq> lastSecond p then
          p\<lparr>lastSecond := currentSecond,
            console := console p @
              [Str ''Waiting to start game: '', Num (cdiv currentSecond 60), Str '':'',
               Num2 (cmod currentSecond 60)]\<rparr>
        else p)"

text \<open>
  One pass of the body of the render loop. Rendering writes to the window only and
  changes nothing of the program's state; it is left out.
\<close>

definition frame :: "Input \<Rightarrow> Program \<Rightarrow> Program" where
  "frame i p =
    (let p1 = processInput i p;
         currentTime = now i;
         elapsedTime = currentTime - startTime (gameState p1);
         p2 = (if elapsedTime \<ge> WAIT_TIME_SECONDS then
                 (let p3 = (if \<not> gameStarted (gameState p1)
                            then p1\<lparr>console := console p1 @ [Str ''Game started!''],
                                    gameState := (gameState p1)\<lparr>gameStarted := True\<rparr>\<rparr>
                            else p1)
                  in p3\<lparr>gameState := updateGame (rnd i) (gameState p3)\<rparr>)
               else displayCountdown (WAIT_TIME_SECONDS - elapsedTime) p1)
     in if closeRequested i then p2\<lparr>windowShouldClose := True\<rparr> else p2)"

text \<open>
  The render loop over the inputs of the passes observed so far: it stops when the
  window is to close or the game is over, and the program state after it is the result.
\<close>

fun renderLoop :: "Input list \<Rightarrow> Program \<Rightarrow> Program" where
  "renderLoop [] p = p"
| "renderLoop (i # rest) p =
    (if \<not> windowShouldClose p \<and> \<not> gameOver (gameState p)
     then renderLoop rest (frame i p) else p)"

text \<open>
  The global \<^verbatim>\<open>gameState\<close> before \<^verbatim>\<open>main\<close> runs: zero-initialised, with the default
  member initialisers of the two structs.
\<close>

definition zeroObject :: GameObject where
  "zeroObject = \<lparr>position = Vec2 0 0, size_o = Vec2 0 0, color = Vec3 0 0 0, active = True\<rparr>"

definition gameState0 :: GameState where
  "gameState0 =
    \<lparr>paddle = zeroObject, ball = zeroObject, ballVelocity = Vec2 0 0, bricks = [],
     gameOver = False, score = 0, gameStarted = False, startTime = 0\<rparr>"

text \<open>
  The program state when the render loop is entered: after \<^verbatim>\<open>initGame()\<close>, the
  reading of the start time and the message about the wait.
\<close>

definition enterLoop :: "Env \<Rightarrow> Program" where
  "enterLoop e =
    \<lparr>gameState = (initGame (rand0 e) gameState0)\<lparr>startTime := time0 e\<rparr>,
     windowShouldClose = False,
     lastSecond = - 1,
     console = fst (startup e) @ [Str ''Game will start in 4 minutes. Please wait...'']\<rparr>"

text \<open>
  \<^verbatim>\<open>main\<close> on an environment and the inputs of the passes observed: the console and
  the status returned, \<open>None\<close> while the render loop has not been left.
\<close>

definition finalMessage :: "Program \<Rightarrow> ConsoleItem list" where
  "finalMessage p =
    (if gameStarted (gameState p)
     then [Str ''Game Over! Final Score: '', Num (score (gameState p))]
     else [Str ''Game closed before starting.''])"

definition main :: "Env \<Rightarrow> Input list \<Rightarrow> ConsoleItem list \<times> int option" where
  "main e ins =
    (case snd (startup e) of
       Exit c \<Rightarrow> (fst (startup e), Some c)
     | Running prog \<Rightarrow>
         (let p = renderLoop ins (enterLoop e)
          in if \<not> windowShouldClose p \<and> \<not> gameOver (gameState p)
             then (console p, None)
             else (console p @ finalMessage p, Some 0)))"

definition allShadersOk :: "Env \<Rightarrow> Env" where
  "allShadersOk e = e\<lparr>vertexCompile_ok := True, fragmentCompile_ok := True, link_ok := True\<rparr>"

definition oneBrickState :: GameState where
  "oneBrickState =
    \<lparr>paddle = \<lparr>position = Vec2 0 (- 0.9), size_o = Vec2 PADDLE_WIDTH PADDLE_HEIGHT,
                color = Vec3 0.2 0.6 1, active = True\<rparr>,
     ball = \<lparr>position = Vec2 0 0, size_o = Vec2 BALL_SIZE BALL_SIZE,
              color = Vec3 1 1 1, active = True\<rparr>,
     ballVelocity = Vec2 0 0.01,
     bricks = [(newBrick 0 0)\<lparr>active := False\<rparr>, (newBrick 0 0)\<lparr>position := Vec2 0 0\<rparr>],
     gameOver = False, score = 390, gameStarted = True, startTime = 0\<rparr>"

definition farBrickState :: GameState where
  "farBrickState = oneBrickState\<lparr>bricks := [(newBrick 0 0)\<lparr>active := False\<rparr>, newBrick 0 0]\<rparr>"


definition paddleHitState :: GameState where
  "paddleHitState =
    \<lparr>paddle = \<lparr>position = Vec2 0 (- 0.9), size_o = Vec2 PADDLE_WIDTH PADDLE_HEIGHT,
                color = Vec3 0.2 0.6 1, active = True\<rparr>,
     ball = \<lparr>position = Vec2 0.05 (- 0.88), size_o = Vec2 BALL_SIZE BALL_SIZE,
              color = Vec3 1 1 1, active = True\<rparr>,
     ballVelocity = Vec2 0.003 (- 0.004),
     bricks = brickGrid,
     gameOver = False, score = 0, gameStarted = True, startTime = 0\<rparr>"

definition envOk :: Env where
  "envOk =
    \<lparr>glfwInit_ok = True, createWindow_ok = True, gladLoad_ok = True,
     vertexCompile_ok = True, vertexLog = [], fragmentCompile_ok = True, fragmentLog = [],
     link_ok = True, linkLog = [], programId = 3, time0 = 5, rand0 = 41\<rparr>"

definition waitingInputs :: "Input list" where
  "waitingInputs =
    [\<lparr>keyEscape = False, keyLeft = True, keyRight = False, now = 10, rnd = 0,
      closeRequested = False\<rparr>,
     \<lparr>keyEscape = False, keyLeft = False, keyRight = True, now = 200, rnd = 0,
      closeRequested = False\<rparr>]"

text \<open>Two program states that differ in the console at most.\<close>

definition sameButConsole :: "Program \<Rightarrow> Program \<Rightarrow> bool" where
  "sameButConsole p q \<longleftrightarrow>
     gameState p = gameState q \<and> windowShouldClose p = windowShouldClose q \<and>
     lastSecond p = lastSecond q"

text \<open>The sizes that \<open>initGame\<close> and \<open>resetBall\<close> give the paddle, the ball and the bricks.\<close>

definition gameSizes :: "GameState \<Rightarrow> bool" where
  "gameSizes g \<longleftrightarrow>
     size_o (paddle g) = Vec2 PADDLE_WIDTH PADDLE_HEIGHT \<and>
     size_o (ball g) = Vec2 BALL_SIZE BALL_SIZE \<and>
     (\<forall>b \<in> set (bricks g). size_o b = Vec2 BRICK_WIDTH BRICK_HEIGHT)"

section \<open>The bounce off the paddle in binary32\<close>

subsection \<open>Rounding\<close>

text \<open>
  The compiler of the repository's build scripts, the \<^verbatim>\<open>g++\<close> of MinGW-w64 for x86-64,
  computes \<^verbatim>\<open>float\<close> in IEEE binary32 and \<^verbatim>\<open>double\<close> in binary64, and rounds the
  result of every operation to the nearest number of the format, a tie to the one whose
  last digit is even. The paddle block of \<^verbatim>\<open>updateGame\<close> (\<^verbatim>\<open>game2D.cpp\<close>, lines 374
  to 387) is modelled a second time here, in this arithmetic: a \<^verbatim>\<open>float\<close> is the real
  number it stands for, and an operation on floats is the exact operation followed by
  the rounding.

  \<open>rne\<close> rounds to the nearest integer, ties to even. \<open>roundTo p emin x\<close> rounds \<open>x\<close> to
  \<open>p\<close> binary digits; below the exponent \<open>emin\<close> the spacing of the numbers stays that of
  \<open>emin\<close>, as for the subnormal numbers. There is no overflow in the model: it is that
  of the program as long as no result exceeds the largest number of the format, which
  is above \<open>2 ^ 127\<close>; the numbers of the game are below 2.
\<close>

definition rne :: "real \<Rightarrow> int" where
  "rne x =
    (if x - of_int \<lfloor>x\<rfloor> < 1 / 2 then \<lfloor>x\<rfloor>
     else if 1 / 2 < x - of_int \<lfloor>x\<rfloor> then \<lfloor>x\<rfloor> + 1
     else if even \<lfloor>x\<rfloor> then \<lfloor>x\<rfloor> else \<lfloor>x\<rfloor> + 1)"

definition roundTo :: "int \<Rightarrow> int \<Rightarrow> real \<Rightarrow> real" where
  "roundTo p emin x =
    (if x = 0 then 0
     else (let q = max \<lfloor>log 2 \<bar>x\<bar>\<rfloor> emin - p + 1
           in of_int (rne (x / 2 powr of_int q)) * 2 powr of_int q))"

definition round32 :: "real \<Rightarrow> real" where
  "round32 = roundTo 24 (- 126)"

definition round64 :: "real \<Rightarrow> real" where
  "round64 = roundTo 53 (- 1022)"

subsection \<open>The paddle block\<close>

text \<open>
  The constants of the block: a literal with the suffix \<^verbatim>\<open>f\<close> is the float nearest to
  the decimal. \<^verbatim>\<open>60.0f\<close>, \<^verbatim>\<open>180.0f\<close> and the divisor 2 are floats as they are written.
\<close>

definition PADDLE_WIDTH32 :: real where "PADDLE_WIDTH32 = round32 0.2"
definition PADDLE_HEIGHT32 :: real where "PADDLE_HEIGHT32 = round32 0.03"
definition BALL_SIZE32 :: real where "BALL_SIZE32 = round32 0.02"
definition PI32 :: real where "PI32 = round32 3.14159"

text \<open>\<^verbatim>\<open>checkCollision\<close>, with every sum, difference and quotient rounded.\<close>

definition checkCollision32 :: "GameObject \<Rightarrow> GameObject \<Rightarrow> bool" where
  "checkCollision32 a b =
    (let collisionX =
           (round32 (vx (position a) + round32 (vx (size_o a) / 2))
              \<ge> round32 (vx (position b) - round32 (vx (size_o b) / 2)) \<and>
            round32 (vx (position b) + round32 (vx (size_o b) / 2))
              \<ge> round32 (vx (position a) - round32 (vx (size_o a) / 2)));
         collisionY =
           (round32 (vy (position a) + round32 (vy (size_o a) / 2))
              \<ge> round32 (vy (position b) - round32 (vy (size_o b) / 2)) \<and>
            round32 (vy (position b) + round32 (vy (size_o b) / 2))
              \<ge> round32 (vy (position a) - round32 (vy (size_o a) / 2)))
     in collisionX \<and> collisionY)"

text \<open>
  \<^verbatim>\<open>glm::length\<close> of a \<^verbatim>\<open>glm::vec2\<close> is \<^verbatim>\<open>sqrt(dot(v, v))\<close>, and \<^verbatim>\<open>dot\<close> multiplies the
  components and adds the two products. The square root of a float is the float nearest
  to the root.
\<close>

definition length32 :: "vec2 \<Rightarrow> real" where
  "length32 v = round32 (sqrt (round32 (round32 (vx v * vx v) + round32 (vy v * vy v))))"

text \<open>
  \<^verbatim>\<open>sin(angle)\<close> and \<^verbatim>\<open>cos(angle)\<close> call the C library. What the library returns for an
  angle is a parameter of the model. The two functions are those of \<^verbatim>\<open>double\<close>, so the
  product with \<^verbatim>\<open>speed\<close> is taken in \<^verbatim>\<open>double\<close>, and the assignment to the component of
  \<^verbatim>\<open>ballVelocity\<close> rounds it to \<^verbatim>\<open>float\<close>.
\<close>

record Libm =
  lsin :: "real \<Rightarrow> real"
  lcos :: "real \<Rightarrow> real"

text \<open>The locals \<^verbatim>\<open>hitPos\<close> and \<^verbatim>\<open>angle\<close>, and the block.\<close>

definition hitPos32 :: "GameState \<Rightarrow> real" where
  "hitPos32 s =
    round32 (round32 (vx (position (ball s)) - vx (position (paddle s))) /
             round32 (vx (size_o (paddle s)) / 2))"

definition angle32 :: "GameState \<Rightarrow> real" where
  "angle32 s = round32 (round32 (round32 (hitPos32 s * 60) * PI32) / 180)"

definition paddleCollision32 :: "Libm \<Rightarrow> GameState \<Rightarrow> GameState" where
  "paddleCollision32 lib s =
    (if checkCollision32 (ball s) (paddle s) then
       (let angle = angle32 s;
            speed = length32 (ballVelocity s);
            s1 = s\<lparr>ballVelocity := Vec2 (round32 (round64 (speed * lsin lib angle)))
                                     (round32 (round64 (speed * lcos lib angle)))\<rparr>
        in if vy (ballVelocity s1) < 0
           then s1\<lparr>ballVelocity := Vec2 (vx (ballVelocity s1)) (- vy (ballVelocity s1))\<rparr>
           else s1)
     else s)"

text \<open>
  Two libraries: one returns the \<^verbatim>\<open>double\<close> nearest to the sine and to the cosine, the
  other the nearest \<^verbatim>\<open>float\<close>, as a library of single precision does.
\<close>

definition libmDouble :: Libm where
  "libmDouble = \<lparr>lsin = (\<lambda>x. round64 (sin x)), lcos = (\<lambda>x. round64 (cos x))\<rparr>"

definition libmFloat :: Libm where
  "libmFloat = \<lparr>lsin = (\<lambda>x. round32 (sin x)), lcos = (\<lambda>x. round32 (cos x))\<rparr>"

subsection \<open>The serve and the steps of the paddle\<close>

text \<open>
  The velocity that \<^verbatim>\<open>resetBall\<close> gives the ball (lines 353 to 356), for the value \<open>r\<close>
  of \<^verbatim>\<open>rand()\<close>: the integer is converted to \<^verbatim>\<open>float\<close> as it is, and the product of
  \<^verbatim>\<open>BALL_VELOCITY\<close> and the sine is taken in \<^verbatim>\<open>double\<close>, as in the paddle block.
\<close>

definition BALL_VELOCITY32 :: real where "BALL_VELOCITY32 = round32 0.01"

definition serveAngle32 :: "nat \<Rightarrow> real" where
  "serveAngle32 r = round32 (round32 (of_int (int r mod 90 - 45) * PI32) / 180)"

definition serveVelocity32 :: "Libm \<Rightarrow> nat \<Rightarrow> vec2" where
  "serveVelocity32 lib r =
    Vec2 (round32 (round64 (BALL_VELOCITY32 * lsin lib (serveAngle32 r)))) BALL_VELOCITY32"

text \<open>
  The x-coordinate of the paddle after a pass of \<^verbatim>\<open>processInput\<close> with the left key down
  (lines 294 to 298), for a paddle of the width of the game.
\<close>

definition leftStep32 :: "real \<Rightarrow> real" where
  "leftStep32 x =
    (let x1 = round32 (x - round32 0.03)
     in if round32 (x1 - round32 (PADDLE_WIDTH32 / 2)) < - 1
        then round32 (- 1 + round32 (PADDLE_WIDTH32 / 2))
        else x1)"

subsection \<open>A state of the game\<close>

text \<open>
  A state in which the paddle block finds a collision, with the numbers of a game: the
  ball has been served 10 degrees to the left of the vertical (\<^verbatim>\<open>rand() % 90\<close> was 35;
  lemma \<open>glancing_velocity\<close> below), a brick has turned it downwards, and it meets the
  paddle, which the player has moved 14 steps to the left (lemma \<open>glancing_paddle\<close>), a
  little left of the paddle's centre. All numbers are floats, written as fractions with
  a power of two for the denominator. To nine digits, which determine a float, the
  paddle is at (-0.419999987, -0.899999976), the ball at (-0.427175015, -0.879999816),
  and the velocity is (-0.00173648039, -0.00999999978).
\<close>

definition glancing :: GameState where
  "glancing =
    \<lparr>paddle = \<lparr>position = Vec2 (- 14092861 / 2 ^ 25) (- 7549747 / 2 ^ 23),
               size_o = Vec2 PADDLE_WIDTH32 PADDLE_HEIGHT32,
               color = Vec3 0.2 0.6 1, active = True\<rparr>,
     ball = \<lparr>position = Vec2 (- 14333615 / 2 ^ 25) (- 14763947 / 2 ^ 24),
             size_o = Vec2 BALL_SIZE32 BALL_SIZE32,
             color = Vec3 1 1 1, active = True\<rparr>,
     ballVelocity = Vec2 (- 14916253 / 2 ^ 33) (- 5368709 / 2 ^ 29),
     bricks = brickGrid[38 := (newBrick 4 6)\<lparr>active := False\<rparr>],
     gameOver = False, score = 10, gameStarted = True, startTime = 0\<rparr>"

section \<open>The world outside the programs\<close>

subsection \<open>Vectors of three components\<close>

definition vadd3 :: "vec3 \<Rightarrow> vec3 \<Rightarrow> vec3" where
  "vadd3 a b = Vec3 (v3x a + v3x b) (v3y a + v3y b) (v3z a + v3z b)"

definition vscale3 :: "vec3 \<Rightarrow> real \<Rightarrow> vec3" where
  "vscale3 a k = Vec3 (v3x a * k) (v3y a * k) (v3z a * k)"

subsection \<open>Random numbers and the clock\<close>

text \<open>
  The particle program and the race draw random numbers with \<^verbatim>\<open>glm::linearRand\<close> and
  \<^verbatim>\<open>rand()\<close> and read the clock with \<^verbatim>\<open>glfwGetTime()\<close>. The three are streams of the world: the
  values the successive calls give, and how many calls were made. \<open>garbage\<close> is the value
  found in a \<^verbatim>\<open>float\<close> that was never written.
\<close>

record World =
  linearRandStream :: "nat \<Rightarrow> real"
  linearRandCount :: nat
  randStream :: "nat \<Rightarrow> nat"
  randCount :: nat
  clockStream :: "nat \<Rightarrow> real"
  clockCount :: nat
  garbage :: real

text \<open>
  \<^verbatim>\<open>glm::linearRand(Min, Max)\<close> scales a random fraction of the unit interval to the
  range: the fraction is the next number of the stream. The bounds are \<open>lo\<close> and \<open>hi\<close>
  here.
\<close>

definition linearRand :: "real \<Rightarrow> real \<Rightarrow> World \<Rightarrow> real \<times> World" where
  "linearRand lo hi w =
    (linearRandStream w (linearRandCount w) * (hi - lo) + lo,
     w\<lparr>linearRandCount := Suc (linearRandCount w)\<rparr>)"

definition rand :: "World \<Rightarrow> nat \<times> World" where
  "rand w = (randStream w (randCount w), w\<lparr>randCount := Suc (randCount w)\<rparr>)"

definition glfwGetTime :: "World \<Rightarrow> real \<times> World" where
  "glfwGetTime w = (clockStream w (clockCount w), w\<lparr>clockCount := Suc (clockCount w)\<rparr>)"

text \<open>The fractions behind \<^verbatim>\<open>glm::linearRand\<close> lie in the unit interval.\<close>

definition unitStream :: "World \<Rightarrow> bool" where
  "unitStream w \<longleftrightarrow> (\<forall>n. 0 \<le> linearRandStream w n \<and> linearRandStream w n \<le> 1)"

text \<open>\<^verbatim>\<open>glm::mix(x, y, a)\<close>, the linear blend.\<close>

definition mix :: "real \<Rightarrow> real \<Rightarrow> real \<Rightarrow> real" where
  "mix x y a = x * (1 - a) + y * a"

section \<open>The particle systems\<close>

subsection \<open>Particles and systems\<close>

text \<open>
  \<^verbatim>\<open>struct Particle\<close>. Its fields \<^verbatim>\<open>position\<close>, \<^verbatim>\<open>color\<close> and \<^verbatim>\<open>size\<close> carry the
  suffix \<open>_p\<close>, to tell them from those of \<open>GameObject\<close>.
\<close>

record Particle =
  position_p :: vec3
  velocity :: vec3
  color_p :: vec3
  size_p :: real
  life :: real
  maxLife :: real
  userData :: real

text \<open>The five classes derived from \<^verbatim>\<open>ParticleSystem\<close>.\<close>

datatype SystemClass =
  RainSystem | WaterfallSystem | FireSystem | DustSystem | CoffeeCeremonySystem

text \<open>
  \<^verbatim>\<open>class ParticleSystem\<close>, with the class of the object in \<open>cls\<close> (it selects the
  virtual \<^verbatim>\<open>spawnParticle\<close> and \<^verbatim>\<open>update\<close>) and the one member that
  \<^verbatim>\<open>CoffeeCeremonySystem\<close> adds, \<open>jebenaPosition\<close>, which the other classes do not read.
  \<^verbatim>\<open>maxParticles\<close> is an \<^verbatim>\<open>unsigned int\<close> that is only compared; it is at most 2000.
\<close>

record ParticleSystem =
  cls :: SystemClass
  particles :: "Particle list"
  maxParticles :: nat
  origin :: vec3
  originVariation :: vec3
  gravity :: vec3
  spawnRate :: real
  timeSinceLastSpawn :: real
  isActive :: bool
  jebenaPosition :: vec3

subsection \<open>spawnParticle\<close>

text \<open>
  Each \<open>spawnParticle\<close> builds one particle and pushes it at the back. The draws are
  taken in the order in which they are written in the source. The classes other than
  \<^verbatim>\<open>CoffeeCeremonySystem\<close> never write \<^verbatim>\<open>userData\<close>.
\<close>

definition spawnRain :: "ParticleSystem \<Rightarrow> World \<Rightarrow> ParticleSystem \<times> World" where
  "spawnRain s w0 =
    (let (rx, w1) = linearRand (- v3x (originVariation s)) (v3x (originVariation s)) w0;
         (ry, w2) = linearRand (- v3y (originVariation s)) (v3y (originVariation s)) w1;
         (rz, w3) = linearRand (- v3z (originVariation s)) (v3z (originVariation s)) w2;
         (blueVariation, w4) = linearRand 0.8 1.0 w3;
         (sz, w5) = linearRand 0.1 0.2 w4;
         (lf, w6) = linearRand 1.0 2.0 w5;
         p = \<lparr>position_p = vadd3 (origin s) (Vec3 rx ry rz),
              velocity = Vec3 0 (- 5) 0,
              color_p = Vec3 0.3 0.5 blueVariation,
              size_p = sz, life = lf, maxLife = lf, userData = garbage w6\<rparr>
     in (s\<lparr>particles := particles s @ [p]\<rparr>, w6))"

definition spawnWaterfall :: "ParticleSystem \<Rightarrow> World \<Rightarrow> ParticleSystem \<times> World" where
  "spawnWaterfall s w0 =
    (let (rx, w1) = linearRand (- v3x (originVariation s)) (v3x (originVariation s)) w0;
         (ry, w2) = linearRand (- v3y (originVariation s)) (v3y (originVariation s)) w1;
         (rz, w3) = linearRand (- v3z (originVariation s)) (v3z (originVariation s)) w2;
         (angle, w4) = linearRand 0 (2 * pi) w3;
         (fall, w5) = linearRand (- 1) 0 w4;
         (forward, w6) = linearRand 0 2 w5;
         (greenVariation, w7) = linearRand 0.6 0.8 w6;
         (blueVariation, w8) = linearRand 0.7 0.9 w7;
         (sz, w9) = linearRand 0.3 0.6 w8;
         (lf, w10) = linearRand 2.0 4.0 w9;
         p = \<lparr>position_p = vadd3 (origin s) (Vec3 rx ry rz),
              velocity = Vec3 (sin angle * 0.3) fall (cos angle * 0.3 + forward),
              color_p = Vec3 0.2 greenVariation blueVariation,
              size_p = sz, life = lf, maxLife = lf, userData = garbage w10\<rparr>
     in (s\<lparr>particles := particles s @ [p]\<rparr>, w10))"

definition spawnFire :: "ParticleSystem \<Rightarrow> World \<Rightarrow> ParticleSystem \<times> World" where
  "spawnFire s w0 =
    (let (rx, w1) = linearRand (- v3x (originVariation s) * 1.5)
                               (v3x (originVariation s) * 1.5) w0;
         (ry, w2) = linearRand (- v3y (originVariation s)) (v3y (originVariation s)) w1;
         (rz, w3) = linearRand (- v3z (originVariation s) * 1.5)
                               (v3z (originVariation s) * 1.5) w2;
         (angle, w4) = linearRand 0 (2 * pi) w3;
         (dispersionForce, w5) = linearRand 0.5 1.5 w4;
         (rise, w6) = linearRand 0.5 2.0 w5;
         (t, w7) = linearRand 0 1 w6;
         (green, w8) = (if t < 0.6 then linearRand 0.1 0.3 w7 else linearRand 0.4 0.7 w7);
         (sz, w9) = linearRand 0.5 1.0 w8;
         (lf, w10) = linearRand 0.5 1.5 w9;
         p = \<lparr>position_p = vadd3 (origin s) (Vec3 rx ry rz),
              velocity = Vec3 (cos angle * dispersionForce) rise (sin angle * dispersionForce),
              color_p = Vec3 1 green 0,
              size_p = sz, life = lf, maxLife = lf, userData = garbage w10\<rparr>
     in (s\<lparr>particles := particles s @ [p]\<rparr>, w10))"

definition spawnDust :: "ParticleSystem \<Rightarrow> World \<Rightarrow> ParticleSystem \<times> World" where
  "spawnDust s w0 =
    (let (rx, w1) = linearRand (- v3x (originVariation s)) (v3x (originVariation s)) w0;
         (ry, w2) = linearRand (- v3y (originVariation s)) (v3y (originVariation s)) w1;
         (rz, w3) = linearRand (- v3z (originVariation s)) (v3z (originVariation s)) w2;
         (angle, w4) = linearRand 0 (2 * pi) w3;
         (speed, w5) = linearRand 0.05 0.2 w4;
         (drift, w6) = linearRand (- 0.05) 0.1 w5;
         (brownVariation, w7) = linearRand 0.8 1.0 w6;
         (sz, w8) = linearRand 0.2 0.4 w7;
         (lf, w9) = linearRand 5.0 10.0 w8;
         p = \<lparr>position_p = vadd3 (origin s) (Vec3 rx ry rz),
              velocity = Vec3 (cos angle * speed) drift (sin angle * speed),
              color_p = Vec3 (0.9 * brownVariation) (0.7 * brownVariation)
                             (0.5 * brownVariation),
              size_p = sz, life = lf, maxLife = lf, userData = garbage w9\<rparr>
     in (s\<lparr>particles := particles s @ [p]\<rparr>, w9))"

definition spawnCoffee :: "ParticleSystem \<Rightarrow> World \<Rightarrow> ParticleSystem \<times> World" where
  "spawnCoffee s w0 =
    (let (rx, w1) = linearRand (- 0.03) 0.03 w0;
         (ry, w2) = linearRand 0 0.03 w1;
         (rz, w3) = linearRand (- 0.03) 0.03 w2;
         (r, w4) = rand w3;
         leftStream = (r mod 2 = 0);
         angle = (if leftStream then - 0.2 else 0.2);
         (up, w5) = linearRand 0.7 0.9 w4;
         (grayValue, w6) = linearRand 0.75 0.85 w5;
         (sz, w7) = linearRand 0.15 0.25 w6;
         (lf, w8) = linearRand 4.0 6.0 w7;
         p = \<lparr>position_p = vadd3 (origin s) (Vec3 rx ry rz),
              velocity = Vec3 angle up 0,
              color_p = Vec3 grayValue grayValue grayValue,
              size_p = sz, life = lf, maxLife = lf,
              userData = (if leftStream then 0 else 1)\<rparr>
     in (s\<lparr>particles := particles s @ [p]\<rparr>, w8))"

text \<open>The virtual call \<^verbatim>\<open>spawnParticle()\<close>.\<close>

definition spawnParticle :: "ParticleSystem \<Rightarrow> World \<Rightarrow> ParticleSystem \<times> World" where
  "spawnParticle s w =
    (case cls s of
       RainSystem \<Rightarrow> spawnRain s w
     | WaterfallSystem \<Rightarrow> spawnWaterfall s w
     | FireSystem \<Rightarrow> spawnFire s w
     | DustSystem \<Rightarrow> spawnDust s w
     | CoffeeCeremonySystem \<Rightarrow> spawnCoffee s w)"

subsection \<open>update\<close>

text \<open>
  The first loop of \<^verbatim>\<open>ParticleSystem::update\<close>: every particle ages by \<open>dt\<close>; one whose
  life is used up is erased, any other moves under gravity.
\<close>

fun ageParticles :: "vec3 \<Rightarrow> real \<Rightarrow> Particle list \<Rightarrow> Particle list" where
  "ageParticles g dt [] = []"
| "ageParticles g dt (p # ps) =
    (let p1 = p\<lparr>life := life p - dt\<rparr>
     in if life p1 \<le> 0 then ageParticles g dt ps
        else (let p2 = p1\<lparr>velocity := vadd3 (velocity p1) (vscale3 g dt)\<rparr>;
                  p3 = p2\<lparr>position_p := vadd3 (position_p p2) (vscale3 (velocity p2) dt)\<rparr>
              in p3 # ageParticles g dt ps))"

text \<open>
  The \<^verbatim>\<open>else\<close> branch of the first loop of \<^verbatim>\<open>CoffeeCeremonySystem::update\<close>, for a
  particle whose life is already reduced; \<open>time\<close> is the reading of the clock.
\<close>

definition coffeeMove :: "vec3 \<Rightarrow> vec3 \<Rightarrow> real \<Rightarrow> real \<Rightarrow> Particle \<Rightarrow> Particle" where
  "coffeeMove g jebena dt time p =
    (let p1 = p\<lparr>velocity := vadd3 (velocity p) (vscale3 (vscale3 g dt) 0.7)\<rparr>;
         leftStream = (userData p1 < 0.5);
         heightRatio = v3y (position_p p1) - v3y jebena;
         waveFreq = (if leftStream then 2.5 else 3.2);
         waveAmp = 0.2 * min 1 (heightRatio / 2);
         zigzagX = sin (time * waveFreq + heightRatio * 2) * waveAmp;
         zigzagZ = cos (time * waveFreq * 0.7 + heightRatio * 1.5) * waveAmp * 0.5;
         zigzagMotion = vscale3 (Vec3 zigzagX 0 zigzagZ) dt;
         basePathX = (if leftStream then - 0.2 else 0.2) * heightRatio;
         pathForce = 0.3 * dt;
         targetX = v3x jebena + basePathX + zigzagX * 3;
         targetZ = v3z jebena + zigzagZ * 3;
         pathCorrection = Vec3 ((targetX - v3x (position_p p1)) * pathForce) 0
                               ((targetZ - v3z (position_p p1)) * pathForce);
         p2 = p1\<lparr>position_p := vadd3 (position_p p1)
                 (vadd3 (vadd3 (vscale3 (velocity p1) dt) zigzagMotion) pathCorrection)\<rparr>;
         heightFactor = min 1 (heightRatio / 3);
         grayValue = mix 0.8 0.95 heightFactor
     in p2\<lparr>color_p := Vec3 grayValue grayValue grayValue\<rparr>)"

fun ageCoffee ::
  "vec3 \<Rightarrow> vec3 \<Rightarrow> real \<Rightarrow> Particle list \<Rightarrow> World \<Rightarrow> Particle list \<times> World" where
  "ageCoffee g jebena dt [] w = ([], w)"
| "ageCoffee g jebena dt (p # ps) w =
    (let p1 = p\<lparr>life := life p - dt\<rparr>
     in if life p1 \<le> 0 then ageCoffee g jebena dt ps w
        else (coffeeMove g jebena dt (fst (glfwGetTime w)) p1 #
                fst (ageCoffee g jebena dt ps (snd (glfwGetTime w))),
              snd (ageCoffee g jebena dt ps (snd (glfwGetTime w)))))"

text \<open>
  The second loop of both \<^verbatim>\<open>update\<close> functions: particles are spawned while the time
  since the last spawn covers the spawn rate and the vector is below its capacity.
\<close>

function spawnLoop :: "ParticleSystem \<Rightarrow> World \<Rightarrow> ParticleSystem \<times> World" where
  "spawnLoop s w =
    (if timeSinceLastSpawn s \<ge> spawnRate s \<and> length (particles s) < maxParticles s
     then spawnLoop
            ((fst (spawnParticle s w))
               \<lparr>timeSinceLastSpawn :=
                  timeSinceLastSpawn (fst (spawnParticle s w)) -
                  spawnRate (fst (spawnParticle s w))\<rparr>)
            (snd (spawnParticle s w))
     else (s, w))"
  by pat_completeness auto
termination
proof (relation "measure (\<lambda>(s, w). maxParticles s - length (particles s))")
  show "wf (measure (\<lambda>(s, w). maxParticles s - length (particles s)))"
    by simp
next
  fix s :: ParticleSystem and w :: World
  assume c: "spawnRate s \<le> timeSinceLastSpawn s \<and> length (particles s) < maxParticles s"
  have "maxParticles (fst (spawnParticle s w)) = maxParticles s \<and>
      length (particles (fst (spawnParticle s w))) = Suc (length (particles s))"
    by (cases "cls s")
      (simp_all add: spawnParticle_def spawnRain_def spawnWaterfall_def spawnFire_def
        spawnDust_def spawnCoffee_def Let_def split_def)
  with c show "(((fst (spawnParticle s w))
               \<lparr>timeSinceLastSpawn :=
                  timeSinceLastSpawn (fst (spawnParticle s w)) -
                  spawnRate (fst (spawnParticle s w))\<rparr>,
            snd (spawnParticle s w)), (s, w))
        \<in> measure (\<lambda>(s, w). maxParticles s - length (particles s))"
    by auto
qed

declare spawnLoop.simps [simp del]

text \<open>
  \<^verbatim>\<open>update(dt)\<close>: \<^verbatim>\<open>CoffeeCeremonySystem\<close> overrides it, the other classes inherit
  the one of \<^verbatim>\<open>ParticleSystem\<close>.
\<close>

definition update :: "ParticleSystem \<Rightarrow> real \<Rightarrow> World \<Rightarrow> ParticleSystem \<times> World" where
  "update s dt w =
    (if \<not> isActive s then (s, w)
     else
       (let (ps, w1) =
              (if cls s = CoffeeCeremonySystem
               then ageCoffee (gravity s) (jebenaPosition s) dt (particles s) w
               else (ageParticles (gravity s) dt (particles s), w));
            s1 = s\<lparr>particles := ps\<rparr>;
            s2 = s1\<lparr>timeSinceLastSpawn := timeSinceLastSpawn s1 + dt\<rparr>
        in spawnLoop s2 w1))"

subsection \<open>Construction\<close>

text \<open>
  The constructor of \<^verbatim>\<open>ParticleSystem\<close>; \<^verbatim>\<open>particles.reserve\<close> changes no length.
\<close>

definition newParticleSystem ::
  "SystemClass \<Rightarrow> nat \<Rightarrow> vec3 \<Rightarrow> vec3 \<Rightarrow> vec3 \<Rightarrow> real \<Rightarrow> ParticleSystem" where
  "newParticleSystem c mx orig origVar grav rate =
    \<lparr>cls = c, particles = [], maxParticles = mx, origin = orig, originVariation = origVar,
     gravity = grav, spawnRate = rate, timeSinceLastSpawn = 0, isActive = True,
     jebenaPosition = Vec3 0 0 0\<rparr>"

text \<open>The capacity each class passes to the constructor of its base.\<close>

definition capacity :: "SystemClass \<Rightarrow> nat" where
  "capacity c =
    (case c of RainSystem \<Rightarrow> 1000 | WaterfallSystem \<Rightarrow> 2000 | FireSystem \<Rightarrow> 800
     | DustSystem \<Rightarrow> 600 | CoffeeCeremonySystem \<Rightarrow> 500)"

text \<open>The loop \<^verbatim>\<open>for (int i = 0; i < maxParticles / 4; i++) spawnParticle();\<close>\<close>

fun prepopulate :: "nat \<Rightarrow> ParticleSystem \<Rightarrow> World \<Rightarrow> ParticleSystem \<times> World" where
  "prepopulate 0 s w = (s, w)"
| "prepopulate (Suc n) s w = prepopulate n (fst (spawnParticle s w)) (snd (spawnParticle s w))"

text \<open>The constructors of the five classes.\<close>

definition construct :: "SystemClass \<Rightarrow> World \<Rightarrow> ParticleSystem \<times> World" where
  "construct c w =
    (let s0 =
       (case c of
          RainSystem \<Rightarrow>
            newParticleSystem c (capacity c) (Vec3 0 10 0) (Vec3 10 0 10) (Vec3 0 (- 9.8) 0) 0.001
        | WaterfallSystem \<Rightarrow>
            newParticleSystem c (capacity c) (Vec3 0 5 (- 5)) (Vec3 2 0.1 0.1) (Vec3 0 (- 9.8) 0)
              0.0005
        | FireSystem \<Rightarrow>
            newParticleSystem c (capacity c) (Vec3 0 0 (- 2)) (Vec3 1 0.1 1) (Vec3 0 2 0) 0.0005
        | DustSystem \<Rightarrow>
            newParticleSystem c (capacity c) (Vec3 0 0.1 0) (Vec3 10 0.1 10) (Vec3 0 0.05 0) 0.01
        | CoffeeCeremonySystem \<Rightarrow>
            (newParticleSystem c (capacity c) (Vec3 0 0.2 (- 2.5)) (Vec3 0.05 0.02 0.05)
               (Vec3 0 0.4 0) 0.008)
              \<lparr>jebenaPosition := Vec3 0 0.2 (- 2.5), origin := Vec3 0 0.2 (- 2.5)\<rparr>)
     in prepopulate (maxParticles s0 div 4) s0 w)"

text \<open>A sequence of calls \<^verbatim>\<open>update(dt)\<close>, one per element of the list.\<close>

fun updates :: "ParticleSystem \<times> World \<Rightarrow> real list \<Rightarrow> ParticleSystem \<times> World" where
  "updates sw [] = sw"
| "updates sw (dt # dts) = updates (update (fst sw) dt (snd sw)) dts"

subsection \<open>Notions for the properties of the particle systems\<close>

text \<open>
  The particles of a vector that a call \<^verbatim>\<open>update(dt)\<close> keeps: those whose life minus
  \<open>dt\<close> is not at or below zero, in their order.
\<close>

definition survivors :: "real \<Rightarrow> Particle list \<Rightarrow> Particle list" where
  "survivors dt ps = filter (\<lambda>p. \<not> life p - dt \<le> 0) ps"

text \<open>The particle that \<open>spawnParticle\<close> pushes.\<close>

definition spawned :: "ParticleSystem \<Rightarrow> World \<Rightarrow> Particle" where
  "spawned s w = last (particles (fst (spawnParticle s w)))"

text \<open>The particles after the first loop of \<open>update\<close>.\<close>

definition aged :: "ParticleSystem \<Rightarrow> real \<Rightarrow> World \<Rightarrow> Particle list" where
  "aged s dt w =
    (if cls s = CoffeeCeremonySystem
     then fst (ageCoffee (gravity s) (jebenaPosition s) dt (particles s) w)
     else ageParticles (gravity s) dt (particles s))"

text \<open>A world whose random fractions are all one half, and a rain system of two drops.\<close>

definition halfWorld :: World where
  "halfWorld =
    \<lparr>linearRandStream = (\<lambda>n. 1 / 2), linearRandCount = 0, randStream = (\<lambda>n. n),
     randCount = 0, clockStream = (\<lambda>n. real n), clockCount = 0, garbage = 0\<rparr>"

definition raindrop :: "real \<Rightarrow> Particle" where
  "raindrop l =
    \<lparr>position_p = Vec3 0 10 0, velocity = Vec3 0 (- 5) 0, color_p = Vec3 0.3 0.5 0.9,
     size_p = 0.15, life = l, maxLife = 2, userData = 0\<rparr>"

definition twoDrops :: ParticleSystem where
  "twoDrops =
    (newParticleSystem RainSystem 1000 (Vec3 0 10 0) (Vec3 10 0 10) (Vec3 0 (- 9.8) 0) 0.001)
      \<lparr>particles := [raindrop 0.3, raindrop 1]\<rparr>"

section \<open>The race animation (CEStudents.cpp)\<close>

subsection \<open>Constants and state\<close>

definition TRACK_LENGTH :: real where "TRACK_LENGTH = 50"

text \<open>
  \<^verbatim>\<open>struct Student\<close>. Its fields \<^verbatim>\<open>position\<close> and \<^verbatim>\<open>color\<close> carry the suffix \<open>_s\<close>. The
  member \<^verbatim>\<open>humanModel\<close> only holds what is drawn and is left out.
\<close>

record Student =
  name :: string
  trackNumber :: nat
  position_s :: real
  speed :: real
  armPhase :: real
  legPhase :: real
  color_s :: vec3
  finishTime :: real
  finished :: bool

text \<open>
  The race state: the vector \<^verbatim>\<open>students\<close> of \<^verbatim>\<open>main\<close>, the globals of the race and of
  the timing, the two \<^verbatim>\<open>static\<close> flags of \<^verbatim>\<open>processInput\<close>, the close flag of the
  window and the console. The camera moves no student and is left out.
\<close>

record Race =
  students :: "Student list"
  raceStarted :: bool
  raceFinished :: bool
  raceStartTime :: real
  deltaTime :: real
  lastFrame :: real
  spacePressed :: bool
  rPressed :: bool
  raceShouldClose :: bool
  raceConsole :: "ConsoleItem list"

text \<open>
  What one pass of the render loop of the race reads from the window: the keys, and
  whether the user closed the window during \<^verbatim>\<open>glfwPollEvents\<close>. The clock and the
  random numbers come from the world.
\<close>

record RaceInput =
  escapeKey :: bool
  spaceKey :: bool
  rKey :: bool
  raceCloseRequested :: bool

subsection \<open>initializeStudents, renderStudent and resetRace\<close>

text \<open>
  \<^verbatim>\<open>CEStudents.cpp\<close> declares \<^verbatim>\<open>void initializeStudents(std::vector<Student>&)\<close> and
  calls it from \<^verbatim>\<open>main\<close> and from \<^verbatim>\<open>resetRace\<close>, but the file holds no body for it.
  It is a parameter of every function that may call it: what it makes of the vector it
  is handed, in a world from which it may draw random numbers. Nothing is assumed of it
  but that it writes that vector only.
\<close>

type_synonym Initialiser = "Student list \<Rightarrow> World \<Rightarrow> Student list \<times> World"

definition resetRace :: "Initialiser \<Rightarrow> Race \<Rightarrow> World \<Rightarrow> Race \<times> World" where
  "resetRace init p w =
    (p\<lparr>students := fst (init (students p) w), raceStarted := False, raceFinished := False\<rparr>,
     snd (init (students p) w))"

text \<open>
  Modelled from the spec: \<^verbatim>\<open>renderStudent\<close>, which \<^verbatim>\<open>CEStudents.cpp\<close> declares and calls
  for every student right after its update, and whose body the file does not hold. The
  spec has each program update its simulated state before issuing immediate per-object
  draw calls; \<^verbatim>\<open>renderStudent\<close> is that draw call: it draws the student at the given
  time and leaves the student as it is.
\<close>

definition renderStudent :: "Student \<Rightarrow> real \<Rightarrow> Student" where
  "renderStudent st time = st"

subsection \<open>One pass of the render loop\<close>

text \<open>The race control keys of \<^verbatim>\<open>processInput\<close>: space starts or pauses, R resets.\<close>

definition spaceControl :: "RaceInput \<Rightarrow> Race \<Rightarrow> World \<Rightarrow> Race \<times> World" where
  "spaceControl i p w =
    (if spaceKey i then
       (if \<not> spacePressed p then
          (let p1 = p\<lparr>spacePressed := True\<rparr>
           in if \<not> raceStarted p1 then
                (p1\<lparr>raceStarted := True, raceStartTime := fst (glfwGetTime w),
                    raceConsole := raceConsole p1 @ [Str ''Race started!'']\<rparr>,
                 snd (glfwGetTime w))
              else if \<not> raceFinished p1 then
                (p1\<lparr>raceStarted := False,
                    raceConsole := raceConsole p1 @ [Str ''Race paused!'']\<rparr>, w)
              else (p1, w))
        else (p, w))
     else (p\<lparr>spacePressed := False\<rparr>, w))"

definition resetControl :: "Initialiser \<Rightarrow> RaceInput \<Rightarrow> Race \<Rightarrow> World \<Rightarrow> Race \<times> World" where
  "resetControl init i p w =
    (if rKey i then
       (if \<not> rPressed p then
          (let p1 = fst (resetRace init (p\<lparr>rPressed := True\<rparr>) w);
               w1 = snd (resetRace init (p\<lparr>rPressed := True\<rparr>) w)
           in (p1\<lparr>raceConsole := raceConsole p1 @ [Str ''Race reset!'']\<rparr>, w1))
        else (p, w))
     else (p\<lparr>rPressed := False\<rparr>, w))"

definition processInput_race ::
  "Initialiser \<Rightarrow> RaceInput \<Rightarrow> Race \<Rightarrow> World \<Rightarrow> Race \<times> World" where
  "processInput_race init i p w =
    (let p1 = (if escapeKey i then p\<lparr>raceShouldClose := True\<rparr> else p)
     in resetControl init i (fst (spaceControl i p1 w)) (snd (spaceControl i p1 w)))"

text \<open>
  The body of the loop \<^verbatim>\<open>for (auto& student : students)\<close> of \<^verbatim>\<open>main\<close>, up to the call
  of \<^verbatim>\<open>renderStudent\<close>.
\<close>

definition advance :: "real \<Rightarrow> real \<Rightarrow> Student \<Rightarrow> Student" where
  "advance dT currentFrame st =
    (if \<not> finished st then
       (let st1 = st\<lparr>position_s := position_s st - speed st * dT\<rparr>
        in if position_s st1 \<le> - TRACK_LENGTH / 2
           then st1\<lparr>finished := True, finishTime := currentFrame\<rparr>
           else st1)
     else st)"

text \<open>
  One pass of the render loop of \<^verbatim>\<open>main\<close>: the timing, \<^verbatim>\<open>processInput\<close>, and the
  update and drawing of the students. All else in the pass draws.
\<close>

definition raceFrame :: "Initialiser \<Rightarrow> RaceInput \<Rightarrow> Race \<Rightarrow> World \<Rightarrow> Race \<times> World" where
  "raceFrame init i p w =
    (let currentFrame = fst (glfwGetTime w);
         p1 = p\<lparr>deltaTime := currentFrame - lastFrame p, lastFrame := currentFrame\<rparr>;
         p2 = fst (processInput_race init i p1 (snd (glfwGetTime w)));
         w2 = snd (processInput_race init i p1 (snd (glfwGetTime w)))
     in (p2\<lparr>students :=
              map (\<lambda>st. renderStudent (advance (deltaTime p2) currentFrame st) currentFrame)
                (students p2),
            raceShouldClose := raceShouldClose p2 \<or> raceCloseRequested i\<rparr>,
         w2))"

text \<open>The passes of the render loop over a list of inputs, while the window is open.\<close>

fun raceLoop :: "Initialiser \<Rightarrow> RaceInput list \<Rightarrow> Race \<Rightarrow> World \<Rightarrow> Race \<times> World" where
  "raceLoop init [] p w = (p, w)"
| "raceLoop init (i # rest) p w =
    (if raceShouldClose p then (p, w)
     else raceLoop init rest (fst (raceFrame init i p w)) (snd (raceFrame init i p w)))"

text \<open>Whether a pass calls \<open>resetRace\<close>: R is down and was not down in the pass before.\<close>

definition resetsRace :: "RaceInput \<Rightarrow> Race \<Rightarrow> bool" where
  "resetsRace i p \<longleftrightarrow> rKey i \<and> \<not> rPressed p"

text \<open>
  A student at the finish and one on the way, a race of the two, a pass with no key
  down, and an initialiser for the examples, which lines every student up again.
\<close>

definition arrived :: Student where
  "arrived =
    \<lparr>name = ''Alex'', trackNumber = 0, position_s = - 25.2, speed = 3, armPhase = 0,
     legPhase = 3.14159, color_s = Vec3 0.5 0.5 0.5, finishTime = 7.5, finished = True\<rparr>"

definition runner :: Student where
  "runner = arrived\<lparr>name := ''Ben'', position_s := 1, finishTime := 0, finished := False\<rparr>"

definition duo :: Race where
  "duo =
    \<lparr>students = [arrived, runner], raceStarted = True, raceFinished = False,
     raceStartTime = 0, deltaTime = 0, lastFrame = - 1, spacePressed = False,
     rPressed = False, raceShouldClose = False, raceConsole = []\<rparr>"

definition noKeys :: RaceInput where
  "noKeys = \<lparr>escapeKey = False, spaceKey = False, rKey = False, raceCloseRequested = False\<rparr>"

definition keyR :: RaceInput where
  "keyR = noKeys\<lparr>rKey := True\<rparr>"

definition lineUp :: Initialiser where
  "lineUp sts w =
    (map (\<lambda>st. st\<lparr>position_s := TRACK_LENGTH / 2, finishTime := 0, finished := False\<rparr>) sts, w)"

section \<open>Properties of the breakout game\<close>

subsection \<open>checkCollision\<close>

lemma closed_intervals_meet:
  fixes l1 h1 l2 h2 :: real
  assumes "l1 \<le> h1" and "l2 \<le> h2"
  shows "{l1..h1} \<inter> {l2..h2} \<noteq> {} \<longleftrightarrow> h1 \<ge> l2 \<and> h2 \<ge> l1"
proof -
  have "{l1..h1} \<inter> {l2..h2} = {max l1 l2 .. min h1 h2}"
    by auto
  then show ?thesis
    using assms by auto
qed

text \<open>
  C1: a game object is a rectangle given by its centre and its size, so its size is not
  negative on either axis (lemma \<open>sizes_in_game\<close> below: in the game every size is
  one of the positive constants). For two such objects \<open>checkCollision a b\<close> is true
  exactly when the closed x-intervals of \<open>a\<close> and \<open>b\<close> intersect and their closed
  y-intervals intersect.
\<close>

theorem checkCollision_iff_overlap:
  assumes "0 \<le> vx (size_o a)" and "0 \<le> vy (size_o a)"
    and "0 \<le> vx (size_o b)" and "0 \<le> vy (size_o b)"
  shows "checkCollision a b \<longleftrightarrow> overlapBothAxes a b"
proof -
  have X: "xInterval a \<inter> xInterval b \<noteq> {} \<longleftrightarrow>
      vx (position a) + vx (size_o a) / 2 \<ge> vx (position b) - vx (size_o b) / 2 \<and>
      vx (position b) + vx (size_o b) / 2 \<ge> vx (position a) - vx (size_o a) / 2"
    unfolding xInterval_def using assms(1,3)
    by (intro closed_intervals_meet) simp_all
  have Y: "yInterval a \<inter> yInterval b \<noteq> {} \<longleftrightarrow>
      vy (position a) + vy (size_o a) / 2 \<ge> vy (position b) - vy (size_o b) / 2 \<and>
      vy (position b) + vy (size_o b) / 2 \<ge> vy (position a) - vy (size_o a) / 2"
    unfolding yInterval_def using assms(2,4)
    by (intro closed_intervals_meet) simp_all
  show ?thesis
    unfolding overlapBothAxes_def X Y by (simp add: checkCollision_def Let_def)
qed

theorem checkCollision_iff_overlap_witness:
  "checkCollision (unitBox 0 0) (unitBox 1 1) \<and> overlapBothAxes (unitBox 0 0) (unitBox 1 1) \<and>
   \<not> checkCollision (unitBox 0 0) (unitBox 3 0) \<and> \<not> overlapBothAxes (unitBox 0 0) (unitBox 3 0)"
proof -
  have a: "checkCollision (unitBox 0 0) (unitBox 1 1)"
    by (simp add: checkCollision_def unitBox_def)
  have b: "\<not> checkCollision (unitBox 0 0) (unitBox 3 0)"
    by (simp add: checkCollision_def unitBox_def)
  have s: "0 \<le> vx (size_o (unitBox cx cy))" "0 \<le> vy (size_o (unitBox cx cy))" for cx cy
    by (simp_all add: unitBox_def)
  from a b checkCollision_iff_overlap [OF s s, of 0 0 1 1]
    checkCollision_iff_overlap [OF s s, of 0 0 3 0]
  show ?thesis by simp
qed

subsection \<open>The bricks\<close>

lemma length_hitBricks: "length (fst (hitBricks b bs)) = length bs"
  by (induction bs) simp_all

lemma nth_hitBricks:
  "i < length bs \<Longrightarrow>
     fst (hitBricks b bs) ! i = (bs ! i)\<lparr>active := active (fst (hitBricks b bs) ! i)\<rparr> \<and>
     (active (fst (hitBricks b bs) ! i) \<longrightarrow> active (bs ! i))"
proof (induction bs arbitrary: i)
  case Nil
  then show ?case by simp
next
  case (Cons brick rest)
  show ?case
  proof (cases i)
    case 0
    then show ?thesis by simp
  next
    case (Suc j)
    with Cons.prems have "j < length rest" by simp
    from Cons.IH [OF this] Suc show ?thesis by simp
  qed
qed

lemma hitBricks_miss: "\<not> snd (hitBricks b bs) \<Longrightarrow> fst (hitBricks b bs) = bs"
  by (induction bs) (auto split: if_splits)

lemma allBricksDestroyed_iff: "allBricksDestroyed bs \<longleftrightarrow> (\<forall>b \<in> set bs. \<not> active b)"
  by (induction bs) simp_all

lemma bricks_brickCollisions: "bricks (brickCollisions s) = fst (hitBricks (ball s) (bricks s))"
  by (simp add: brickCollisions_def hitBricks_miss)

lemma bricks_beforeBoardCheck:
  "bricks (beforeBoardCheck s) = fst (hitBricks (ball (moveBall s)) (bricks s))"
  by (simp add: beforeBoardCheck_def fellBelow_def bricks_brickCollisions paddleCollision_def
      wallCollisions_def Let_def moveBall_def)

lemma paddle_beforeBoardCheck: "paddle (beforeBoardCheck s) = paddle s"
  by (simp add: beforeBoardCheck_def fellBelow_def brickCollisions_def paddleCollision_def
      wallCollisions_def Let_def moveBall_def)

lemma ball_beforeBoardCheck: "ball (beforeBoardCheck s) = ball (moveBall s)"
  by (simp add: beforeBoardCheck_def fellBelow_def brickCollisions_def paddleCollision_def
      wallCollisions_def Let_def)

lemma length_brickGrid: "length brickGrid = BRICK_ROWS * BRICK_COLS"
  by (simp add: brickGrid_def length_concat comp_def sum_list_triv)

lemma active_brickGrid: "b \<in> set brickGrid \<Longrightarrow> active b"
  by (auto simp: brickGrid_def newBrick_def)

lemma bricks_initGame: "bricks (initGame r s) = brickGrid"
  by (simp add: initGame_def Let_def)

lemma oneBrick_cleared: "\<forall>b \<in> set (bricks (beforeBoardCheck oneBrickState)). \<not> active b"
  by (simp add: bricks_beforeBoardCheck moveBall_def oneBrickState_def checkCollision_def
      newBrick_def vadd2_def BALL_SIZE_def BRICK_WIDTH_def BRICK_HEIGHT_def)

lemma farBrick_not_cleared:
  "\<not> (\<forall>b \<in> set (bricks (beforeBoardCheck farBrickState)). \<not> active b)"
  by (simp add: bricks_beforeBoardCheck moveBall_def oneBrickState_def farBrickState_def
      checkCollision_def newBrick_def vadd2_def BALL_SIZE_def BRICK_WIDTH_def BRICK_HEIGHT_def)

text \<open>
  C5: in a step of \<open>updateGame\<close> that leaves an active brick, the vector of bricks keeps
  its length, every brick keeps all its fields but \<open>active\<close>, and a brick that is active
  after the step was active before it: the flag only goes from true to false. In a step
  after whose brick loop no brick is active, \<open>initGame\<close> runs and the bricks are the full
  grid of \<open>BRICK_ROWS * BRICK_COLS\<close> bricks, all active.
\<close>

theorem bricks_only_deactivate_or_reset:
  "(\<not> (\<forall>b \<in> set (bricks (beforeBoardCheck s)). \<not> active b) \<longrightarrow>
      length (bricks (updateGame r s)) = length (bricks s) \<and>
      (\<forall>i < length (bricks s).
         (active (bricks (updateGame r s) ! i) \<longrightarrow> active (bricks s ! i)) \<and>
         bricks (updateGame r s) ! i =
           (bricks s ! i)\<lparr>active := active (bricks (updateGame r s) ! i)\<rparr>)) \<and>
   ((\<forall>b \<in> set (bricks (beforeBoardCheck s)). \<not> active b) \<longrightarrow>
      bricks (updateGame r s) = brickGrid \<and>
      length (bricks (updateGame r s)) = BRICK_ROWS * BRICK_COLS \<and>
      (\<forall>b \<in> set (bricks (updateGame r s)). active b))"
proof (cases "allBricksDestroyed (bricks (beforeBoardCheck s))")
  case True
  then have "bricks (updateGame r s) = brickGrid"
    by (simp add: updateGame_def Let_def bricks_initGame)
  with True show ?thesis
    by (simp add: allBricksDestroyed_iff length_brickGrid active_brickGrid)
next
  case False
  then have u: "bricks (updateGame r s) = fst (hitBricks (ball (moveBall s)) (bricks s))"
    by (simp add: updateGame_def Let_def bricks_beforeBoardCheck)
  have n: "\<not> (\<forall>b \<in> set (bricks (beforeBoardCheck s)). \<not> active b)"
    using False by (simp add: allBricksDestroyed_iff)
  have l: "length (bricks (updateGame r s)) = length (bricks s)"
    by (simp add: u length_hitBricks)
  have m: "\<forall>i < length (bricks s).
         (active (bricks (updateGame r s) ! i) \<longrightarrow> active (bricks s ! i)) \<and>
         bricks (updateGame r s) ! i =
           (bricks s ! i)\<lparr>active := active (bricks (updateGame r s) ! i)\<rparr>"
    unfolding u using nth_hitBricks [of _ "bricks s" "ball (moveBall s)"] by blast
  from n l m show ?thesis
    by blast
qed

theorem bricks_only_deactivate_or_reset_witness:
  "length (bricks (updateGame 7 farBrickState)) = 2 \<and>
   \<not> active (bricks (updateGame 7 farBrickState) ! 0) \<and>
   bricks (updateGame 7 oneBrickState) = brickGrid \<and>
   length (bricks (updateGame 7 oneBrickState)) = 40"
proof -
  have f: "length (bricks farBrickState) = 2" "\<not> active (bricks farBrickState ! 0)"
    by (simp_all add: farBrickState_def)
  from bricks_only_deactivate_or_reset [of farBrickState 7] farBrick_not_cleared f
  have a: "length (bricks (updateGame 7 farBrickState)) = 2 \<and>
   \<not> active (bricks (updateGame 7 farBrickState) ! 0)"
    by auto
  from bricks_only_deactivate_or_reset [of oneBrickState 7] oneBrick_cleared
  have b: "bricks (updateGame 7 oneBrickState) = brickGrid"
    and c: "length (bricks (updateGame 7 oneBrickState)) = BRICK_ROWS * BRICK_COLS"
    by blast+
  from c have "length (bricks (updateGame 7 oneBrickState)) = 40"
    by (simp add: BRICK_ROWS_def BRICK_COLS_def)
  with a b show ?thesis
    by blast
qed

text \<open>
  C7: when the brick loop of an \<open>updateGame\<close> step leaves every brick inactive, the step
  ends in the state \<open>initGame\<close> makes, with \<open>gameStarted\<close> set to true again: the score
  is 0 whatever it was, the bricks are the full grid and all active, and the paddle and
  the ball are back at their start, the ball with a fresh velocity.
\<close>

theorem cleared_board_restarts_game:
  assumes "\<forall>b \<in> set (bricks (beforeBoardCheck s)). \<not> active b"
  shows "updateGame r s = (initGame r (beforeBoardCheck s))\<lparr>gameStarted := True\<rparr> \<and>
     gameStarted (updateGame r s) \<and>
     score (updateGame r s) = 0 \<and>
     \<not> gameOver (updateGame r s) \<and>
     bricks (updateGame r s) = brickGrid \<and>
     length (bricks (updateGame r s)) = BRICK_ROWS * BRICK_COLS \<and>
     (\<forall>b \<in> set (bricks (updateGame r s)). active b) \<and>
     paddle (updateGame r s) =
       (paddle s)\<lparr>position := Vec2 0 (- 0.9), size_o := Vec2 PADDLE_WIDTH PADDLE_HEIGHT,
                  color := Vec3 0.2 0.6 1\<rparr> \<and>
     ball (updateGame r s) =
       (ball s)\<lparr>position := Vec2 0 (- 0.7), size_o := Vec2 BALL_SIZE BALL_SIZE,
                color := Vec3 1 1 1\<rparr> \<and>
     ballVelocity (updateGame r s) =
       Vec2 (BALL_VELOCITY * sin (real_of_int (int r mod 90 - 45) * 3.14159 / 180))
            BALL_VELOCITY"
proof -
  from assms have d: "allBricksDestroyed (bricks (beforeBoardCheck s))"
    by (simp add: allBricksDestroyed_iff)
  then have u: "updateGame r s = (initGame r (beforeBoardCheck s))\<lparr>gameStarted := True\<rparr>"
    by (simp add: updateGame_def Let_def)
  have b: "bricks (updateGame r s) = brickGrid"
    by (simp add: u bricks_initGame)
  have p: "paddle (updateGame r s) =
       (paddle s)\<lparr>position := Vec2 0 (- 0.9), size_o := Vec2 PADDLE_WIDTH PADDLE_HEIGHT,
                  color := Vec3 0.2 0.6 1\<rparr>"
    by (simp add: u initGame_def resetBall_def Let_def paddle_beforeBoardCheck)
  have q: "ball (updateGame r s) =
       (ball s)\<lparr>position := Vec2 0 (- 0.7), size_o := Vec2 BALL_SIZE BALL_SIZE,
                color := Vec3 1 1 1\<rparr>"
    by (simp add: u initGame_def resetBall_def Let_def ball_beforeBoardCheck moveBall_def)
  have v: "ballVelocity (updateGame r s) =
       Vec2 (BALL_VELOCITY * sin (real_of_int (int r mod 90 - 45) * 3.14159 / 180))
            BALL_VELOCITY"
    by (simp add: u initGame_def resetBall_def Let_def)
  have o: "gameStarted (updateGame r s) \<and> score (updateGame r s) = 0 \<and>
      \<not> gameOver (updateGame r s)"
    by (simp add: u initGame_def resetBall_def Let_def)
  from u o b p q v show ?thesis
    by (simp add: length_brickGrid active_brickGrid)
qed

theorem cleared_board_restarts_game_witness:
  "score (beforeBoardCheck oneBrickState) = 400 \<and> score (updateGame 7 oneBrickState) = 0 \<and>
   gameStarted (updateGame 7 oneBrickState) \<and> bricks (updateGame 7 oneBrickState) = brickGrid"
proof -
  have a: "score (beforeBoardCheck oneBrickState) = 400"
    by (simp add: beforeBoardCheck_def fellBelow_def brickCollisions_def paddleCollision_def
      wallCollisions_def Let_def moveBall_def oneBrickState_def checkCollision_def
      newBrick_def vadd2_def BALL_SIZE_def BRICK_WIDTH_def BRICK_HEIGHT_def PADDLE_WIDTH_def
      PADDLE_HEIGHT_def)
  from cleared_board_restarts_game [OF oneBrick_cleared, of 7]
  have "score (updateGame 7 oneBrickState) = 0" and "gameStarted (updateGame 7 oneBrickState)"
    and "bricks (updateGame 7 oneBrickState) = brickGrid"
    by blast+
  with a show ?thesis
    by blast
qed

subsection \<open>The wait before the game\<close>

lemma gameState_displayCountdown: "gameState (displayCountdown t p) = gameState p"
  by (simp add: displayCountdown_def Let_def)

lemma gameState_processInput_waiting:
  "\<not> gameStarted (gameState p) \<Longrightarrow> gameState (processInput i p) = gameState p"
  by (simp add: processInput_def Let_def)

text \<open>
  A pass during the wait: \<open>processInput\<close> leaves the paddle alone, since \<open>gameStarted\<close>
  is false, and the branch taken is the one of \<open>displayCountdown\<close>, not of \<open>updateGame\<close>.
\<close>

lemma frame_waiting:
  assumes "\<not> gameStarted (gameState p)"
    and "now i - startTime (gameState p) < WAIT_TIME_SECONDS"
  shows "gameState (frame i p) = gameState p"
proof -
  have g: "gameState (processInput i p) = gameState p"
    using assms(1) by (rule gameState_processInput_waiting)
  show ?thesis
    using assms(2) by (simp add: frame_def Let_def g gameState_displayCountdown)
qed

lemma renderLoop_waiting:
  assumes "\<not> gameStarted (gameState p)"
    and "\<forall>i \<in> set ins. now i - startTime (gameState p) < WAIT_TIME_SECONDS"
  shows "gameState (renderLoop ins p) = gameState p"
  using assms
proof (induction ins arbitrary: p)
  case Nil
  then show ?case by simp
next
  case (Cons i rest)
  have f: "gameState (frame i p) = gameState p"
    using Cons.prems by (intro frame_waiting) simp_all
  show ?case
  proof (cases "\<not> windowShouldClose p \<and> \<not> gameOver (gameState p)")
    case True
    have "gameState (renderLoop rest (frame i p)) = gameState (frame i p)"
      using Cons.prems by (intro Cons.IH) (simp_all add: f)
    with True f show ?thesis by simp
  next
    case False
    then show ?thesis by auto
  qed
qed

lemma sorted_take_le:
  assumes "sorted (map now ins)" and "k < length ins" and "m \<le> Suc k"
    and "i \<in> set (take m ins)"
  shows "now i \<le> now (ins ! k)"
proof -
  from assms(4) obtain j where j: "j < length (take m ins)" "take m ins ! j = i"
    by (auto simp: in_set_conv_nth)
  with assms(2,3) have jk: "j \<le> k" and i: "i = ins ! j"
    by auto
  from assms(1) jk assms(2) have "map now ins ! j \<le> map now ins ! k"
    by (intro sorted_nth_mono) simp_all
  with jk assms(2) i show ?thesis
    by simp
qed

lemma gameStarted_enterLoop: "\<not> gameStarted (gameState (enterLoop e))"
  by (simp add: enterLoop_def initGame_def Let_def)

lemma startTime_enterLoop: "startTime (gameState (enterLoop e)) = time0 e"
  by (simp add: enterLoop_def)

lemma waiting_prefix:
  assumes "sorted (map now ins)" and "k < length ins" and "m \<le> Suc k"
    and "now (ins ! k) - time0 e < WAIT_TIME_SECONDS"
  shows "gameState (renderLoop (take m ins) (enterLoop e)) = gameState (enterLoop e)"
proof (rule renderLoop_waiting)
  show "\<not> gameStarted (gameState (enterLoop e))"
    by (rule gameStarted_enterLoop)
  show "\<forall>i \<in> set (take m ins).
      now i - startTime (gameState (enterLoop e)) < WAIT_TIME_SECONDS"
  proof
    fix i assume "i \<in> set (take m ins)"
    with assms(1,2,3) have "now i \<le> now (ins ! k)"
      by (rule sorted_take_le)
    with assms(4) show "now i - startTime (gameState (enterLoop e)) < WAIT_TIME_SECONDS"
      by (simp add: startTime_enterLoop)
  qed
qed

text \<open>
  C9: the clock of \<open>glfwGetTime\<close> does not run backwards, so the readings of the passes
  are sorted. For every pass \<open>k\<close> of the render loop whose elapsed time since the start
  time is below \<open>WAIT_TIME_SECONDS\<close> (240 seconds), the game state after the pass is the
  game state before it, and both are the state in which the loop was entered:
  \<open>gameStarted\<close> is false, and the ball, its velocity, the paddle, the bricks, the score
  and \<open>gameOver\<close> are what \<open>initGame\<close> made them.
\<close>

theorem waiting_frames_leave_game_unchanged:
  assumes "sorted (map now ins)"
    and "k < length ins"
    and "now (ins ! k) - time0 e < WAIT_TIME_SECONDS"
  shows "gameState (renderLoop (take (Suc k) ins) (enterLoop e)) =
       gameState (renderLoop (take k ins) (enterLoop e)) \<and>
     gameState (renderLoop (take (Suc k) ins) (enterLoop e)) = gameState (enterLoop e) \<and>
     \<not> gameStarted (gameState (renderLoop (take (Suc k) ins) (enterLoop e))) \<and>
     gameState (enterLoop e) = (initGame (rand0 e) gameState0)\<lparr>startTime := time0 e\<rparr>"
proof -
  have a: "gameState (renderLoop (take (Suc k) ins) (enterLoop e)) = gameState (enterLoop e)"
    using assms by (intro waiting_prefix [where k = k]) simp_all
  have b: "gameState (renderLoop (take k ins) (enterLoop e)) = gameState (enterLoop e)"
    using assms by (intro waiting_prefix [where k = k]) simp_all
  have c: "gameState (enterLoop e) = (initGame (rand0 e) gameState0)\<lparr>startTime := time0 e\<rparr>"
    by (simp add: enterLoop_def)
  from a b c gameStarted_enterLoop [of e] show ?thesis
    by simp
qed

theorem waiting_frames_leave_game_unchanged_witness:
  "sorted (map now waitingInputs) \<and> 1 < length waitingInputs \<and>
   now (waitingInputs ! 1) - time0 envOk = 195 \<and>
   keyLeft (waitingInputs ! 0) \<and> keyRight (waitingInputs ! 1) \<and>
   gameState (renderLoop (take (Suc 1) waitingInputs) (enterLoop envOk)) =
     gameState (enterLoop envOk)"
proof -
  have s: "sorted (map now waitingInputs)"
    by (simp add: waitingInputs_def)
  have l: "1 < length waitingInputs"
    by (simp add: waitingInputs_def)
  have t: "now (waitingInputs ! 1) - time0 envOk = 195"
    by (simp add: waitingInputs_def envOk_def)
  then have w: "now (waitingInputs ! 1) - time0 envOk < WAIT_TIME_SECONDS"
    by (simp add: WAIT_TIME_SECONDS_def)
  have k: "keyLeft (waitingInputs ! 0) \<and> keyRight (waitingInputs ! 1)"
    by (simp add: waitingInputs_def)
  from waiting_frames_leave_game_unchanged [OF s l w]
  have "gameState (renderLoop (take (Suc 1) waitingInputs) (enterLoop envOk)) =
     gameState (enterLoop envOk)"
    by blast
  with s l t k show ?thesis
    by blast
qed

subsection \<open>The sizes of the game objects\<close>

text \<open>
  Sizes are written by \<open>initGame\<close> and \<open>resetBall\<close> and by nothing else, so in every
  state the render loop reaches the paddle, the ball and every brick have the sizes
  given by the constants, all of them positive.
\<close>

lemma size_paddleLeft: "gameSizes (paddleLeft g) = gameSizes g"
  by (simp add: paddleLeft_def Let_def gameSizes_def)

lemma size_paddleRight: "gameSizes (paddleRight g) = gameSizes g"
  by (simp add: paddleRight_def Let_def gameSizes_def)

lemma size_processInput: "gameSizes (gameState (processInput i p)) = gameSizes (gameState p)"
  by (simp add: processInput_def Let_def size_paddleLeft size_paddleRight)

lemma size_hitBricks:
  "\<forall>b \<in> set bs. size_o b = c \<Longrightarrow> \<forall>b \<in> set (fst (hitBricks k bs)). size_o b = c"
  by (induction bs) simp_all

lemma size_brickGrid: "\<forall>b \<in> set brickGrid. size_o b = Vec2 BRICK_WIDTH BRICK_HEIGHT"
  by (auto simp: brickGrid_def newBrick_def)

lemma size_initGame: "gameSizes (initGame r g)"
  by (simp add: gameSizes_def initGame_def resetBall_def Let_def size_brickGrid)

lemma size_beforeBoardCheck:
  assumes "gameSizes g"
  shows "gameSizes (beforeBoardCheck g)"
proof -
  from assms have "\<forall>b \<in> set (bricks g). size_o b = Vec2 BRICK_WIDTH BRICK_HEIGHT"
    by (simp add: gameSizes_def)
  then have "\<forall>b \<in> set (fst (hitBricks (ball (moveBall g)) (bricks g))).
      size_o b = Vec2 BRICK_WIDTH BRICK_HEIGHT"
    by (rule size_hitBricks)
  with assms show ?thesis
    by (simp add: gameSizes_def paddle_beforeBoardCheck ball_beforeBoardCheck
        bricks_beforeBoardCheck moveBall_def)
qed

lemma size_updateGame:
  assumes "gameSizes g"
  shows "gameSizes (updateGame r g)"
proof (cases "allBricksDestroyed (bricks (beforeBoardCheck g))")
  case True
  have "gameSizes (initGame r (beforeBoardCheck g))"
    by (rule size_initGame)
  then have "gameSizes ((initGame r (beforeBoardCheck g))\<lparr>gameStarted := True\<rparr>)"
    by (simp add: gameSizes_def)
  with True show ?thesis
    by (simp add: updateGame_def Let_def)
next
  case False
  with size_beforeBoardCheck [OF assms] show ?thesis
    by (simp add: updateGame_def Let_def)
qed

lemma size_frame:
  assumes "gameSizes (gameState p)"
  shows "gameSizes (gameState (frame i p))"
proof -
  have a: "gameSizes (gameState (processInput i p))"
    using assms by (simp add: size_processInput)
  then have "gameSizes ((gameState (processInput i p))\<lparr>gameStarted := True\<rparr>)"
    by (simp add: gameSizes_def)
  with a show ?thesis
    by (simp add: frame_def Let_def size_updateGame gameState_displayCountdown)
qed

lemma size_renderLoop:
  "gameSizes (gameState p) \<Longrightarrow> gameSizes (gameState (renderLoop ins p))"
  by (induction ins arbitrary: p) (simp_all add: size_frame)

lemma sizes_in_game: "gameSizes (gameState (renderLoop ins (enterLoop e)))"
proof -
  have "gameSizes (gameState (enterLoop e))"
    using size_initGame [of "rand0 e" gameState0]
    by (simp add: enterLoop_def gameSizes_def)
  then show ?thesis
    by (rule size_renderLoop)
qed

lemma paddle_width_in_game:
  "vx (size_o (paddle (gameState (renderLoop ins (enterLoop e))))) = PADDLE_WIDTH \<and>
   PADDLE_WIDTH \<noteq> 0"
  using sizes_in_game [of ins e] by (simp add: gameSizes_def PADDLE_WIDTH_def)

subsection \<open>The bounce off the paddle in exact arithmetic\<close>

lemma length2_nonneg: "0 \<le> length2 v"
  by (simp add: length2_def)

lemma length2_polar:
  assumes "0 \<le> c"
  shows "length2 (Vec2 (c * sin t) (c * cos t)) = c"
    and "length2 (Vec2 (c * sin t) (- (c * cos t))) = c"
proof -
  have sc: "sin t * sin t + cos t * cos t = 1"
    using sin_cos_squared_add [of t] by (simp add: power2_eq_square)
  have "c * sin t * (c * sin t) + c * cos t * (c * cos t) =
      (c * c) * (sin t * sin t) + (c * c) * (cos t * cos t)"
    by (simp only: mult_ac)
  also have "\<dots> = (c * c) * (sin t * sin t + cos t * cos t)"
    by (simp only: distrib_left)
  also have "\<dots> = c\<^sup>2"
    by (simp only: sc mult_1_right power2_eq_square)
  finally have e: "c * sin t * (c * sin t) + c * cos t * (c * cos t) = c\<^sup>2" .
  show "length2 (Vec2 (c * sin t) (c * cos t)) = c"
    using assms by (simp add: length2_def e)
  show "length2 (Vec2 (c * sin t) (- (c * cos t))) = c"
    using assms by (simp add: length2_def e)
qed

text \<open>The walls only change the sign of a component, so they keep the speed as well.\<close>

lemma length2_wallCollisions:
  "length2 (ballVelocity (wallCollisions (moveBall s))) = length2 (ballVelocity s)"
  by (simp add: wallCollisions_def Let_def length2_def moveBall_def)

subsection \<open>Rounding to binary32 and binary64\<close>

text \<open>
  A real that is less than a half away from an integer is rounded to that integer, and
  no real is moved by more than a half.
\<close>

lemma rne_unique:
  assumes "\<bar>x - of_int m\<bar> < 1 / 2"
  shows "rne x = m"
proof (cases "of_int m \<le> x")
  case True
  with assms have "\<lfloor>x\<rfloor> = m"
    by (intro floor_unique) auto
  with assms True show ?thesis
    by (simp add: rne_def)
next
  case False
  with assms have f: "\<lfloor>x\<rfloor> = m - 1"
    by (intro floor_unique) auto
  with assms False show ?thesis
    by (auto simp: rne_def)
qed

lemma rne_error: "\<bar>of_int (rne x) - x\<bar> \<le> 1 / 2"
proof -
  have "of_int \<lfloor>x\<rfloor> \<le> x" "x < of_int \<lfloor>x\<rfloor> + 1"
    by linarith+
  then show ?thesis
    by (auto simp: rne_def)
qed

text \<open>
  The value of \<open>roundTo\<close> for a number of which the binade is known: \<open>e\<close> is its
  exponent, and \<open>m\<close> the integer nearest to the number in units of the last place.
\<close>

lemma floor_log2_eq:
  assumes "2 powr of_int e \<le> \<bar>x\<bar>" "\<bar>x\<bar> < 2 powr of_int (e + 1)"
  shows "\<lfloor>log 2 \<bar>x\<bar>\<rfloor> = e"
proof -
  have "0 < 2 powr real_of_int e"
    by simp
  with assms have "0 < \<bar>x\<bar>"
    by linarith
  with assms show ?thesis
    by (simp add: floor_log_eq_powr_iff)
qed

lemma roundTo_cell:
  assumes "2 powr of_int e \<le> \<bar>x\<bar>" "\<bar>x\<bar> < 2 powr of_int (e + 1)" "emin \<le> e"
    and "\<bar>x / 2 powr of_int (e - p + 1) - of_int m\<bar> < 1 / 2"
  shows "roundTo p emin x = of_int m * 2 powr of_int (e - p + 1)"
proof -
  have "0 < 2 powr real_of_int e"
    by simp
  with assms have n: "x \<noteq> 0"
    by auto
  from assms have "\<lfloor>log 2 \<bar>x\<bar>\<rfloor> = e"
    by (simp add: floor_log2_eq)
  with assms have "max \<lfloor>log 2 \<bar>x\<bar>\<rfloor> emin - p + 1 = e - p + 1"
    by simp
  with n assms(4) show ?thesis
    by (simp add: roundTo_def Let_def rne_unique)
qed

text \<open>
  The same for binary32 and binary64, with the unit in the last place written as
  \<open>1 / 2 ^ k\<close>: the number lies between \<open>2 ^ 23\<close> and \<open>2 ^ 24\<close> units (\<open>2 ^ 52\<close> and
  \<open>2 ^ 53\<close> for binary64), and \<open>m\<close> is the nearest integer number of units. With these
  lemmas a rounding of given numbers is computed.
\<close>

lemma two_powr_diff_nat: "2 powr of_int (int a - int b) = 2 ^ a / (2::real) ^ b"
proof -
  have "(2::real) powr of_int (int a - int b) = 2 powr (real a - real b)"
    by simp
  also have "\<dots> = 2 powr real a / 2 powr real b"
    by (simp add: powr_diff)
  also have "\<dots> = 2 ^ a / 2 ^ b"
    by (simp add: powr_realpow)
  finally show ?thesis .
qed

lemma round32_cell:
  assumes "2 ^ 23 \<le> \<bar>x\<bar> * 2 ^ k" "\<bar>x\<bar> * 2 ^ k < 2 ^ 24" "k \<le> 149"
    and "\<bar>x * 2 ^ k - of_int m\<bar> < 1 / 2"
  shows "round32 x = of_int m / 2 ^ k"
proof -
  have a: "(2::real) powr of_int (23 - int k) = 2 ^ 23 / 2 ^ k"
    using two_powr_diff_nat [of 23 k] by simp
  have b: "(2::real) powr of_int (23 - int k + 1) = 2 ^ 24 / 2 ^ k"
    using two_powr_diff_nat [of 24 k] by (simp add: algebra_simps)
  have c: "(2::real) powr of_int (23 - int k - 24 + 1) = 1 / 2 ^ k"
    using two_powr_diff_nat [of 0 k] by simp
  have 1: "2 powr of_int (23 - int k) \<le> \<bar>x\<bar>"
    unfolding a using assms(1) by (simp add: field_simps)
  have 2: "\<bar>x\<bar> < 2 powr of_int (23 - int k + 1)"
    unfolding b using assms(2) by (simp add: field_simps)
  have 3: "- 126 \<le> 23 - int k"
    using assms(3) by simp
  have 4: "\<bar>x / 2 powr of_int (23 - int k - 24 + 1) - of_int m\<bar> < 1 / 2"
    unfolding c using assms(4) by simp
  from roundTo_cell [OF 1 2 3 4] show ?thesis
    unfolding round32_def c by simp
qed

lemma round64_cell:
  assumes "2 ^ 52 \<le> \<bar>x\<bar> * 2 ^ k" "\<bar>x\<bar> * 2 ^ k < 2 ^ 53" "k \<le> 1074"
    and "\<bar>x * 2 ^ k - of_int m\<bar> < 1 / 2"
  shows "round64 x = of_int m / 2 ^ k"
proof -
  have a: "(2::real) powr of_int (52 - int k) = 2 ^ 52 / 2 ^ k"
    using two_powr_diff_nat [of 52 k] by simp
  have b: "(2::real) powr of_int (52 - int k + 1) = 2 ^ 53 / 2 ^ k"
    using two_powr_diff_nat [of 53 k] by (simp add: algebra_simps)
  have c: "(2::real) powr of_int (52 - int k - 53 + 1) = 1 / 2 ^ k"
    using two_powr_diff_nat [of 0 k] by simp
  have 1: "2 powr of_int (52 - int k) \<le> \<bar>x\<bar>"
    unfolding a using assms(1) by (simp add: field_simps)
  have 2: "\<bar>x\<bar> < 2 powr of_int (52 - int k + 1)"
    unfolding b using assms(2) by (simp add: field_simps)
  have 3: "- 1022 \<le> 52 - int k"
    using assms(3) by simp
  have 4: "\<bar>x / 2 powr of_int (52 - int k - 53 + 1) - of_int m\<bar> < 1 / 2"
    unfolding c using assms(4) by simp
  from roundTo_cell [OF 1 2 3 4] show ?thesis
    unfolding round64_def c by simp
qed

text \<open>
  A number halfway between two floats is rounded to the one with the even last digit.
\<close>

lemma rne_tie:
  assumes "x = of_int f + 1 / 2"
  shows "rne x = (if even f then f else f + 1)"
proof -
  from assms have "\<lfloor>x\<rfloor> = f"
    by (intro floor_unique) auto
  with assms show ?thesis
    by (simp add: rne_def)
qed

lemma round32_tie:
  assumes "2 ^ 23 \<le> \<bar>x\<bar> * 2 ^ k" "\<bar>x\<bar> * 2 ^ k < 2 ^ 24" "k \<le> 149"
    and "x * 2 ^ k = of_int f + 1 / 2"
  shows "round32 x = of_int (if even f then f else f + 1) / 2 ^ k"
proof -
  have a: "(2::real) powr of_int (23 - int k) = 2 ^ 23 / 2 ^ k"
    using two_powr_diff_nat [of 23 k] by simp
  have b: "(2::real) powr of_int (23 - int k + 1) = 2 ^ 24 / 2 ^ k"
    using two_powr_diff_nat [of 24 k] by (simp add: algebra_simps)
  have c: "(2::real) powr of_int (- int k) = 1 / 2 ^ k"
    using two_powr_diff_nat [of 0 k] by simp
  have 1: "2 powr of_int (23 - int k) \<le> \<bar>x\<bar>"
    unfolding a using assms(1) by (simp add: field_simps)
  have 2: "\<bar>x\<bar> < 2 powr of_int (23 - int k + 1)"
    unfolding b using assms(2) by (simp add: field_simps)
  have "0 < 2 powr real_of_int (23 - int k)"
    by simp
  with 1 have n: "x \<noteq> 0"
    by auto
  from 1 2 have "\<lfloor>log 2 \<bar>x\<bar>\<rfloor> = 23 - int k"
    by (rule floor_log2_eq)
  with assms(3) have q: "max \<lfloor>log 2 \<bar>x\<bar>\<rfloor> (- 126) - 24 + 1 = - int k"
    by simp
  have "x / 2 powr of_int (- int k) = of_int f + 1 / 2"
    unfolding c using assms(4) by simp
  then have r: "rne (x / 2 powr of_int (- int k)) = (if even f then f else f + 1)"
    by (rule rne_tie)
  have "round32 x = of_int (rne (x / 2 powr of_int (- int k))) * 2 powr of_int (- int k)"
    unfolding round32_def roundTo_def Let_def q using n by simp
  also have "\<dots> = of_int (if even f then f else f + 1) * 2 powr of_int (- int k)"
    by (simp only: r)
  also have "\<dots> = of_int (if even f then f else f + 1) / 2 ^ k"
    by (simp only: c) simp
  finally show ?thesis .
qed

text \<open>
  Rounding moves a number below \<open>2 ^ (e + 1)\<close> by half a unit in the last place of that
  binade at most.
\<close>

lemma roundTo_error:
  assumes "\<bar>x\<bar> < 2 powr of_int (e + 1)" "emin \<le> e"
  shows "\<bar>roundTo p emin x - x\<bar> \<le> 2 powr of_int (e - p + 1) / 2"
proof (cases "x = 0")
  case True
  then show ?thesis
    by (simp add: roundTo_def)
next
  case False
  define q where "q = max \<lfloor>log 2 \<bar>x\<bar>\<rfloor> emin - p + 1"
  define s where "s = 2 powr real_of_int q"
  have s: "0 < s"
    by (simp add: s_def)
  from False assms(1) have "log 2 \<bar>x\<bar> < of_int (e + 1)"
    by (simp add: log_less_iff)
  then have "\<lfloor>log 2 \<bar>x\<bar>\<rfloor> \<le> e"
    by linarith
  with assms(2) have "q \<le> e - p + 1"
    by (simp add: q_def)
  then have le: "s \<le> 2 powr of_int (e - p + 1)"
    by (simp add: s_def)
  have r: "roundTo p emin x = of_int (rne (x / s)) * s"
    using False by (simp add: roundTo_def Let_def q_def s_def)
  have "roundTo p emin x - x = (of_int (rne (x / s)) - x / s) * s"
    using s by (simp add: r field_simps)
  then have "\<bar>roundTo p emin x - x\<bar> = \<bar>of_int (rne (x / s)) - x / s\<bar> * s"
    using s by (simp add: abs_mult)
  also have "\<dots> \<le> 1 / 2 * s"
    using s rne_error [of "x / s"] by (intro mult_right_mono) auto
  also have "\<dots> \<le> 2 powr of_int (e - p + 1) / 2"
    using le by simp
  finally show ?thesis .
qed

lemma round64_error_small:
  assumes "\<bar>x\<bar> < 1 / 2 ^ k" "k \<le> 1000"
  shows "\<bar>round64 x - x\<bar> \<le> 1 / 2 ^ (k + 53)"
proof -
  have a: "(2::real) powr of_int (- int k - 1 + 1) = 1 / 2 ^ k"
    using two_powr_diff_nat [of 0 k] by simp
  have b: "(2::real) powr of_int (- int k - 1 - 53 + 1) = 1 / 2 ^ (k + 53)"
    using two_powr_diff_nat [of 0 "k + 53"] by (simp add: algebra_simps)
  have 1: "\<bar>x\<bar> < 2 powr of_int (- int k - 1 + 1)"
    unfolding a by (rule assms)
  have 2: "- 1022 \<le> - int k - 1"
    using assms(2) by simp
  from roundTo_error [OF 1 2, of 53] show ?thesis
    unfolding round64_def b by simp
qed

lemma round32_error_small:
  assumes "\<bar>x\<bar> < 1 / 2 ^ k" "k \<le> 125"
  shows "\<bar>round32 x - x\<bar> \<le> 1 / 2 ^ (k + 25)"
proof -
  have a: "(2::real) powr of_int (- int k - 1 + 1) = 1 / 2 ^ k"
    using two_powr_diff_nat [of 0 k] by simp
  have b: "(2::real) powr of_int (- int k - 1 - 24 + 1) = 1 / 2 ^ (k + 24)"
    using two_powr_diff_nat [of 0 "k + 24"] by (simp add: algebra_simps)
  have 1: "\<bar>x\<bar> < 2 powr of_int (- int k - 1 + 1)"
    unfolding a by (rule assms)
  have 2: "- 126 \<le> - int k - 1"
    using assms(2) by simp
  have c: "(2::real) ^ (k + 25) = 2 ^ (k + 24) * 2"
    by (simp add: power_add)
  from roundTo_error [OF 1 2, of 24] show ?thesis
    unfolding round32_def b c by simp
qed

text \<open>
  The float of a number known by bounds only, when the bounds round to the same float;
  and the float of a product with such a number that is first rounded to binary64.
\<close>

lemma round32_between:
  assumes "lo \<le> y" "y \<le> hi" "0 < lo \<or> hi < 0"
    and "2 ^ 23 \<le> min \<bar>lo\<bar> \<bar>hi\<bar> * 2 ^ k" "max \<bar>lo\<bar> \<bar>hi\<bar> * 2 ^ k < 2 ^ 24" "k \<le> 149"
    and "of_int m - 1 / 2 < lo * 2 ^ k" "hi * 2 ^ k < of_int m + 1 / 2"
  shows "round32 y = of_int m / 2 ^ k"
proof (rule round32_cell)
  have p: "(0::real) < 2 ^ k"
    by simp
  from assms(1-3) have "min \<bar>lo\<bar> \<bar>hi\<bar> \<le> \<bar>y\<bar>" "\<bar>y\<bar> \<le> max \<bar>lo\<bar> \<bar>hi\<bar>"
    by linarith+
  then have "min \<bar>lo\<bar> \<bar>hi\<bar> * 2 ^ k \<le> \<bar>y\<bar> * 2 ^ k" "\<bar>y\<bar> * 2 ^ k \<le> max \<bar>lo\<bar> \<bar>hi\<bar> * 2 ^ k"
    using p by (simp_all only: mult_le_cancel_right_pos)
  with assms(4,5) show "2 ^ 23 \<le> \<bar>y\<bar> * 2 ^ k" "\<bar>y\<bar> * 2 ^ k < 2 ^ 24"
    by linarith+
  show "k \<le> 149"
    by (rule assms)
  from assms(1,2) have "lo * 2 ^ k \<le> y * 2 ^ k" "y * 2 ^ k \<le> hi * 2 ^ k"
    using p by (simp_all only: mult_le_cancel_right_pos)
  with assms(7,8) show "\<bar>y * 2 ^ k - of_int m\<bar> < 1 / 2"
    by linarith
qed

lemma round32_round64_product:
  assumes "slo \<le> sn" "sn \<le> shi" "0 \<le> sp"
    and "sp * \<bar>slo\<bar> < 1 / 2 ^ 6" "sp * \<bar>shi\<bar> < 1 / 2 ^ 6"
    and "0 < sp * slo - 1 / 2 ^ 59 \<or> sp * shi + 1 / 2 ^ 59 < 0"
    and "2 ^ 23 \<le> min \<bar>sp * slo - 1 / 2 ^ 59\<bar> \<bar>sp * shi + 1 / 2 ^ 59\<bar> * 2 ^ k"
    and "max \<bar>sp * slo - 1 / 2 ^ 59\<bar> \<bar>sp * shi + 1 / 2 ^ 59\<bar> * 2 ^ k < 2 ^ 24"
    and "k \<le> 149"
    and "of_int m - 1 / 2 < (sp * slo - 1 / 2 ^ 59) * 2 ^ k"
    and "(sp * shi + 1 / 2 ^ 59) * 2 ^ k < of_int m + 1 / 2"
  shows "round32 (round64 (sp * sn)) = of_int m / 2 ^ k"
proof -
  from assms(1-3) have t: "sp * slo \<le> sp * sn" "sp * sn \<le> sp * shi"
    by (simp_all add: mult_left_mono)
  have "\<bar>sp * slo\<bar> = sp * \<bar>slo\<bar>" "\<bar>sp * shi\<bar> = sp * \<bar>shi\<bar>"
    using assms(3) by (simp_all add: abs_mult)
  with t assms(4,5) have "\<bar>sp * sn\<bar> < 1 / 2 ^ 6"
    by linarith
  then have "\<bar>round64 (sp * sn) - sp * sn\<bar> \<le> 1 / 2 ^ (6 + 53)"
    by (rule round64_error_small) simp
  then have e: "\<bar>round64 (sp * sn) - sp * sn\<bar> \<le> 1 / 2 ^ 59"
    by simp
  have "round64 (sp * sn) - sp * sn \<le> 1 / 2 ^ 59"
    using e by (rule abs_le_D1)
  moreover have "- (round64 (sp * sn) - sp * sn) \<le> 1 / 2 ^ 59"
    using e by (rule abs_le_D2)
  ultimately have "sp * slo - 1 / 2 ^ 59 \<le> round64 (sp * sn)"
      "round64 (sp * sn) \<le> sp * shi + 1 / 2 ^ 59"
    using t by linarith+
  then show ?thesis
    using assms(6-11) by (rule round32_between)
qed

text \<open>
  The float of a square root is found by squaring: the root lies between the midpoints
  next to \<open>m\<close>.
\<close>

lemma round32_sqrt_cell:
  assumes "(2 ^ 23 / 2 ^ k)\<^sup>2 \<le> q" "q < (2 ^ 24 / 2 ^ k)\<^sup>2" "k \<le> 149" "1 \<le> m"
    and "((of_int m - 1 / 2) / 2 ^ k)\<^sup>2 < q" "q < ((of_int m + 1 / 2) / 2 ^ k)\<^sup>2"
  shows "round32 (sqrt q) = of_int m / 2 ^ k"
proof (rule round32_cell)
  have p: "(0::real) < 2 ^ k"
    by simp
  have q0: "0 \<le> q"
    using assms(1) by (smt (verit) zero_le_power2)
  then have s0: "0 \<le> sqrt q"
    by simp
  have "2 ^ 23 / 2 ^ k \<le> sqrt q"
    using assms(1) by (simp add: real_le_rsqrt)
  then show "2 ^ 23 \<le> \<bar>sqrt q\<bar> * 2 ^ k"
    using s0 p by (simp add: field_simps)
  have "sqrt q < 2 ^ 24 / 2 ^ k"
    using assms(2) q0 by (intro real_less_lsqrt) auto
  then show "\<bar>sqrt q\<bar> * 2 ^ k < 2 ^ 24"
    using s0 p by (simp add: field_simps)
  show "k \<le> 149"
    by (rule assms)
  from assms(4) have m: "0 \<le> (real_of_int m - 1 / 2) / 2 ^ k"
    by simp
  have "(of_int m - 1 / 2) / 2 ^ k < sqrt q"
    using assms(5) by (simp add: real_less_rsqrt)
  moreover have "sqrt q < (of_int m + 1 / 2) / 2 ^ k"
    using assms(6) assms(4) q0 by (intro real_less_lsqrt) auto
  ultimately have "of_int m - 1 / 2 < sqrt q * 2 ^ k" "sqrt q * 2 ^ k < of_int m + 1 / 2"
    using p by (simp_all add: field_simps)
  then show "\<bar>sqrt q * 2 ^ k - of_int m\<bar> < 1 / 2"
    by linarith
qed

text \<open>
  Sine and cosine are enclosed by their Taylor polynomials of degree 9 and 10 and the
  bound of the remainder.
\<close>

lemma sum_upto_12:
  fixes f :: "nat \<Rightarrow> real"
  shows "(\<Sum>m<11. f m) = f 0 + f 1 + f 2 + f 3 + f 4 + f 5 + f 6 + f 7 + f 8 + f 9 + f 10"
    and "(\<Sum>m<12. f m) = f 0 + f 1 + f 2 + f 3 + f 4 + f 5 + f 6 + f 7 + f 8 + f 9 + f 10 + f 11"
  by (simp_all add: eval_nat_numeral lessThan_Suc)


lemma sin_coeffs:
  "sin_coeff (Suc 0) = 1" "sin_coeff 2 = 0" "sin_coeff 3 = - 1 / 6"
  "sin_coeff 4 = 0" "sin_coeff 5 = 1 / 120" "sin_coeff 6 = 0" "sin_coeff 7 = - 1 / 5040"
  "sin_coeff 8 = 0" "sin_coeff 9 = 1 / 362880" "sin_coeff 10 = 0"
  by (simp_all add: sin_coeff_def fact_numeral)

lemma cos_coeffs:
  "cos_coeff (Suc 0) = 0" "cos_coeff 2 = - 1 / 2" "cos_coeff 3 = 0"
  "cos_coeff 4 = 1 / 24" "cos_coeff 5 = 0" "cos_coeff 6 = - 1 / 720" "cos_coeff 7 = 0"
  "cos_coeff 8 = 1 / 40320" "cos_coeff 9 = 0" "cos_coeff 10 = - 1 / 3628800" "cos_coeff 11 = 0"
  by (simp_all add: cos_coeff_def fact_numeral)

lemma sin_poly:
  fixes x :: real
  shows "\<bar>sin x - (x - x ^ 3 / 6 + x ^ 5 / 120 - x ^ 7 / 5040 + x ^ 9 / 362880)\<bar>
    \<le> \<bar>x\<bar> ^ 11 / 39916800"
proof -
  have s: "(\<Sum>m<11. sin_coeff m * x ^ m) =
      x - x ^ 3 / 6 + x ^ 5 / 120 - x ^ 7 / 5040 + x ^ 9 / 362880"
    by (simp add: sum_upto_12 sin_coeffs)
  have f: "fact 11 = (39916800::real)"
    by (simp add: fact_numeral)
  have "\<bar>sin x - (\<Sum>m<11. sin_coeff m * x ^ m)\<bar> \<le> inverse (fact 11) * \<bar>x\<bar> ^ 11"
    by (rule Maclaurin_sin_bound)
  also have "\<dots> = \<bar>x\<bar> ^ 11 / 39916800"
    unfolding f by simp
  finally show ?thesis
    unfolding s .
qed

lemma cos_poly:
  fixes x :: real
  shows "\<bar>cos x - (1 - x\<^sup>2 / 2 + x ^ 4 / 24 - x ^ 6 / 720 + x ^ 8 / 40320 - x ^ 10 / 3628800)\<bar>
    \<le> \<bar>x\<bar> ^ 12 / 479001600"
proof -
  have s: "(\<Sum>m<12. cos_coeff m * x ^ m) =
      1 - x\<^sup>2 / 2 + x ^ 4 / 24 - x ^ 6 / 720 + x ^ 8 / 40320 - x ^ 10 / 3628800"
    by (simp add: sum_upto_12 cos_coeffs)
  from Maclaurin_cos_expansion [of x 12] obtain t where
    "cos x = (\<Sum>m<12. cos_coeff m * x ^ m) + cos (t + 1 / 2 * real 12 * pi) / fact 12 * x ^ 12"
    by blast
  then have "cos x - (\<Sum>m<12. cos_coeff m * x ^ m) = cos (t + 1 / 2 * real 12 * pi) * (x ^ 12 / fact 12)"
    by simp
  then have "\<bar>cos x - (\<Sum>m<12. cos_coeff m * x ^ m)\<bar> =
      \<bar>cos (t + 1 / 2 * real 12 * pi)\<bar> * (\<bar>x\<bar> ^ 12 / fact 12)"
    by (simp add: abs_mult power_abs)
  also have "\<dots> \<le> 1 * (\<bar>x\<bar> ^ 12 / fact 12)"
    by (intro mult_right_mono) auto
  also have "\<dots> = \<bar>x\<bar> ^ 12 / 479001600"
    by (simp add: fact_numeral)
  finally show ?thesis
    unfolding s .
qed

lemma sin_between:
  fixes x :: real
  assumes "lo \<le> x - x ^ 3 / 6 + x ^ 5 / 120 - x ^ 7 / 5040 + x ^ 9 / 362880 - \<bar>x\<bar> ^ 11 / 39916800"
    and "x - x ^ 3 / 6 + x ^ 5 / 120 - x ^ 7 / 5040 + x ^ 9 / 362880 + \<bar>x\<bar> ^ 11 / 39916800 \<le> hi"
  shows "lo \<le> sin x \<and> sin x \<le> hi"
  using sin_poly [of x] assms by linarith

lemma cos_between:
  fixes x :: real
  assumes "lo \<le> 1 - x\<^sup>2 / 2 + x ^ 4 / 24 - x ^ 6 / 720 + x ^ 8 / 40320 - x ^ 10 / 3628800
      - \<bar>x\<bar> ^ 12 / 479001600"
    and "1 - x\<^sup>2 / 2 + x ^ 4 / 24 - x ^ 6 / 720 + x ^ 8 / 40320 - x ^ 10 / 3628800
      + \<bar>x\<bar> ^ 12 / 479001600 \<le> hi"
  shows "lo \<le> cos x \<and> cos x \<le> hi"
  using cos_poly [of x] assms by linarith

subsection \<open>A bounce that changes the speed\<close>

text \<open>The constants of the game as floats.\<close>

lemma constants32:
  "PADDLE_WIDTH32 = 13421773 / 2 ^ 26" "PADDLE_HEIGHT32 = 16106127 / 2 ^ 29" "BALL_SIZE32 = 5368709 / 2 ^ 28" "PI32 = 823549 / 2 ^ 18"
proof -
  have w: "round32 (0.2) = 13421773 / 2 ^ 26"
    using round32_cell [of "0.2" 26 "13421773"] by simp
  have h: "round32 (0.03) = 16106127 / 2 ^ 29"
    using round32_cell [of "0.03" 29 "16106127"] by simp
  have b: "round32 (0.02) = 5368709 / 2 ^ 28"
    using round32_cell [of "0.02" 29 "10737418"] by simp
  have p: "round32 (3.14159) = 823549 / 2 ^ 18"
    using round32_cell [of "3.14159" 22 "13176784"] by simp
  show "PADDLE_WIDTH32 = 13421773 / 2 ^ 26" "PADDLE_HEIGHT32 = 16106127 / 2 ^ 29" "BALL_SIZE32 = 5368709 / 2 ^ 28" "PI32 = 823549 / 2 ^ 18"
    unfolding PADDLE_WIDTH32_def PADDLE_HEIGHT32_def BALL_SIZE32_def PI32_def
    by (fact w h b p)+
qed

text \<open>The ball and the paddle of \<open>glancing\<close> collide.\<close>

lemma glancing_collision: "checkCollision32 (ball glancing) (paddle glancing)"
proof -
  have hb: "round32 (5368709 / 2 ^ 28 / 2) = 5368709 / 2 ^ 29"
    using round32_cell [of "5368709 / 2 ^ 28 / 2" 30 "10737418"] by simp
  have hw: "round32 (13421773 / 2 ^ 26 / 2) = 13421773 / 2 ^ 27"
    using round32_cell [of "13421773 / 2 ^ 26 / 2" 27 "13421773"] by simp
  have hh: "round32 (16106127 / 2 ^ 29 / 2) = 16106127 / 2 ^ 30"
    using round32_cell [of "16106127 / 2 ^ 29 / 2" 30 "16106127"] by simp
  have x1: "round32 (- 14333615 / 2 ^ 25 + 5368709 / 2 ^ 29) = - 13998071 / 2 ^ 25"
    using round32_cell [of "- 14333615 / 2 ^ 25 + 5368709 / 2 ^ 29" 25 "- 13998071"] by simp
  have x2: "round32 (- 14092861 / 2 ^ 25 - 13421773 / 2 ^ 27) = - 1090519 / 2 ^ 21"
    using round32_cell [of "- 14092861 / 2 ^ 25 - 13421773 / 2 ^ 27" 24 "- 8724152"] by simp
  have x3: "round32 (- 14092861 / 2 ^ 25 + 13421773 / 2 ^ 27) = - 5368709 / 2 ^ 24"
    using round32_cell [of "- 14092861 / 2 ^ 25 + 13421773 / 2 ^ 27" 25 "- 10737418"] by simp
  have x4: "round32 (- 14333615 / 2 ^ 25 - 5368709 / 2 ^ 29) = - 14669159 / 2 ^ 25"
    using round32_cell [of "- 14333615 / 2 ^ 25 - 5368709 / 2 ^ 29" 25 "- 14669159"] by simp
  have y1: "round32 (- 14763947 / 2 ^ 24 + 5368709 / 2 ^ 29) = - 14596175 / 2 ^ 24"
    using round32_cell [of "- 14763947 / 2 ^ 24 + 5368709 / 2 ^ 29" 24 "- 14596175"] by simp
  have y2: "round32 (- 7549747 / 2 ^ 23 - 16106127 / 2 ^ 30) = - 959447 / 2 ^ 20"
    using round32_cell [of "- 7549747 / 2 ^ 23 - 16106127 / 2 ^ 30" 24 "- 15351152"] by simp
  have y3: "round32 (- 7549747 / 2 ^ 23 + 16106127 / 2 ^ 30) = - 3711959 / 2 ^ 22"
    using round32_cell [of "- 7549747 / 2 ^ 23 + 16106127 / 2 ^ 30" 24 "- 14847836"] by simp
  have y4: "round32 (- 14763947 / 2 ^ 24 - 5368709 / 2 ^ 29) = - 14931719 / 2 ^ 24"
    using round32_cell [of "- 14763947 / 2 ^ 24 - 5368709 / 2 ^ 29" 24 "- 14931719"] by simp
  show ?thesis
    unfolding checkCollision32_def glancing_def Let_def constants32
    by (simp only: GameState.select_convs GameObject.select_convs vec2.sel hb hw hh x1 x2 x3 x4 y1 y2 y3 y4) simp
qed

text \<open>
  The paddle of \<open>glancing\<close> is where 14 steps to the left take it from the middle, where
  \<open>initGame\<close> puts it.
\<close>

lemma glancing_paddle: "vx (position (paddle glancing)) = (leftStep32 ^^ 14) 0"
proof -
  have c: "round32 (0.03) = 16106127 / 2 ^ 29"
    using round32_cell [of "0.03" 29 "16106127"] by simp
  have hw: "round32 (13421773 / 2 ^ 26 / 2) = 13421773 / 2 ^ 27"
    using round32_cell [of "13421773 / 2 ^ 26 / 2" 27 "13421773"] by simp
  have m1: "round32 (0 - 16106127 / 2 ^ 29) = - 16106127 / 2 ^ 29"
    using round32_cell [of "0 - 16106127 / 2 ^ 29" 29 "- 16106127"] by simp
  have t1: "round32 (- 16106127 / 2 ^ 29 - 13421773 / 2 ^ 27) = - 1090519 / 2 ^ 23"
    using round32_cell [of "- 16106127 / 2 ^ 29 - 13421773 / 2 ^ 27" 26 "- 8724152"] by simp
  have s1: "leftStep32 (0) = - 16106127 / 2 ^ 29"
    unfolding leftStep32_def Let_def constants32
    by (simp only: c hw m1 t1) simp
  have m2: "round32 (- 16106127 / 2 ^ 29 - 16106127 / 2 ^ 29) = - 16106127 / 2 ^ 28"
    using round32_cell [of "- 16106127 / 2 ^ 29 - 16106127 / 2 ^ 29" 28 "- 16106127"] by simp
  have t2: "round32 (- 16106127 / 2 ^ 28 - 13421773 / 2 ^ 27) = - 5368709 / 2 ^ 25"
    using round32_cell [of "- 16106127 / 2 ^ 28 - 13421773 / 2 ^ 27" 26 "- 10737418"] by simp
  have s2: "leftStep32 (- 16106127 / 2 ^ 29) = - 16106127 / 2 ^ 28"
    unfolding leftStep32_def Let_def constants32
    by (simp only: c hw m2 t2) simp
  have m3: "round32 (- 16106127 / 2 ^ 28 - 16106127 / 2 ^ 29) = - 12079595 / 2 ^ 27"
    using round32_cell [of "- 16106127 / 2 ^ 28 - 16106127 / 2 ^ 29" 27 "- 12079595"] by simp
  have t3: "round32 (- 12079595 / 2 ^ 27 - 13421773 / 2 ^ 27) = - 3187671 / 2 ^ 24"
    using round32_cell [of "- 12079595 / 2 ^ 27 - 13421773 / 2 ^ 27" 26 "- 12750684"] by simp
  have s3: "leftStep32 (- 16106127 / 2 ^ 28) = - 12079595 / 2 ^ 27"
    unfolding leftStep32_def Let_def constants32
    by (simp only: c hw m3 t3) simp
  have m4: "round32 (- 12079595 / 2 ^ 27 - 16106127 / 2 ^ 29) = - 16106127 / 2 ^ 27"
    using round32_cell [of "- 12079595 / 2 ^ 27 - 16106127 / 2 ^ 29" 27 "- 16106127"] by simp
  have t4: "round32 (- 16106127 / 2 ^ 27 - 13421773 / 2 ^ 27) = - 7381975 / 2 ^ 25"
    using round32_cell [of "- 16106127 / 2 ^ 27 - 13421773 / 2 ^ 27" 26 "- 14763950"] by simp
  have s4: "leftStep32 (- 12079595 / 2 ^ 27) = - 16106127 / 2 ^ 27"
    unfolding leftStep32_def Let_def constants32
    by (simp only: c hw m4 t4) simp
  have m5: "round32 (- 16106127 / 2 ^ 27 - 16106127 / 2 ^ 29) = - 10066329 / 2 ^ 26"
    using round32_cell [of "- 16106127 / 2 ^ 27 - 16106127 / 2 ^ 29" 26 "- 10066329"] by simp
  have t5: "round32 (- 10066329 / 2 ^ 26 - 13421773 / 2 ^ 27) = - 1 / 2 ^ 2"
    using round32_tie [of "- 10066329 / 2 ^ 26 - 13421773 / 2 ^ 27" 26 "- 16777216"] by simp
  have s5: "leftStep32 (- 16106127 / 2 ^ 27) = - 10066329 / 2 ^ 26"
    unfolding leftStep32_def Let_def constants32
    by (simp only: c hw m5 t5) simp
  have m6: "round32 (- 10066329 / 2 ^ 26 - 16106127 / 2 ^ 29) = - 12079595 / 2 ^ 26"
    using round32_cell [of "- 10066329 / 2 ^ 26 - 16106127 / 2 ^ 29" 26 "- 12079595"] by simp
  have t6: "round32 (- 12079595 / 2 ^ 26 - 13421773 / 2 ^ 27) = - 9395241 / 2 ^ 25"
    using round32_cell [of "- 12079595 / 2 ^ 26 - 13421773 / 2 ^ 27" 25 "- 9395241"] by simp
  have s6: "leftStep32 (- 10066329 / 2 ^ 26) = - 12079595 / 2 ^ 26"
    unfolding leftStep32_def Let_def constants32
    by (simp only: c hw m6 t6) simp
  have m7: "round32 (- 12079595 / 2 ^ 26 - 16106127 / 2 ^ 29) = - 14092861 / 2 ^ 26"
    using round32_cell [of "- 12079595 / 2 ^ 26 - 16106127 / 2 ^ 29" 26 "- 14092861"] by simp
  have t7: "round32 (- 14092861 / 2 ^ 26 - 13421773 / 2 ^ 27) = - 5200937 / 2 ^ 24"
    using round32_cell [of "- 14092861 / 2 ^ 26 - 13421773 / 2 ^ 27" 25 "- 10401874"] by simp
  have s7: "leftStep32 (- 12079595 / 2 ^ 26) = - 14092861 / 2 ^ 26"
    unfolding leftStep32_def Let_def constants32
    by (simp only: c hw m7 t7) simp
  have m8: "round32 (- 14092861 / 2 ^ 26 - 16106127 / 2 ^ 29) = - 16106127 / 2 ^ 26"
    using round32_cell [of "- 14092861 / 2 ^ 26 - 16106127 / 2 ^ 29" 26 "- 16106127"] by simp
  have t8: "round32 (- 16106127 / 2 ^ 26 - 13421773 / 2 ^ 27) = - 11408507 / 2 ^ 25"
    using round32_cell [of "- 16106127 / 2 ^ 26 - 13421773 / 2 ^ 27" 25 "- 11408507"] by simp
  have s8: "leftStep32 (- 14092861 / 2 ^ 26) = - 16106127 / 2 ^ 26"
    unfolding leftStep32_def Let_def constants32
    by (simp only: c hw m8 t8) simp
  have m9: "round32 (- 16106127 / 2 ^ 26 - 16106127 / 2 ^ 29) = - 566231 / 2 ^ 21"
    using round32_cell [of "- 16106127 / 2 ^ 26 - 16106127 / 2 ^ 29" 25 "- 9059696"] by simp
  have t9: "round32 (- 566231 / 2 ^ 21 - 13421773 / 2 ^ 27) = - 12415139 / 2 ^ 25"
    using round32_cell [of "- 566231 / 2 ^ 21 - 13421773 / 2 ^ 27" 25 "- 12415139"] by simp
  have s9: "leftStep32 (- 16106127 / 2 ^ 26) = - 566231 / 2 ^ 21"
    unfolding leftStep32_def Let_def constants32
    by (simp only: c hw m9 t9) simp
  have m10: "round32 (- 566231 / 2 ^ 21 - 16106127 / 2 ^ 29) = - 10066329 / 2 ^ 25"
    using round32_cell [of "- 566231 / 2 ^ 21 - 16106127 / 2 ^ 29" 25 "- 10066329"] by simp
  have t10: "round32 (- 10066329 / 2 ^ 25 - 13421773 / 2 ^ 27) = - 3355443 / 2 ^ 23"
    using round32_cell [of "- 10066329 / 2 ^ 25 - 13421773 / 2 ^ 27" 25 "- 13421772"] by simp
  have s10: "leftStep32 (- 566231 / 2 ^ 21) = - 10066329 / 2 ^ 25"
    unfolding leftStep32_def Let_def constants32
    by (simp only: c hw m10 t10) simp
  have m11: "round32 (- 10066329 / 2 ^ 25 - 16106127 / 2 ^ 29) = - 5536481 / 2 ^ 24"
    using round32_cell [of "- 10066329 / 2 ^ 25 - 16106127 / 2 ^ 29" 25 "- 11072962"] by simp
  have t11: "round32 (- 5536481 / 2 ^ 24 - 13421773 / 2 ^ 27) = - 14428405 / 2 ^ 25"
    using round32_cell [of "- 5536481 / 2 ^ 24 - 13421773 / 2 ^ 27" 25 "- 14428405"] by simp
  have s11: "leftStep32 (- 10066329 / 2 ^ 25) = - 5536481 / 2 ^ 24"
    unfolding leftStep32_def Let_def constants32
    by (simp only: c hw m11 t11) simp
  have m12: "round32 (- 5536481 / 2 ^ 24 - 16106127 / 2 ^ 29) = - 12079595 / 2 ^ 25"
    using round32_cell [of "- 5536481 / 2 ^ 24 - 16106127 / 2 ^ 29" 25 "- 12079595"] by simp
  have t12: "round32 (- 12079595 / 2 ^ 25 - 13421773 / 2 ^ 27) = - 7717519 / 2 ^ 24"
    using round32_cell [of "- 12079595 / 2 ^ 25 - 13421773 / 2 ^ 27" 25 "- 15435038"] by simp
  have s12: "leftStep32 (- 5536481 / 2 ^ 24) = - 12079595 / 2 ^ 25"
    unfolding leftStep32_def Let_def constants32
    by (simp only: c hw m12 t12) simp
  have m13: "round32 (- 12079595 / 2 ^ 25 - 16106127 / 2 ^ 29) = - 3271557 / 2 ^ 23"
    using round32_cell [of "- 12079595 / 2 ^ 25 - 16106127 / 2 ^ 29" 25 "- 13086228"] by simp
  have t13: "round32 (- 3271557 / 2 ^ 23 - 13421773 / 2 ^ 27) = - 16441671 / 2 ^ 25"
    using round32_cell [of "- 3271557 / 2 ^ 23 - 13421773 / 2 ^ 27" 25 "- 16441671"] by simp
  have s13: "leftStep32 (- 12079595 / 2 ^ 25) = - 3271557 / 2 ^ 23"
    unfolding leftStep32_def Let_def constants32
    by (simp only: c hw m13 t13) simp
  have m14: "round32 (- 3271557 / 2 ^ 23 - 16106127 / 2 ^ 29) = - 14092861 / 2 ^ 25"
    using round32_cell [of "- 3271557 / 2 ^ 23 - 16106127 / 2 ^ 29" 25 "- 14092861"] by simp
  have t14: "round32 (- 14092861 / 2 ^ 25 - 13421773 / 2 ^ 27) = - 1090519 / 2 ^ 21"
    using round32_cell [of "- 14092861 / 2 ^ 25 - 13421773 / 2 ^ 27" 24 "- 8724152"] by simp
  have s14: "leftStep32 (- 3271557 / 2 ^ 23) = - 14092861 / 2 ^ 25"
    unfolding leftStep32_def Let_def constants32
    by (simp only: c hw m14 t14) simp
  have "(leftStep32 ^^ 14) 0 =
      leftStep32 (leftStep32 (leftStep32 (leftStep32 (leftStep32 (leftStep32 (leftStep32 (leftStep32 (leftStep32 (leftStep32 (leftStep32 (leftStep32 (leftStep32 (leftStep32 (0))))))))))))))"
    by (simp add: eval_nat_numeral)
  also have "\<dots> = - 14092861 / 2 ^ 25"
    by (simp only: s1 s2 s3 s4 s5 s6 s7 s8 s9 s10 s11 s12 s13 s14)
  finally show ?thesis
    by (simp add: glancing_def)
qed

text \<open>
  The velocity of \<open>glancing\<close> is that of the serve for \<^verbatim>\<open>rand() % 90 = 35\<close>, an angle of
  -10 degrees, with the y-component negated, as the brick loop or the upper wall leave
  it: for every library whose sine of that angle is within \<open>1 / 2 ^ 29\<close> of the sine, and
  so for \<open>libmDouble\<close>.
\<close>

lemma serveAngle32_35: "serveAngle32 35 = - 11712697 / 2 ^ 26"
proof -
  have b0: "real_of_int (int 35 mod 90 - 45) = - 10"
    by simp
  have b1: "round32 (- 10 * (823549 / 2 ^ 18)) = - 4117745 / 2 ^ 17"
    using round32_cell [of "- 10 * (823549 / 2 ^ 18)" 19 "- 16470980"] by simp
  have b2: "round32 (- 4117745 / 2 ^ 17 / 180) = - 11712697 / 2 ^ 26"
    using round32_cell [of "- 4117745 / 2 ^ 17 / 180" 26 "- 11712697"] by simp
  show ?thesis
    unfolding serveAngle32_def constants32 by (simp only: b0 b1 b2)
qed

lemma glancing_velocity:
  assumes "\<bar>lsin lib (serveAngle32 35) - sin (serveAngle32 35)\<bar> \<le> 1 / 2 ^ 29"
  shows "ballVelocity glancing =
     Vec2 (vx (serveVelocity32 lib 35)) (- vy (serveVelocity32 lib 35))"
proof -
  have v: "BALL_VELOCITY32 = 5368709 / 2 ^ 29"
    unfolding BALL_VELOCITY32_def
    using round32_cell [of "0.01" 30 "10737418"] by simp
  have "- 205007421678997361411 / 2 ^ 70 \<le> sin (- 11712697 / 2 ^ 26 :: real) \<and>
      sin (- 11712697 / 2 ^ 26 :: real) \<le> - 205007421678997090627 / 2 ^ 70"
    using sin_between [of "- 205007421678997361411 / 2 ^ 70" "- 11712697 / 2 ^ 26" "- 205007421678997090627 / 2 ^ 70"]
    by (simp add: power_divide)
  then have e: "- 205007421678997361411 / 2 ^ 70 \<le> sin (serveAngle32 35)"
      "sin (serveAngle32 35) \<le> - 205007421678997090627 / 2 ^ 70"
    unfolding serveAngle32_35 by blast+
  have "lsin lib (serveAngle32 35) - sin (serveAngle32 35) \<le> 1 / 2 ^ 29"
    using assms by (rule abs_le_D1)
  moreover have "- (lsin lib (serveAngle32 35) - sin (serveAngle32 35)) \<le> 1 / 2 ^ 29"
    using assms by (rule abs_le_D2)
  ultimately have s: "- 205007423878020616963 / 2 ^ 70 \<le> lsin lib (serveAngle32 35)"
      "lsin lib (serveAngle32 35) \<le> - 205007419479973835075 / 2 ^ 70"
    using e by simp_all
  have "round32 (round64 (BALL_VELOCITY32 * lsin lib (serveAngle32 35))) = - 14916253 / 2 ^ 33"
    unfolding v
    using round32_round64_product [OF s, where sp = "5368709 / 2 ^ 29" and k = 33 and m = "- 14916253"]
    by simp
  then show ?thesis
    by (simp add: serveVelocity32_def glancing_def v)
qed

lemma glancing_velocity_libmDouble:
  "ballVelocity glancing =
     Vec2 (vx (serveVelocity32 libmDouble 35)) (- vy (serveVelocity32 libmDouble 35))"
proof (rule glancing_velocity)
  have "- 205007421678997361411 / 2 ^ 70 \<le> sin (- 11712697 / 2 ^ 26 :: real) \<and>
      sin (- 11712697 / 2 ^ 26 :: real) \<le> - 205007421678997090627 / 2 ^ 70"
    using sin_between [of "- 205007421678997361411 / 2 ^ 70" "- 11712697 / 2 ^ 26" "- 205007421678997090627 / 2 ^ 70"]
    by (simp add: power_divide)
  then have "\<bar>sin (serveAngle32 35)\<bar> < 1 / 2 ^ 0"
    unfolding serveAngle32_35 by simp
  then have "\<bar>round64 (sin (serveAngle32 35)) - sin (serveAngle32 35)\<bar> \<le> 1 / 2 ^ (0 + 53)"
    by (rule round64_error_small) simp
  then show "\<bar>lsin libmDouble (serveAngle32 35) - sin (serveAngle32 35)\<bar> \<le> 1 / 2 ^ 29"
    by (simp add: libmDouble_def)
qed

text \<open>The hit position, about -0.0718, and the angle, about -0.0751 (4.3 degrees).\<close>

lemma glancing_hitPos: "hitPos32 glancing = - 601885 / 2 ^ 23"
proof -
  have hw: "round32 (13421773 / 2 ^ 26 / 2) = 13421773 / 2 ^ 27"
    using round32_cell [of "13421773 / 2 ^ 26 / 2" 27 "13421773"] by simp
  have d: "round32 (- 14333615 / 2 ^ 25 - - 14092861 / 2 ^ 25) = - 120377 / 2 ^ 24"
    using round32_cell [of "- 14333615 / 2 ^ 25 - - 14092861 / 2 ^ 25" 31 "- 15408256"] by simp
  have q: "round32 (- 120377 / 2 ^ 24 / (13421773 / 2 ^ 27)) = - 601885 / 2 ^ 23"
    using round32_cell [of "- 120377 / 2 ^ 24 / (13421773 / 2 ^ 27)" 27 "- 9630160"] by simp
  show ?thesis
    unfolding hitPos32_def glancing_def constants32
    by (simp only: GameState.select_convs GameObject.select_convs vec2.sel hw d q)
qed

lemma glancing_angle: "angle32 glancing = - 157573 / 2 ^ 21"
proof -
  have a1: "round32 (- 601885 / 2 ^ 23 * 60) = - 9028275 / 2 ^ 21"
    using round32_cell [of "- 601885 / 2 ^ 23 * 60" 21 "- 9028275"] by simp
  have a2: "round32 (- 9028275 / 2 ^ 21 * (823549 / 2 ^ 18)) = - 7090785 / 2 ^ 19"
    using round32_cell [of "- 9028275 / 2 ^ 21 * (823549 / 2 ^ 18)" 20 "- 14181570"] by simp
  have a3: "round32 (- 7090785 / 2 ^ 19 / 180) = - 157573 / 2 ^ 21"
    using round32_cell [of "- 7090785 / 2 ^ 19 / 180" 27 "- 10084672"] by simp
  show ?thesis
    unfolding angle32_def glancing_hitPos constants32
    by (simp only: a1 a2 a3)
qed

text \<open>The speed before the bounce, about 0.0101496484.\<close>

lemma glancing_speed: "length32 (ballVelocity glancing) = 5449051 / 2 ^ 29"
proof -
  have xx: "round32 (- 14916253 / 2 ^ 33 * (- 14916253 / 2 ^ 33)) = 828857 / 2 ^ 38"
    using round32_cell [of "- 14916253 / 2 ^ 33 * (- 14916253 / 2 ^ 33)" 42 "13261712"] by simp
  have yy: "round32 (- 5368709 / 2 ^ 29 * (- 5368709 / 2 ^ 29)) = 13743895 / 2 ^ 37"
    using round32_cell [of "- 5368709 / 2 ^ 29 * (- 5368709 / 2 ^ 29)" 37 "13743895"] by simp
  have s: "round32 (828857 / 2 ^ 38 + 13743895 / 2 ^ 37) = 3539581 / 2 ^ 35"
    using round32_tie [of "828857 / 2 ^ 38 + 13743895 / 2 ^ 37" 37 "14158323"] by simp
  have r: "round32 (sqrt (3539581 / 2 ^ 35)) = 5449051 / 2 ^ 29"
    using round32_sqrt_cell [of 30 "3539581 / 2 ^ 35" "10898102"] by (simp add: power2_eq_square)
  show ?thesis
    unfolding length32_def glancing_def
    by (simp only: GameState.select_convs GameObject.select_convs vec2.sel xx yy s r)
qed

text \<open>The sine and the cosine of the angle, to 20 decimal places.\<close>

lemma glancing_sin_cos:
  "- 88622271618908209274 / 2 ^ 70 \<le> sin (angle32 glancing)" "sin (angle32 glancing) \<le> - 88622271618908209247 / 2 ^ 70"
  "1177260662674697715508 / 2 ^ 70 \<le> cos (angle32 glancing)" "cos (angle32 glancing) \<le> 1177260662674697715509 / 2 ^ 70"
proof -
  have "- 88622271618908209274 / 2 ^ 70 \<le> sin (- 157573 / 2 ^ 21 :: real) \<and>
      sin (- 157573 / 2 ^ 21 :: real) \<le> - 88622271618908209247 / 2 ^ 70"
    using sin_between [of "- 88622271618908209274 / 2 ^ 70" "- 157573 / 2 ^ 21" "- 88622271618908209247 / 2 ^ 70"]
    by (simp add: power_divide)
  then show "- 88622271618908209274 / 2 ^ 70 \<le> sin (angle32 glancing)"
      "sin (angle32 glancing) \<le> - 88622271618908209247 / 2 ^ 70"
    unfolding glancing_angle by blast+
  have "1177260662674697715508 / 2 ^ 70 \<le> cos (- 157573 / 2 ^ 21 :: real) \<and>
      cos (- 157573 / 2 ^ 21 :: real) \<le> 1177260662674697715509 / 2 ^ 70"
    using cos_between [of "1177260662674697715508 / 2 ^ 70" "- 157573 / 2 ^ 21" "1177260662674697715509 / 2 ^ 70"]
    by (simp add: power_divide)
  then show "1177260662674697715508 / 2 ^ 70 \<le> cos (angle32 glancing)"
      "cos (angle32 glancing) \<le> 1177260662674697715509 / 2 ^ 70"
    unfolding glancing_angle by blast+
qed

text \<open>
  The velocity after the bounce, about (-0.00076189, 0.01012101). It is the same for
  every library whose sine of the angle is within \<open>1 / 2 ^ 29\<close> of the sine and whose
  cosine is within \<open>1 / 2 ^ 26\<close> of the cosine: the results of a library of double
  precision are more than a million times closer.
\<close>

lemma glancing_bounce:
  assumes "\<bar>lsin lib (angle32 glancing) - sin (angle32 glancing)\<bar> \<le> 1 / 2 ^ 29"
    and "\<bar>lcos lib (angle32 glancing) - cos (angle32 glancing)\<bar> \<le> 1 / 2 ^ 26"
  shows "ballVelocity (paddleCollision32 lib glancing) = Vec2 (- 3272307 / 2 ^ 32) (5433677 / 2 ^ 29)"
proof -
  note e = glancing_sin_cos
  have "lsin lib (angle32 glancing) - sin (angle32 glancing) \<le> 1 / 2 ^ 29"
    using assms(1) by (rule abs_le_D1)
  moreover have "- (lsin lib (angle32 glancing) - sin (angle32 glancing)) \<le> 1 / 2 ^ 29"
    using assms(1) by (rule abs_le_D2)
  ultimately have s: "- 88622273817931464826 / 2 ^ 70 \<le> lsin lib (angle32 glancing)"
      "lsin lib (angle32 glancing) \<le> - 88622269419884953695 / 2 ^ 70"
    using e(1,2) by simp_all
  have "lcos lib (angle32 glancing) - cos (angle32 glancing) \<le> 1 / 2 ^ 26"
    using assms(2) by (rule abs_le_D1)
  moreover have "- (lcos lib (angle32 glancing) - cos (angle32 glancing)) \<le> 1 / 2 ^ 26"
    using assms(2) by (rule abs_le_D2)
  ultimately have c: "1177260645082511671092 / 2 ^ 70 \<le> lcos lib (angle32 glancing)"
      "lcos lib (angle32 glancing) \<le> 1177260680266883759925 / 2 ^ 70"
    using e(3,4) by simp_all
  have x: "round32 (round64 (length32 (ballVelocity glancing) * lsin lib (angle32 glancing))) =
      - 3272307 / 2 ^ 32"
    unfolding glancing_speed
    using round32_round64_product [OF s, where sp = "5449051 / 2 ^ 29" and k = 34 and m = "- 13089228"]
    by simp
  have y: "round32 (round64 (length32 (ballVelocity glancing) * lcos lib (angle32 glancing))) =
      5433677 / 2 ^ 29"
    unfolding glancing_speed
    using round32_round64_product [OF c, where sp = "5449051 / 2 ^ 29" and k = 30 and m = "10867354"]
    by simp
  show ?thesis
    unfolding paddleCollision32_def Let_def
    by (simp only: glancing_collision if_True GameState.simps vec2.sel x y) simp
qed

text \<open>The length of that velocity, about 0.0101496493: the float next above the speed.\<close>

lemma glancing_length_after: "length32 (Vec2 (- 3272307 / 2 ^ 32) (5433677 / 2 ^ 29)) = 10898103 / 2 ^ 30"
proof -
  have xx: "round32 (- 3272307 / 2 ^ 32 * (- 3272307 / 2 ^ 32)) = 5105969 / 2 ^ 43"
    using round32_cell [of "- 3272307 / 2 ^ 32 * (- 3272307 / 2 ^ 32)" 44 "10211938"] by simp
  have yy: "round32 (5433677 / 2 ^ 29 * (5433677 / 2 ^ 29)) = 879909 / 2 ^ 33"
    using round32_cell [of "5433677 / 2 ^ 29 * (5433677 / 2 ^ 29)" 37 "14078544"] by simp
  have s: "round32 (5105969 / 2 ^ 43 + 879909 / 2 ^ 33) = 14158325 / 2 ^ 37"
    using round32_cell [of "5105969 / 2 ^ 43 + 879909 / 2 ^ 33" 37 "14158325"] by simp
  have r: "round32 (sqrt (14158325 / 2 ^ 37)) = 10898103 / 2 ^ 30"
    using round32_sqrt_cell [of 30 "14158325 / 2 ^ 37" "10898103"] by (simp add: power2_eq_square)
  show ?thesis
    unfolding length32_def 
    by (simp only: GameState.select_convs GameObject.select_convs vec2.sel xx yy s r)
qed

text \<open>The two libraries are that close.\<close>

lemma libmDouble_accurate:
  "\<bar>lsin libmDouble (angle32 glancing) - sin (angle32 glancing)\<bar> \<le> 1 / 2 ^ 29"
  "\<bar>lcos libmDouble (angle32 glancing) - cos (angle32 glancing)\<bar> \<le> 1 / 2 ^ 26"
proof -
  have "\<bar>sin (angle32 glancing)\<bar> < 1 / 2 ^ 0"
    using glancing_sin_cos(1,2) by simp
  then have "\<bar>round64 (sin (angle32 glancing)) - sin (angle32 glancing)\<bar> \<le> 1 / 2 ^ (0 + 53)"
    by (rule round64_error_small) simp
  then show "\<bar>lsin libmDouble (angle32 glancing) - sin (angle32 glancing)\<bar> \<le> 1 / 2 ^ 29"
    by (simp add: libmDouble_def)
  have "\<bar>cos (angle32 glancing)\<bar> < 1 / 2 ^ 0"
    using glancing_sin_cos(3,4) by simp
  then have "\<bar>round64 (cos (angle32 glancing)) - cos (angle32 glancing)\<bar> \<le> 1 / 2 ^ (0 + 53)"
    by (rule round64_error_small) simp
  then show "\<bar>lcos libmDouble (angle32 glancing) - cos (angle32 glancing)\<bar> \<le> 1 / 2 ^ 26"
    by (simp add: libmDouble_def)
qed

lemma libmFloat_values:
  "lsin libmFloat (angle32 glancing) = - 5037593 / 2 ^ 26"
  "lcos libmFloat (angle32 glancing) = 2091235 / 2 ^ 21"
proof -
  note e = glancing_sin_cos
  have "round32 (sin (angle32 glancing)) = - 5037593 / 2 ^ 26"
    using round32_between [OF e(1,2), where k = 27 and m = "- 10075186"] by simp
  then show "lsin libmFloat (angle32 glancing) = - 5037593 / 2 ^ 26"
    by (simp add: libmFloat_def)
  have "round32 (cos (angle32 glancing)) = 2091235 / 2 ^ 21"
    using round32_between [OF e(3,4), where k = 24 and m = "16729880"] by simp
  then show "lcos libmFloat (angle32 glancing) = 2091235 / 2 ^ 21"
    by (simp add: libmFloat_def)
qed

lemma libmFloat_accurate:
  "\<bar>lsin libmFloat (angle32 glancing) - sin (angle32 glancing)\<bar> \<le> 1 / 2 ^ 29"
  "\<bar>lcos libmFloat (angle32 glancing) - cos (angle32 glancing)\<bar> \<le> 1 / 2 ^ 26"
  unfolding libmFloat_values using glancing_sin_cos by (simp_all add: abs_le_iff)

text \<open>
  With \<open>libmFloat\<close> the two factors of each product are floats, and the product is a
  \<^verbatim>\<open>double\<close> as it is: the model is then also that of a program that multiplies in
  \<^verbatim>\<open>float\<close>.
\<close>

lemma libmFloat_products:
  "round64 (length32 (ballVelocity glancing) * lsin libmFloat (angle32 glancing)) =
     length32 (ballVelocity glancing) * lsin libmFloat (angle32 glancing)"
  "round64 (length32 (ballVelocity glancing) * lcos libmFloat (angle32 glancing)) =
     length32 (ballVelocity glancing) * lcos libmFloat (angle32 glancing)"
proof -
  have "round64 (5449051 / 2 ^ 29 * (- 5037593 / 2 ^ 26)) = 5449051 / 2 ^ 29 * (- 5037593 / 2 ^ 26)"
    using round64_cell [of "5449051 / 2 ^ 29 * (- 5037593 / 2 ^ 26)" 63 "- 7027225900606208"] by simp
  then show "round64 (length32 (ballVelocity glancing) * lsin libmFloat (angle32 glancing)) =
      length32 (ballVelocity glancing) * lsin libmFloat (angle32 glancing)"
    by (simp only: glancing_speed libmFloat_values)
  have "round64 (5449051 / 2 ^ 29 * (2091235 / 2 ^ 21)) = 5449051 / 2 ^ 29 * (2091235 / 2 ^ 21)"
    using round64_cell [of "5449051 / 2 ^ 29 * (2091235 / 2 ^ 21)" 59 "5834366038008320"] by simp
  then show "round64 (length32 (ballVelocity glancing) * lcos libmFloat (angle32 glancing)) =
      length32 (ballVelocity glancing) * lcos libmFloat (angle32 glancing)"
    by (simp only: glancing_speed libmFloat_values)
qed

text \<open>
  C8, as stated, in the arithmetic of the program: in \<open>glancing\<close> the paddle block finds
  the collision, and the velocity it leaves is longer than the velocity it found, by one
  unit in the last place of \<^verbatim>\<open>glm::length\<close>, with a library of double precision as with
  one of single precision. The exact lengths of the two velocities differ as well.
\<close>

theorem paddle_bounce_changes_speed_counterexample:
  "checkCollision32 (ball glancing) (paddle glancing) \<and>
   length32 (ballVelocity glancing) = 5449051 / 2 ^ 29 \<and>
   length32 (ballVelocity (paddleCollision32 libmDouble glancing)) = 10898103 / 2 ^ 30 \<and>
   length32 (ballVelocity (paddleCollision32 libmFloat glancing)) = 10898103 / 2 ^ 30 \<and>
   length32 (ballVelocity (paddleCollision32 libmDouble glancing))
     \<noteq> length32 (ballVelocity glancing) \<and>
   length2 (ballVelocity (paddleCollision32 libmDouble glancing))
     \<noteq> length2 (ballVelocity glancing)"
proof -
  have d: "ballVelocity (paddleCollision32 libmDouble glancing) = Vec2 (- 3272307 / 2 ^ 32) (5433677 / 2 ^ 29)"
    using libmDouble_accurate by (rule glancing_bounce)
  have f: "ballVelocity (paddleCollision32 libmFloat glancing) = Vec2 (- 3272307 / 2 ^ 32) (5433677 / 2 ^ 29)"
    using libmFloat_accurate by (rule glancing_bounce)
  have v: "ballVelocity glancing = Vec2 (- 14916253 / 2 ^ 33) (- 5368709 / 2 ^ 29)"
    by (simp add: glancing_def)
  have 1: "length32 (ballVelocity (paddleCollision32 libmDouble glancing)) = 10898103 / 2 ^ 30"
    unfolding d by (rule glancing_length_after)
  have 2: "length32 (ballVelocity (paddleCollision32 libmFloat glancing)) = 10898103 / 2 ^ 30"
    unfolding f by (rule glancing_length_after)
  have 3: "length32 (ballVelocity (paddleCollision32 libmDouble glancing))
      \<noteq> length32 (ballVelocity glancing)"
    unfolding 1 glancing_speed by simp
  have 4: "length2 (ballVelocity (paddleCollision32 libmDouble glancing))
      \<noteq> length2 (ballVelocity glancing)"
    unfolding d v by (simp add: length2_def)
  from glancing_collision glancing_speed 1 2 3 4 show ?thesis
    by blast
qed

subsection \<open>What the bounce keeps\<close>

text \<open>
  The errors of the roundings add up. First the triangle inequality: a vector within
  \<open>d\<close> in each component of a vector of length \<open>c\<close> has a length within \<open>2 * d\<close> of \<open>c\<close>;
  and a number within \<open>d\<close> of a square \<open>n\<^sup>2\<close> has a root within \<open>h\<close> of \<open>n\<close>, if \<open>h\<close> is large
  enough for \<open>d\<close>.
\<close>

lemma sqrt_polar:
  assumes "0 \<le> c"
  shows "sqrt ((c * sin t)\<^sup>2 + (c * cos t)\<^sup>2) = c"
  using length2_polar(1) [OF assms, of t] by (simp add: length2_def power2_eq_square)

lemma norm_perturbed:
  assumes "0 \<le> c" "\<bar>x - c * sin t\<bar> \<le> d" "\<bar>y - c * cos t\<bar> \<le> d"
  shows "\<bar>sqrt (x\<^sup>2 + y\<^sup>2) - c\<bar> \<le> 2 * d"
proof -
  define ex where "ex = x - c * sin t"
  define ey where "ey = y - c * cos t"
  have x: "x = c * sin t + ex" and y: "y = c * cos t + ey"
    by (simp_all add: ex_def ey_def)
  have e: "sqrt (ex\<^sup>2 + ey\<^sup>2) \<le> \<bar>ex\<bar> + \<bar>ey\<bar>"
    by (rule sqrt_sum_squares_le_sum_abs)
  have e': "sqrt ((- ex)\<^sup>2 + (- ey)\<^sup>2) \<le> \<bar>ex\<bar> + \<bar>ey\<bar>"
    using e by simp
  from assms(2,3) have d: "\<bar>ex\<bar> + \<bar>ey\<bar> \<le> 2 * d"
    by (simp add: ex_def ey_def)
  have "sqrt (x\<^sup>2 + y\<^sup>2) \<le> sqrt ((c * sin t)\<^sup>2 + (c * cos t)\<^sup>2) + sqrt (ex\<^sup>2 + ey\<^sup>2)"
    unfolding x y by (rule real_sqrt_sum_squares_triangle_ineq)
  then have 1: "sqrt (x\<^sup>2 + y\<^sup>2) \<le> c + 2 * d"
    using e d sqrt_polar [OF assms(1), of t] by linarith
  have "sqrt ((x + (- ex))\<^sup>2 + (y + (- ey))\<^sup>2) \<le> sqrt (x\<^sup>2 + y\<^sup>2) + sqrt ((- ex)\<^sup>2 + (- ey)\<^sup>2)"
    by (rule real_sqrt_sum_squares_triangle_ineq)
  moreover have "x + (- ex) = c * sin t" "y + (- ey) = c * cos t"
    by (simp_all add: ex_def ey_def)
  ultimately have "c \<le> sqrt (x\<^sup>2 + y\<^sup>2) + sqrt ((- ex)\<^sup>2 + (- ey)\<^sup>2)"
    using sqrt_polar [OF assms(1), of t] by simp
  with e' d have 2: "c - 2 * d \<le> sqrt (x\<^sup>2 + y\<^sup>2)"
    by linarith
  from 1 2 show ?thesis
    by linarith
qed

lemma sqrt_near:
  assumes "\<bar>q - n\<^sup>2\<bar> \<le> d" "0 \<le> h" "h \<le> n" "d \<le> 2 * n * h - h\<^sup>2"
  shows "\<bar>sqrt q - n\<bar> \<le> h"
proof -
  have n: "0 \<le> n"
    using assms(2,3) by simp
  have "(n - h)\<^sup>2 = n\<^sup>2 - 2 * n * h + h\<^sup>2"
    by (simp add: power2_diff)
  with assms(1,4) have "(n - h)\<^sup>2 \<le> q"
    by linarith
  then have 1: "n - h \<le> sqrt q"
    by (rule real_le_rsqrt)
  have "0 \<le> h\<^sup>2"
    by simp
  have "(n + h)\<^sup>2 = n\<^sup>2 + 2 * n * h + h\<^sup>2"
    by (simp add: power2_sum)
  with assms(1,4) \<open>0 \<le> h\<^sup>2\<close> have "q \<le> (n + h)\<^sup>2"
    by linarith
  then have 2: "sqrt q \<le> n + h"
    using n assms(2) by (intro real_le_lsqrt) auto
  from 1 2 show ?thesis
    by linarith
qed

text \<open>Sums of errors, for the steps below.\<close>

lemma abs_chain3:
  fixes a b c t :: real
  assumes "\<bar>a - b\<bar> \<le> e1" "\<bar>c - a\<bar> \<le> e2" "\<bar>b - t\<bar> \<le> e3" "e1 + e2 + e3 \<le> e"
  shows "\<bar>c - t\<bar> \<le> e"
  using assms by linarith

lemma abs_less_chain:
  fixes a s b c :: real
  assumes "\<bar>a\<bar> \<le> s" "s < b" "b \<le> c"
  shows "\<bar>a\<bar> < c"
  using assms by linarith

lemma abs_near_less:
  fixes a r :: real
  assumes "\<bar>a\<bar> \<le> b" "\<bar>r - a\<bar> \<le> e" "b + e < c"
  shows "\<bar>r\<bar> < c"
  using assms by linarith

lemma abs_sum_near_less:
  fixes qx qy X Y :: real
  assumes "\<bar>qx - X\<bar> \<le> e" "\<bar>qy - Y\<bar> \<le> e" "0 \<le> X" "0 \<le> Y" "X + Y < b" "b + 2 * e \<le> c"
  shows "\<bar>qx + qy\<bar> < c"
  using assms by linarith

lemma abs_sum_chain:
  fixes q qx qy X Y :: real
  assumes "\<bar>q - (qx + qy)\<bar> \<le> e" "\<bar>qx - X\<bar> \<le> e" "\<bar>qy - Y\<bar> \<le> e" "3 * e \<le> d"
  shows "\<bar>q - (X + Y)\<bar> \<le> d"
  using assms by linarith

text \<open>
  A component of the new velocity: the product of a speed of the game and the library's
  sine or cosine, rounded to binary64 and then to binary32, is within
  \<open>1 / 2 ^ 30 + 1 / 2 ^ 45\<close> of the exact product with the sine or cosine itself.
\<close>

lemma product_rounded:
  assumes "0 \<le> sp" "sp \<le> 1 / 64" "\<bar>S - t\<bar> \<le> 1 / 2 ^ 40" "\<bar>t\<bar> \<le> 1"
  shows "\<bar>round32 (round64 (sp * S)) - sp * t\<bar> \<le> 1 / 2 ^ 30 + 1 / 2 ^ 45"
proof -
  from assms(3,4) have S: "\<bar>S\<bar> \<le> 1 + 1 / 2 ^ 40"
    by linarith
  have "\<bar>sp * S\<bar> = sp * \<bar>S\<bar>"
    using assms(1) by (simp add: abs_mult)
  also have "\<dots> \<le> 1 / 64 * (1 + 1 / 2 ^ 40)"
    using assms(1,2) S by (intro mult_mono) auto
  finally have p: "\<bar>sp * S\<bar> \<le> 1 / 64 * (1 + 1 / 2 ^ 40)" .
  then have "\<bar>sp * S\<bar> < 1 / 2 ^ 5"
    by simp
  then have "\<bar>round64 (sp * S) - sp * S\<bar> \<le> 1 / 2 ^ (5 + 53)"
    by (rule round64_error_small) simp
  then have r: "\<bar>round64 (sp * S) - sp * S\<bar> \<le> 1 / 2 ^ 58"
    by simp
  have "\<bar>round64 (sp * S)\<bar> < 1 / 2 ^ 5"
    using p r by (rule abs_near_less) simp
  then have "\<bar>round32 (round64 (sp * S)) - round64 (sp * S)\<bar> \<le> 1 / 2 ^ (5 + 25)"
    by (rule round32_error_small) simp
  then have q: "\<bar>round32 (round64 (sp * S)) - round64 (sp * S)\<bar> \<le> 1 / 2 ^ 30"
    by simp
  have "\<bar>sp * S - sp * t\<bar> = sp * \<bar>S - t\<bar>"
    using assms(1) by (simp add: abs_mult flip: right_diff_distrib)
  also have "\<dots> \<le> 1 / 64 * (1 / 2 ^ 40)"
    using assms(1,2,3) by (intro mult_mono) auto
  finally have t: "\<bar>sp * S - sp * t\<bar> \<le> 1 / 64 * (1 / 2 ^ 40)" .
  from r q t show ?thesis
    by (rule abs_chain3) simp
qed

text \<open>
  \<open>length32\<close> of a vector of which the exact length is that close to a speed \<open>c\<close> of the
  game is within \<open>1 / 2 ^ 27\<close> of \<open>c\<close>.
\<close>

lemma length32_near:
  assumes "\<bar>sqrt (x\<^sup>2 + y\<^sup>2) - c\<bar> \<le> 1 / 2 ^ 29 + 1 / 2 ^ 44" "1 / 128 \<le> c" "c \<le> 1 / 64"
  shows "\<bar>length32 (Vec2 x y) - c\<bar> \<le> 1 / 2 ^ 27"
proof -
  define n where "n = sqrt (x\<^sup>2 + y\<^sup>2)"
  have n2: "n\<^sup>2 = x * x + y * y"
    by (simp add: n_def power2_eq_square)
  from assms have lo: "1 / 128 - (1 / 2 ^ 29 + 1 / 2 ^ 44) \<le> n"
    and hi: "n \<le> 1 / 64 + (1 / 2 ^ 29 + 1 / 2 ^ 44)"
    unfolding n_def by linarith+
  from lo have n0: "0 \<le> n"
    by simp
  from hi n0 have "n\<^sup>2 \<le> (1 / 64 + (1 / 2 ^ 29 + 1 / 2 ^ 44))\<^sup>2"
    by (intro power_mono) auto
  then have nn: "x * x + y * y < 1 / 2 ^ 12 + 1 / 2 ^ 32"
    unfolding n2 by (simp add: power2_eq_square)
  have p0: "0 \<le> x * x" "0 \<le> y * y"
    by simp_all
  define qx where "qx = round32 (x * x)"
  define qy where "qy = round32 (y * y)"
  define q where "q = round32 (qx + qy)"
  have "\<bar>x * x\<bar> \<le> x * x + y * y"
    using p0 by linarith
  then have xx: "\<bar>x * x\<bar> < 1 / 2 ^ 11"
    using nn by (rule abs_less_chain) simp
  have "\<bar>y * y\<bar> \<le> x * x + y * y"
    using p0 by linarith
  then have yy: "\<bar>y * y\<bar> < 1 / 2 ^ 11"
    using nn by (rule abs_less_chain) simp
  have "\<bar>qx - x * x\<bar> \<le> 1 / 2 ^ (11 + 25)"
    unfolding qx_def using xx by (rule round32_error_small) simp
  then have ex: "\<bar>qx - x * x\<bar> \<le> 1 / 2 ^ 36"
    by simp
  have "\<bar>qy - y * y\<bar> \<le> 1 / 2 ^ (11 + 25)"
    unfolding qy_def using yy by (rule round32_error_small) simp
  then have ey: "\<bar>qy - y * y\<bar> \<le> 1 / 2 ^ 36"
    by simp
  have "\<bar>qx + qy\<bar> < 1 / 2 ^ 11"
    using ex ey p0 nn by (rule abs_sum_near_less) simp
  then have "\<bar>q - (qx + qy)\<bar> \<le> 1 / 2 ^ (11 + 25)"
    unfolding q_def by (rule round32_error_small) simp
  then have "\<bar>q - (qx + qy)\<bar> \<le> 1 / 2 ^ 36"
    by simp
  then have "\<bar>q - (x * x + y * y)\<bar> \<le> 3 / 2 ^ 36"
    using ex ey by (rule abs_sum_chain) simp
  then have d: "\<bar>q - n\<^sup>2\<bar> \<le> 3 / 2 ^ 36"
    unfolding n2 .
  have "\<bar>sqrt q - n\<bar> \<le> 1 / 2 ^ 28"
    using d
  proof (rule sqrt_near)
    show "(0::real) \<le> 1 / 2 ^ 28"
      by simp
    show "1 / 2 ^ 28 \<le> n"
      using lo by simp
    show "3 / 2 ^ 36 \<le> 2 * n * (1 / 2 ^ 28) - (1 / 2 ^ 28)\<^sup>2"
      using lo by (simp add: power2_eq_square)
  qed
  then have s: "\<bar>sqrt q - n\<bar> \<le> 1 / 2 ^ 28" .
  have "\<bar>n\<bar> \<le> 1 / 64 + (1 / 2 ^ 29 + 1 / 2 ^ 44)"
    using hi n0 by simp
  then have "\<bar>sqrt q\<bar> < 1 / 2 ^ 5"
    using s by (rule abs_near_less) simp
  then have "\<bar>round32 (sqrt q) - sqrt q\<bar> \<le> 1 / 2 ^ (5 + 25)"
    by (rule round32_error_small) simp
  then have l: "\<bar>round32 (sqrt q) - sqrt q\<bar> \<le> 1 / 2 ^ 30"
    by simp
  have "\<bar>round32 (sqrt q) - c\<bar> \<le> 1 / 2 ^ 27"
    using s l assms(1) [folded n_def] by (rule abs_chain3) simp
  then show ?thesis
    by (simp add: length32_def q_def qx_def qy_def)
qed

text \<open>
  So the bounce changes \<^verbatim>\<open>glm::length(ballVelocity)\<close> by \<open>1 / 2 ^ 27\<close> at most, which is 8
  units in the last place of a float between \<open>1 / 128\<close> and \<open>1 / 64\<close>: for a speed in that
  range, where the speeds of the game are (\<open>resetBall\<close> serves at 0.01 to 0.0123), and
  for a library whose sine and cosine of the angle are within \<open>1 / 2 ^ 40\<close> of the sine
  and the cosine.
\<close>

lemma bounce_speed_error:
  assumes "checkCollision32 (ball s) (paddle s)"
    and "1 / 128 \<le> length32 (ballVelocity s)" "length32 (ballVelocity s) \<le> 1 / 64"
    and "\<bar>lsin lib (angle32 s) - sin (angle32 s)\<bar> \<le> 1 / 2 ^ 40"
    and "\<bar>lcos lib (angle32 s) - cos (angle32 s)\<bar> \<le> 1 / 2 ^ 40"
  shows "\<bar>length32 (ballVelocity (paddleCollision32 lib s)) - length32 (ballVelocity s)\<bar>
    \<le> 1 / 2 ^ 27"
proof -
  define sp where "sp = length32 (ballVelocity s)"
  define a where "a = angle32 s"
  define x where "x = round32 (round64 (sp * lsin lib a))"
  define y where "y = round32 (round64 (sp * lcos lib a))"
  have sp: "0 \<le> sp" "sp \<le> 1 / 64" "1 / 128 \<le> sp"
    using assms(2,3) by (simp_all add: sp_def)
  have "\<bar>x - sp * sin a\<bar> \<le> 1 / 2 ^ 30 + 1 / 2 ^ 45"
    unfolding x_def using sp(1,2) assms(4) [folded a_def] by (rule product_rounded) simp
  moreover have "\<bar>y - sp * cos a\<bar> \<le> 1 / 2 ^ 30 + 1 / 2 ^ 45"
    unfolding y_def using sp(1,2) assms(5) [folded a_def] by (rule product_rounded) simp
  ultimately have "\<bar>sqrt (x\<^sup>2 + y\<^sup>2) - sp\<bar> \<le> 2 * (1 / 2 ^ 30 + 1 / 2 ^ 45)"
    using sp(1) by (intro norm_perturbed)
  then have n: "\<bar>sqrt (x\<^sup>2 + y\<^sup>2) - sp\<bar> \<le> 1 / 2 ^ 29 + 1 / 2 ^ 44"
    by simp
  then have 1: "\<bar>length32 (Vec2 x y) - sp\<bar> \<le> 1 / 2 ^ 27"
    using sp(3,2) by (rule length32_near)
  from n have "\<bar>sqrt (x\<^sup>2 + (- y)\<^sup>2) - sp\<bar> \<le> 1 / 2 ^ 29 + 1 / 2 ^ 44"
    by simp
  then have 2: "\<bar>length32 (Vec2 x (- y)) - sp\<bar> \<le> 1 / 2 ^ 27"
    using sp(3,2) by (rule length32_near)
  have "ballVelocity (paddleCollision32 lib s) = Vec2 x (if y < 0 then - y else y)"
    using assms(1) by (simp add: paddleCollision32_def Let_def x_def y_def sp_def a_def)
  with 1 2 show ?thesis
    unfolding sp_def [symmetric] by simp
qed

text \<open>A library of double precision is that close, at every angle.\<close>

lemma libmDouble_precise:
  "\<bar>lsin libmDouble x - sin x\<bar> \<le> 1 / 2 ^ 40"
  "\<bar>lcos libmDouble x - cos x\<bar> \<le> 1 / 2 ^ 40"
proof -
  have e: "\<bar>round64 y - y\<bar> \<le> 1 / 2 ^ 40" if "\<bar>y\<bar> \<le> 1" for y
  proof -
    from that have "\<bar>y\<bar> < 2 powr of_int (0 + 1)"
      by simp
    then have "\<bar>roundTo 53 (- 1022) y - y\<bar> \<le> 2 powr of_int (0 - 53 + 1) / 2"
      by (rule roundTo_error) simp
    moreover have "(2::real) powr of_int (0 - 53 + 1) / 2 \<le> 1 / 2 ^ 40"
      by (simp add: powr_minus_divide)
    ultimately show ?thesis
      unfolding round64_def by linarith
  qed
  show "\<bar>lsin libmDouble x - sin x\<bar> \<le> 1 / 2 ^ 40"
    using e [of "sin x"] by (simp add: libmDouble_def)
  show "\<bar>lcos libmDouble x - cos x\<bar> \<le> 1 / 2 ^ 40"
    using e [of "cos x"] by (simp add: libmDouble_def)
qed

text \<open>
  C8: when the paddle block of \<open>updateGame\<close> finds the ball colliding with the paddle,
  the y-component of the velocity it leaves is not negative, so the ball does not leave
  the paddle downwards: in the arithmetic of the program, whatever the library returns
  for the sine and the cosine (first part, for a paddle of the width of the game, half
  of which is the divisor of \<open>hitPos\<close>), and in exact arithmetic (third part). The length
  of the velocity it leaves is that of the velocity it found up to rounding: in the
  arithmetic of the program the two values of \<^verbatim>\<open>glm::length\<close> differ by \<open>1 / 2 ^ 27\<close> at
  most, for a speed between \<open>1 / 128\<close> and \<open>1 / 64\<close> and a library that is accurate to
  \<open>1 / 2 ^ 40\<close> at the angle (second part), and they can differ, as in \<open>glancing\<close>; the two
  lengths are equal when the reflection formula is computed exactly (third part). Here
  \<open>s\<close> and \<open>t\<close> are states in which the block is reached.
\<close>

theorem paddle_bounce_upward_speed_nearly_kept:
  "(vx (size_o (paddle s)) = PADDLE_WIDTH32 \<and> checkCollision32 (ball s) (paddle s) \<longrightarrow>
      0 \<le> vy (ballVelocity (paddleCollision32 lib s))) \<and>
   (vx (size_o (paddle s)) = PADDLE_WIDTH32 \<and> checkCollision32 (ball s) (paddle s) \<and>
    1 / 128 \<le> length32 (ballVelocity s) \<and> length32 (ballVelocity s) \<le> 1 / 64 \<and>
    \<bar>lsin lib (angle32 s) - sin (angle32 s)\<bar> \<le> 1 / 2 ^ 40 \<and>
    \<bar>lcos lib (angle32 s) - cos (angle32 s)\<bar> \<le> 1 / 2 ^ 40 \<longrightarrow>
      \<bar>length32 (ballVelocity (paddleCollision32 lib s)) - length32 (ballVelocity s)\<bar>
        \<le> 1 / 2 ^ 27) \<and>
   (checkCollision (ball t) (paddle t) \<longrightarrow>
      0 \<le> vy (ballVelocity (paddleCollision t)) \<and>
      length2 (ballVelocity (paddleCollision t)) = length2 (ballVelocity t))"
proof -
  have "0 \<le> vy (ballVelocity (paddleCollision32 lib s))"
    if "checkCollision32 (ball s) (paddle s)"
    using that by (simp add: paddleCollision32_def Let_def)
  moreover have "0 \<le> vy (ballVelocity (paddleCollision t)) \<and>
      length2 (ballVelocity (paddleCollision t)) = length2 (ballVelocity t)"
    if "checkCollision (ball t) (paddle t)"
    using that by (simp add: paddleCollision_def Let_def length2_polar length2_nonneg)
  ultimately show ?thesis
    using bounce_speed_error [of s lib] by blast
qed

theorem paddle_bounce_upward_speed_nearly_kept_witness:
  "vx (size_o (paddle glancing)) = PADDLE_WIDTH32 \<and>
   checkCollision32 (ball glancing) (paddle glancing) \<and>
   1 / 128 \<le> length32 (ballVelocity glancing) \<and> length32 (ballVelocity glancing) \<le> 1 / 64 \<and>
   \<bar>lsin libmDouble (angle32 glancing) - sin (angle32 glancing)\<bar> \<le> 1 / 2 ^ 40 \<and>
   \<bar>lcos libmDouble (angle32 glancing) - cos (angle32 glancing)\<bar> \<le> 1 / 2 ^ 40 \<and>
   0 \<le> vy (ballVelocity (paddleCollision32 libmDouble glancing)) \<and>
   \<bar>length32 (ballVelocity (paddleCollision32 libmDouble glancing))
      - length32 (ballVelocity glancing)\<bar> \<le> 1 / 2 ^ 27 \<and>
   checkCollision (ball paddleHitState) (paddle paddleHitState) \<and>
   0 \<le> vy (ballVelocity (paddleCollision paddleHitState)) \<and>
   length2 (ballVelocity paddleHitState) = 0.005 \<and>
   length2 (ballVelocity (paddleCollision paddleHitState)) = 0.005"
proof -
  have w: "vx (size_o (paddle glancing)) = PADDLE_WIDTH32"
    by (simp add: glancing_def)
  have r: "1 / 128 \<le> length32 (ballVelocity glancing)" "length32 (ballVelocity glancing) \<le> 1 / 64"
    unfolding glancing_speed by simp_all
  note a = libmDouble_precise [of "angle32 glancing"]
  have c: "checkCollision (ball paddleHitState) (paddle paddleHitState)"
    by (simp add: paddleHitState_def checkCollision_def PADDLE_WIDTH_def PADDLE_HEIGHT_def
        BALL_SIZE_def)
  have "length2 (Vec2 0.003 (- 0.004)) = 0.005"
    unfolding length2_def vec2.sel
    by (rule real_sqrt_unique) (simp_all add: power2_eq_square)
  moreover have "ballVelocity paddleHitState = Vec2 0.003 (- 0.004)"
    by (simp add: paddleHitState_def)
  ultimately have l: "length2 (ballVelocity paddleHitState) = 0.005"
    by (simp only:)
  from paddle_bounce_upward_speed_nearly_kept [of glancing libmDouble paddleHitState]
  have 1: "0 \<le> vy (ballVelocity (paddleCollision32 libmDouble glancing))"
    and 2: "\<bar>length32 (ballVelocity (paddleCollision32 libmDouble glancing))
      - length32 (ballVelocity glancing)\<bar> \<le> 1 / 2 ^ 27"
    and 3: "0 \<le> vy (ballVelocity (paddleCollision paddleHitState))"
    and 4: "length2 (ballVelocity (paddleCollision paddleHitState)) =
      length2 (ballVelocity paddleHitState)"
    using w glancing_collision r a c by blast+
  from w glancing_collision r a 1 2 c 3 l 4 show ?thesis
    by simp
qed

subsection \<open>Failures of the start-up\<close>

lemma processInput_sameButConsole:
  "sameButConsole p q \<Longrightarrow> sameButConsole (processInput i p) (processInput i q)"
  by (simp add: sameButConsole_def processInput_def Let_def)

lemma displayCountdown_sameButConsole:
  "sameButConsole p q \<Longrightarrow> sameButConsole (displayCountdown t p) (displayCountdown t q)"
  by (simp add: sameButConsole_def displayCountdown_def Let_def)

lemma frame_sameButConsole:
  assumes "sameButConsole p q"
  shows "sameButConsole (frame i p) (frame i q)"
proof -
  from assms have a: "sameButConsole (processInput i p) (processInput i q)"
    by (rule processInput_sameButConsole)
  then have g: "gameState (processInput i p) = gameState (processInput i q)"
    by (simp add: sameButConsole_def)
  show ?thesis
  proof (cases "now i - startTime (gameState (processInput i q)) \<ge> WAIT_TIME_SECONDS")
    case True
    with a show ?thesis
      by (simp add: frame_def Let_def sameButConsole_def)
  next
    case False
    with displayCountdown_sameButConsole [OF a] g show ?thesis
      by (simp add: frame_def Let_def sameButConsole_def)
  qed
qed

lemma renderLoop_sameButConsole:
  "sameButConsole p q \<Longrightarrow> sameButConsole (renderLoop ins p) (renderLoop ins q)"
proof (induction ins arbitrary: p q)
  case Nil
  then show ?case by simp
next
  case (Cons i rest)
  from Cons.prems have c: "windowShouldClose p = windowShouldClose q"
      "gameOver (gameState p) = gameOver (gameState q)"
    by (simp_all add: sameButConsole_def)
  from Cons.prems have "sameButConsole (frame i p) (frame i q)"
    by (rule frame_sameButConsole)
  then have "sameButConsole (renderLoop rest (frame i p)) (renderLoop rest (frame i q))"
    by (rule Cons.IH)
  with c Cons.prems show ?case
    by simp
qed

lemma enterLoop_sameButConsole: "sameButConsole (enterLoop e) (enterLoop (allShadersOk e))"
  by (simp add: sameButConsole_def enterLoop_def allShadersOk_def)

text \<open>
  With the window and the context in place, the run of the game is the run the program
  has when all three shader stages succeed: a failed stage adds its log to the console
  and changes nothing else.
\<close>

lemma main_status_shaders:
  assumes "glfwInit_ok e" and "createWindow_ok e" and "gladLoad_ok e"
  shows "snd (main e ins) = snd (main (allShadersOk e) ins)"
proof -
  have s: "snd (startup e) = Running (programId e)"
     "snd (startup (allShadersOk e)) = Running (programId e)"
    using assms by (simp_all add: startup_def allShadersOk_def)
  have "sameButConsole (renderLoop ins (enterLoop e))
      (renderLoop ins (enterLoop (allShadersOk e)))"
    by (intro renderLoop_sameButConsole enterLoop_sameButConsole)
  then show ?thesis
    by (simp add: main_def s Let_def sameButConsole_def)
qed

text \<open>
  C4, as stated, in an environment where \<^verbatim>\<open>glfwInit\<close> fails: neither the creation of
  the window nor that of the context fails, and no shader stage does (none of them is
  reached), yet \<open>main\<close> prints a failure message and returns -1. The check of
  \<^verbatim>\<open>glfwInit\<close> is failure handling besides the two kinds the claim lists.
\<close>

theorem glfwInit_failure_counterexample:
  "createWindow_ok (envOk\<lparr>glfwInit_ok := False\<rparr>) \<and>
   gladLoad_ok (envOk\<lparr>glfwInit_ok := False\<rparr>) \<and>
   vertexCompile_ok (envOk\<lparr>glfwInit_ok := False\<rparr>) \<and>
   fragmentCompile_ok (envOk\<lparr>glfwInit_ok := False\<rparr>) \<and>
   link_ok (envOk\<lparr>glfwInit_ok := False\<rparr>) \<and>
   main (envOk\<lparr>glfwInit_ok := False\<rparr>) [] = ([Str ''Failed to initialize GLFW''], Some (- 1))"
  by (simp add: envOk_def main_def startup_def)

text \<open>
  C4, amended: in \<open>main\<close> of the breakout game, whenever the initialisation of GLFW, the
  creation of the window or the loading of the GL context (GLAD) fails, one failure
  message is printed and \<open>main\<close> returns -1, and the start-up returns a status in no
  other case. Whenever a shader stage (vertex, fragment, link) fails, its log is
  printed and execution goes on with the program id that was created: the status of
  \<open>main\<close> is never -1 then, and is the one of the same run with all stages
  succeeding. With no stage failing nothing is printed by the start-up.
\<close>

theorem main_failure_handling:
  "((\<exists>c. snd (startup e) = Exit c) \<longleftrightarrow>
      \<not> glfwInit_ok e \<or> \<not> createWindow_ok e \<or> \<not> gladLoad_ok e) \<and>
   (\<not> glfwInit_ok e \<longrightarrow>
      main e ins = ([Str ''Failed to initialize GLFW''], Some (- 1))) \<and>
   (glfwInit_ok e \<and> \<not> createWindow_ok e \<longrightarrow>
      main e ins = ([Str ''Failed to create GLFW window''], Some (- 1))) \<and>
   (glfwInit_ok e \<and> createWindow_ok e \<and> \<not> gladLoad_ok e \<longrightarrow>
      main e ins = ([Str ''Failed to initialize GLAD''], Some (- 1))) \<and>
   (glfwInit_ok e \<and> createWindow_ok e \<and> gladLoad_ok e \<longrightarrow>
      startup e = (shaderLogs e, Running (programId e)) \<and>
      snd (main e ins) \<noteq> Some (- 1) \<and>
      snd (main e ins) = snd (main (allShadersOk e) ins) \<and>
      (\<not> vertexCompile_ok e \<longrightarrow> Str (vertexLog e) \<in> set (shaderLogs e)) \<and>
      (\<not> fragmentCompile_ok e \<longrightarrow> Str (fragmentLog e) \<in> set (shaderLogs e)) \<and>
      (\<not> link_ok e \<longrightarrow> Str (linkLog e) \<in> set (shaderLogs e)) \<and>
      (vertexCompile_ok e \<and> fragmentCompile_ok e \<and> link_ok e \<longrightarrow> shaderLogs e = []))"
proof -
  have 1: "(\<exists>c. snd (startup e) = Exit c) \<longleftrightarrow>
      \<not> glfwInit_ok e \<or> \<not> createWindow_ok e \<or> \<not> gladLoad_ok e"
    by (auto simp: startup_def)
  have 2: "\<not> glfwInit_ok e \<longrightarrow>
      main e ins = ([Str ''Failed to initialize GLFW''], Some (- 1))"
    by (simp add: startup_def main_def)
  have 3: "glfwInit_ok e \<and> \<not> createWindow_ok e \<longrightarrow>
      main e ins = ([Str ''Failed to create GLFW window''], Some (- 1))"
    by (simp add: startup_def main_def)
  have 4: "glfwInit_ok e \<and> createWindow_ok e \<and> \<not> gladLoad_ok e \<longrightarrow>
      main e ins = ([Str ''Failed to initialize GLAD''], Some (- 1))"
    by (simp add: startup_def main_def)
  have 5: "glfwInit_ok e \<and> createWindow_ok e \<and> gladLoad_ok e \<longrightarrow>
      startup e = (shaderLogs e, Running (programId e)) \<and>
      snd (main e ins) \<noteq> Some (- 1)"
    by (simp add: startup_def main_def Let_def)
  have 6: "glfwInit_ok e \<and> createWindow_ok e \<and> gladLoad_ok e \<longrightarrow>
      snd (main e ins) = snd (main (allShadersOk e) ins)"
    using main_status_shaders [of e ins] by blast
  have 7: "(\<not> vertexCompile_ok e \<longrightarrow> Str (vertexLog e) \<in> set (shaderLogs e)) \<and>
      (\<not> fragmentCompile_ok e \<longrightarrow> Str (fragmentLog e) \<in> set (shaderLogs e)) \<and>
      (\<not> link_ok e \<longrightarrow> Str (linkLog e) \<in> set (shaderLogs e)) \<and>
      (vertexCompile_ok e \<and> fragmentCompile_ok e \<and> link_ok e \<longrightarrow> shaderLogs e = [])"
    by (simp add: shaderLogs_def)
  from 1 2 3 4 5 6 7 show ?thesis
    by blast
qed

theorem main_failure_handling_witness:
  "main (envOk\<lparr>createWindow_ok := False\<rparr>) waitingInputs =
     ([Str ''Failed to create GLFW window''], Some (- 1)) \<and>
   main (envOk\<lparr>gladLoad_ok := False\<rparr>) waitingInputs =
     ([Str ''Failed to initialize GLAD''], Some (- 1)) \<and>
   startup (envOk\<lparr>link_ok := False, linkLog := ''no main''\<rparr>) =
     ([Str ''ERROR::SHADER::PROGRAM::LINKING_FAILED'', Str ''no main''], Running 3) \<and>
   snd (main (envOk\<lparr>link_ok := False, linkLog := ''no main''\<rparr>) waitingInputs) \<noteq> Some (- 1)"
proof -
  have a: "glfwInit_ok (envOk\<lparr>createWindow_ok := False\<rparr>) \<and>
      \<not> createWindow_ok (envOk\<lparr>createWindow_ok := False\<rparr>)"
    by (simp add: envOk_def)
  have b: "glfwInit_ok (envOk\<lparr>gladLoad_ok := False\<rparr>) \<and>
      createWindow_ok (envOk\<lparr>gladLoad_ok := False\<rparr>) \<and>
      \<not> gladLoad_ok (envOk\<lparr>gladLoad_ok := False\<rparr>)"
    by (simp add: envOk_def)
  have c: "glfwInit_ok (envOk\<lparr>link_ok := False, linkLog := ''no main''\<rparr>) \<and>
      createWindow_ok (envOk\<lparr>link_ok := False, linkLog := ''no main''\<rparr>) \<and>
      gladLoad_ok (envOk\<lparr>link_ok := False, linkLog := ''no main''\<rparr>)"
    by (simp add: envOk_def)
  have d: "shaderLogs (envOk\<lparr>link_ok := False, linkLog := ''no main''\<rparr>) =
      [Str ''ERROR::SHADER::PROGRAM::LINKING_FAILED'', Str ''no main'']"
    "programId (envOk\<lparr>link_ok := False, linkLog := ''no main''\<rparr>) = 3"
    by (simp_all add: envOk_def shaderLogs_def)
  from main_failure_handling [of "envOk\<lparr>createWindow_ok := False\<rparr>" waitingInputs] a
  have 1: "main (envOk\<lparr>createWindow_ok := False\<rparr>) waitingInputs =
     ([Str ''Failed to create GLFW window''], Some (- 1))"
    by blast
  from main_failure_handling [of "envOk\<lparr>gladLoad_ok := False\<rparr>" waitingInputs] b
  have 2: "main (envOk\<lparr>gladLoad_ok := False\<rparr>) waitingInputs =
     ([Str ''Failed to initialize GLAD''], Some (- 1))"
    by blast
  from main_failure_handling
    [of "envOk\<lparr>link_ok := False, linkLog := ''no main''\<rparr>" waitingInputs] c
  have 3: "startup (envOk\<lparr>link_ok := False, linkLog := ''no main''\<rparr>) =
      (shaderLogs (envOk\<lparr>link_ok := False, linkLog := ''no main''\<rparr>),
       Running (programId (envOk\<lparr>link_ok := False, linkLog := ''no main''\<rparr>)))"
    and 4: "snd (main (envOk\<lparr>link_ok := False, linkLog := ''no main''\<rparr>) waitingInputs) \<noteq>
      Some (- 1)"
    by blast+
  from 1 2 3 4 d show ?thesis
    by simp
qed

section \<open>Properties of the particle systems\<close>

subsection \<open>Spawning and ageing\<close>

lemma unitStream_linearRand [simp]: "unitStream (snd (linearRand lo hi w)) = unitStream w"
  by (simp add: linearRand_def unitStream_def)

lemma unitStream_rand [simp]: "unitStream (snd (rand w)) = unitStream w"
  by (simp add: rand_def unitStream_def)

lemma unitStream_glfwGetTime [simp]: "unitStream (snd (glfwGetTime w)) = unitStream w"
  by (simp add: glfwGetTime_def unitStream_def)

lemma linearRand_lower:
  assumes "unitStream w" and "lo \<le> hi"
  shows "lo \<le> fst (linearRand lo hi w)"
proof -
  from assms(1) have "0 \<le> linearRandStream w (linearRandCount w)"
    by (simp add: unitStream_def)
  with assms(2) have "0 \<le> linearRandStream w (linearRandCount w) * (hi - lo)"
    by simp
  then show ?thesis
    by (simp add: linearRand_def)
qed

lemma linearRand_pos:
  assumes "unitStream w" and "0 < lo" and "lo \<le> hi"
  shows "0 < fst (linearRand lo hi w)"
  using linearRand_lower [OF assms(1,3)] assms(2) by linarith

lemma spawnParticle_fst:
  "fst (spawnParticle s w) = s\<lparr>particles := particles s @ [spawned s w]\<rparr>"
  unfolding spawned_def
  by (cases "cls s")
    (simp_all add: spawnParticle_def spawnRain_def spawnWaterfall_def spawnFire_def
      spawnDust_def spawnCoffee_def Let_def split_def)

lemma unitStream_spawnParticle [simp]: "unitStream (snd (spawnParticle s w)) = unitStream w"
  by (cases "cls s")
    (simp_all add: spawnParticle_def spawnRain_def spawnWaterfall_def spawnFire_def
      spawnDust_def spawnCoffee_def Let_def split_def)

lemma life_spawned: "life (spawned s w) = maxLife (spawned s w)"
  unfolding spawned_def
  by (cases "cls s")
    (simp_all add: spawnParticle_def spawnRain_def spawnWaterfall_def spawnFire_def
      spawnDust_def spawnCoffee_def Let_def split_def)

lemma life_spawned_pos: "unitStream w \<Longrightarrow> 0 < life (spawned s w)"
  unfolding spawned_def
  by (cases "cls s")
    (simp_all add: spawnParticle_def spawnRain_def spawnWaterfall_def spawnFire_def
      spawnDust_def spawnCoffee_def Let_def split_def linearRand_pos)


lemma maxParticles_spawnLoop: "maxParticles (fst (spawnLoop s w)) = maxParticles s"
proof (induction s w rule: spawnLoop.induct)
  case (1 s w)
  show ?case
  proof (cases "timeSinceLastSpawn s \<ge> spawnRate s \<and> length (particles s) < maxParticles s")
    case True
    with "1.IH" show ?thesis
      by (subst spawnLoop.simps) (simp add: spawnParticle_fst)
  next
    case False
    then show ?thesis
      by (subst spawnLoop.simps) auto
  qed
qed

lemma length_spawnLoop:
  "length (particles s) \<le> maxParticles s \<Longrightarrow>
     length (particles (fst (spawnLoop s w))) \<le> maxParticles s"
proof (induction s w rule: spawnLoop.induct)
  case (1 s w)
  show ?case
  proof (cases "timeSinceLastSpawn s \<ge> spawnRate s \<and> length (particles s) < maxParticles s")
    case True
    with "1.IH" show ?thesis
      by (subst spawnLoop.simps) (simp add: spawnParticle_fst)
  next
    case False
    with "1.prems" show ?thesis
      by (subst spawnLoop.simps) auto
  qed
qed

lemma particles_spawnLoop:
  "\<exists>new. particles (fst (spawnLoop s w)) = particles s @ new \<and>
     (\<forall>p \<in> set new. life p = maxLife p) \<and>
     (unitStream w \<longrightarrow> (\<forall>p \<in> set new. 0 < life p))"
proof (induction s w rule: spawnLoop.induct)
  case (1 s w)
  show ?case
  proof (cases "timeSinceLastSpawn s \<ge> spawnRate s \<and> length (particles s) < maxParticles s")
    case True
    from "1.IH" [OF True] obtain new where
      n: "particles (fst (spawnLoop
            ((fst (spawnParticle s w))
               \<lparr>timeSinceLastSpawn :=
                  timeSinceLastSpawn (fst (spawnParticle s w)) -
                  spawnRate (fst (spawnParticle s w))\<rparr>)
            (snd (spawnParticle s w)))) = (particles s @ [spawned s w]) @ new"
      and l: "\<forall>p \<in> set new. life p = maxLife p"
      and u: "unitStream w \<longrightarrow> (\<forall>p \<in> set new. 0 < life p)"
      by (auto simp: spawnParticle_fst)
    from True n have "particles (fst (spawnLoop s w)) = particles s @ (spawned s w # new)"
      by (subst spawnLoop.simps) simp
    moreover from l have "\<forall>p \<in> set (spawned s w # new). life p = maxLife p"
      by (simp add: life_spawned)
    moreover from u have "unitStream w \<longrightarrow> (\<forall>p \<in> set (spawned s w # new). 0 < life p)"
      by (simp add: life_spawned_pos)
    ultimately show ?thesis
      by blast
  next
    case False
    then have "particles (fst (spawnLoop s w)) = particles s @ []"
      by (subst spawnLoop.simps) auto
    then show ?thesis
      by (intro exI [of _ "[]"]) simp
  qed
qed

lemma ageParticles_survivors:
  "map life (ageParticles g dt ps) = map (\<lambda>p. life p - dt) (survivors dt ps) \<and>
   map size_p (ageParticles g dt ps) = map size_p (survivors dt ps) \<and>
   map maxLife (ageParticles g dt ps) = map maxLife (survivors dt ps) \<and>
   map userData (ageParticles g dt ps) = map userData (survivors dt ps)"
  by (induction ps) (simp_all add: survivors_def Let_def)

lemma ageCoffee_survivors:
  "map life (fst (ageCoffee g j dt ps w)) = map (\<lambda>p. life p - dt) (survivors dt ps) \<and>
   map size_p (fst (ageCoffee g j dt ps w)) = map size_p (survivors dt ps) \<and>
   map maxLife (fst (ageCoffee g j dt ps w)) = map maxLife (survivors dt ps) \<and>
   map userData (fst (ageCoffee g j dt ps w)) = map userData (survivors dt ps)"
  by (induction ps arbitrary: w) (simp_all add: survivors_def Let_def coffeeMove_def)

lemma unitStream_ageCoffee [simp]: "unitStream (snd (ageCoffee g j dt ps w)) = unitStream w"
  by (induction ps arbitrary: w) (simp_all add: Let_def)

lemma aged_survivors:
  "map life (aged s dt w) = map (\<lambda>p. life p - dt) (survivors dt (particles s)) \<and>
   map size_p (aged s dt w) = map size_p (survivors dt (particles s)) \<and>
   map maxLife (aged s dt w) = map maxLife (survivors dt (particles s)) \<and>
   map userData (aged s dt w) = map userData (survivors dt (particles s))"
  using ageParticles_survivors ageCoffee_survivors by (simp add: aged_def)

lemma length_aged: "length (aged s dt w) = length (survivors dt (particles s))"
  using aged_survivors [of s dt w] by (metis length_map)

lemma length_survivors: "length (survivors dt ps) \<le> length ps"
  by (simp add: survivors_def)

lemma update_active:
  assumes "isActive s"
  shows "\<exists>new. particles (fst (update s dt w)) = aged s dt w @ new \<and>
     (\<forall>p \<in> set new. life p = maxLife p) \<and>
     (unitStream w \<longrightarrow> (\<forall>p \<in> set new. 0 < life p))"
proof (cases "cls s = CoffeeCeremonySystem")
  case True
  with assms have u: "update s dt w =
      spawnLoop (s\<lparr>particles := aged s dt w, timeSinceLastSpawn := timeSinceLastSpawn s + dt\<rparr>)
        (snd (ageCoffee (gravity s) (jebenaPosition s) dt (particles s) w))"
    by (simp add: update_def aged_def Let_def split_def)
  show ?thesis
    unfolding u
    using particles_spawnLoop [of "s\<lparr>particles := aged s dt w,
        timeSinceLastSpawn := timeSinceLastSpawn s + dt\<rparr>"
        "snd (ageCoffee (gravity s) (jebenaPosition s) dt (particles s) w)"]
    by simp
next
  case False
  with assms have u: "update s dt w =
      spawnLoop (s\<lparr>particles := aged s dt w, timeSinceLastSpawn := timeSinceLastSpawn s + dt\<rparr>) w"
    by (simp add: update_def aged_def Let_def split_def)
  show ?thesis
    unfolding u
    using particles_spawnLoop [of "s\<lparr>particles := aged s dt w,
        timeSinceLastSpawn := timeSinceLastSpawn s + dt\<rparr>" w]
    by simp
qed


text \<open>
  C3: a call \<open>update dt\<close> on an active system, in a world whose random fractions lie in
  the unit interval. The vector after the call begins with the particles whose life
  minus \<open>dt\<close> was above zero, in their order and with size, maximal life and user data
  as before, each with its life reduced by \<open>dt\<close>; the particles whose life minus \<open>dt\<close>
  was at or below zero are gone. What follows them was spawned by this call, at full
  life. Every particle of the vector has a life above zero.
\<close>

theorem update_removes_expired:
  assumes "isActive s" and "unitStream w"
  shows "length (survivors dt (particles s)) \<le> length (particles (fst (update s dt w))) \<and>
     map life (take (length (survivors dt (particles s))) (particles (fst (update s dt w)))) =
       map (\<lambda>p. life p - dt) (survivors dt (particles s)) \<and>
     map size_p (take (length (survivors dt (particles s))) (particles (fst (update s dt w)))) =
       map size_p (survivors dt (particles s)) \<and>
     map maxLife (take (length (survivors dt (particles s))) (particles (fst (update s dt w)))) =
       map maxLife (survivors dt (particles s)) \<and>
     map userData (take (length (survivors dt (particles s))) (particles (fst (update s dt w)))) =
       map userData (survivors dt (particles s)) \<and>
     (\<forall>p \<in> set (drop (length (survivors dt (particles s))) (particles (fst (update s dt w)))).
        life p = maxLife p) \<and>
     (\<forall>p \<in> set (particles (fst (update s dt w))). 0 < life p)"
proof -
  from update_active [OF assms(1), of dt w] assms(2) obtain new where
    p: "particles (fst (update s dt w)) = aged s dt w @ new"
    and l: "\<forall>p \<in> set new. life p = maxLife p"
    and u: "\<forall>p \<in> set new. 0 < life p"
    by blast
  have k: "length (aged s dt w) = length (survivors dt (particles s))"
    by (rule length_aged)
  have t: "take (length (survivors dt (particles s))) (particles (fst (update s dt w))) =
      aged s dt w"
    by (simp add: p k [symmetric])
  have d: "drop (length (survivors dt (particles s))) (particles (fst (update s dt w))) = new"
    by (simp add: p k [symmetric])
  have "\<forall>x \<in> set (map (\<lambda>p. life p - dt) (survivors dt (particles s))). 0 < x"
    by (auto simp: survivors_def)
  then have "\<forall>x \<in> set (map life (aged s dt w)). 0 < x"
    using aged_survivors [of s dt w] by simp
  then have a: "\<forall>p \<in> set (aged s dt w). 0 < life p"
    by simp
  have 1: "length (survivors dt (particles s)) \<le> length (particles (fst (update s dt w)))"
    by (simp add: p k)
  from a u have 2: "\<forall>p \<in> set (particles (fst (update s dt w))). 0 < life p"
    by (auto simp: p)
  from 1 2 l show ?thesis
    unfolding t d using aged_survivors [of s dt w] by blast
qed

theorem update_removes_expired_witness:
  "isActive twoDrops \<and> unitStream halfWorld \<and>
   map life (particles twoDrops) = [0.3, 1] \<and>
   survivors 0.5 (particles twoDrops) = [raindrop 1] \<and>
   map life (take 1 (particles (fst (update twoDrops 0.5 halfWorld)))) = [0.5]"
proof -
  have a: "isActive twoDrops"
    by (simp add: twoDrops_def newParticleSystem_def)
  have u: "unitStream halfWorld"
    by (simp add: unitStream_def halfWorld_def)
  have l: "map life (particles twoDrops) = [0.3, 1]"
    by (simp add: twoDrops_def raindrop_def)
  have s: "survivors 0.5 (particles twoDrops) = [raindrop 1]"
    by (simp add: survivors_def twoDrops_def raindrop_def)
  from update_removes_expired [OF a u, of "0.5"]
  have "map life (take (length (survivors 0.5 (particles twoDrops)))
          (particles (fst (update twoDrops 0.5 halfWorld)))) =
       map (\<lambda>p. life p - 0.5) (survivors 0.5 (particles twoDrops))"
    by blast
  with s have "map life (take 1 (particles (fst (update twoDrops 0.5 halfWorld)))) = [0.5]"
    by (simp add: raindrop_def)
  with a u l s show ?thesis
    by blast
qed

subsection \<open>The capacity\<close>

lemma prepopulate_fst:
  "maxParticles (fst (prepopulate n s w)) = maxParticles s \<and>
   length (particles (fst (prepopulate n s w))) = length (particles s) + n"
  by (induction n arbitrary: s w) (simp_all add: spawnParticle_fst)

lemma construct_fst:
  "maxParticles (fst (construct c w)) = capacity c \<and>
   length (particles (fst (construct c w))) = capacity c div 4"
  by (cases c) (simp_all add: construct_def Let_def prepopulate_fst newParticleSystem_def)

lemma maxParticles_update: "maxParticles (fst (update s dt w)) = maxParticles s"
  by (simp add: update_def Let_def split_def maxParticles_spawnLoop)

lemma length_update:
  assumes "length (particles s) \<le> maxParticles s"
  shows "length (particles (fst (update s dt w))) \<le> maxParticles s"
proof (cases "isActive s")
  case False
  with assms show ?thesis
    by (simp add: update_def)
next
  case True
  have "length (aged s dt w) \<le> length (particles s)"
    by (simp add: length_aged length_survivors)
  with assms have a: "length (aged s dt w) \<le> maxParticles s"
    by simp
  from True have "fst (update s dt w) =
      fst (spawnLoop (s\<lparr>particles := aged s dt w,
             timeSinceLastSpawn := timeSinceLastSpawn s + dt\<rparr>)
        (if cls s = CoffeeCeremonySystem
         then snd (ageCoffee (gravity s) (jebenaPosition s) dt (particles s) w) else w))"
    by (simp add: update_def aged_def Let_def split_def)
  with a length_spawnLoop [of "s\<lparr>particles := aged s dt w,
             timeSinceLastSpawn := timeSinceLastSpawn s + dt\<rparr>"]
  show ?thesis
    by simp
qed

lemma updates_invariant:
  "length (particles (fst sw)) \<le> maxParticles (fst sw) \<Longrightarrow>
     length (particles (fst (updates sw dts))) \<le> maxParticles (fst (updates sw dts)) \<and>
     maxParticles (fst (updates sw dts)) = maxParticles (fst sw)"
proof (induction dts arbitrary: sw)
  case Nil
  then show ?case by simp
next
  case (Cons dt dts)
  from Cons.prems have "length (particles (fst (update (fst sw) dt (snd sw)))) \<le>
      maxParticles (fst (update (fst sw) dt (snd sw)))"
    by (simp add: length_update maxParticles_update)
  from Cons.IH [OF this] show ?case
    by (simp add: maxParticles_update)
qed

text \<open>
  C2: for each of the five classes, after any sequence of calls \<open>update dt\<close> on the
  freshly constructed system, whatever the values of \<open>dt\<close> and whatever the world
  gives, the vector of particles is no longer than \<open>maxParticles\<close>, which is still the
  capacity the class passed to the constructor.
\<close>

theorem particle_count_bounded:
  "length (particles (fst (updates (construct c w) dts))) \<le>
     maxParticles (fst (updates (construct c w) dts)) \<and>
   maxParticles (fst (updates (construct c w) dts)) = capacity c"
proof -
  have "length (particles (fst (construct c w))) \<le> maxParticles (fst (construct c w))"
    by (simp add: construct_fst)
  from updates_invariant [OF this, of dts] show ?thesis
    by (simp add: construct_fst)
qed

section \<open>Properties of the race animation\<close>

lemma advance_finished: "finished st \<Longrightarrow> advance dT cf st = st"
  by (simp add: advance_def)

lemma students_spaceControl: "students (fst (spaceControl i p w)) = students p"
  by (simp add: spaceControl_def Let_def)

lemma rPressed_spaceControl: "rPressed (fst (spaceControl i p w)) = rPressed p"
  by (simp add: spaceControl_def Let_def)

lemma deltaTime_spaceControl: "deltaTime (fst (spaceControl i p w)) = deltaTime p"
  by (simp add: spaceControl_def Let_def)

lemma resetControl_no_reset:
  assumes "\<not> (rKey i \<and> \<not> rPressed p)"
  shows "students (fst (resetControl init i p w)) = students p"
  using assms by (auto simp: resetControl_def)

lemma processInput_race_no_reset:
  assumes "\<not> resetsRace i p"
  shows "students (fst (processInput_race init i p w)) = students p"
proof -
  let ?p1 = "if escapeKey i then p\<lparr>raceShouldClose := True\<rparr> else p"
  have "\<not> (rKey i \<and> \<not> rPressed (fst (spaceControl i ?p1 w)))"
    using assms by (simp add: resetsRace_def rPressed_spaceControl)
  then have "students (fst (resetControl init i (fst (spaceControl i ?p1 w))
      (snd (spaceControl i ?p1 w)))) = students (fst (spaceControl i ?p1 w))"
    by (rule resetControl_no_reset)
  then show ?thesis
    by (simp add: processInput_race_def Let_def students_spaceControl)
qed

lemma raceFrame_no_reset:
  assumes "\<not> resetsRace i p"
  shows "\<exists>dT cf. students (fst (raceFrame init i p w)) = map (advance dT cf) (students p)"
proof -
  let ?p1 = "p\<lparr>deltaTime := fst (glfwGetTime w) - lastFrame p, lastFrame := fst (glfwGetTime w)\<rparr>"
  have "\<not> resetsRace i ?p1"
    using assms by (simp add: resetsRace_def)
  then have "students (fst (processInput_race init i ?p1 (snd (glfwGetTime w)))) = students p"
    by (simp add: processInput_race_no_reset)
  then show ?thesis
    by (auto simp: raceFrame_def Let_def renderStudent_def)
qed

lemma frozen_by_advance:
  assumes "sts1 = map (advance dT cf) sts"
  shows "length sts1 = length sts \<and>
     (\<forall>k < length sts. finished (sts ! k) \<longrightarrow> sts1 ! k = sts ! k)"
  using assms by (simp add: advance_finished)

lemma raceFrame_frozen:
  assumes "\<not> resetsRace i p"
  shows "length (students (fst (raceFrame init i p w))) = length (students p) \<and>
     (\<forall>k < length (students p). finished (students p ! k) \<longrightarrow>
        students (fst (raceFrame init i p w)) ! k = students p ! k)"
proof -
  from raceFrame_no_reset [OF assms, of init w]
  obtain dT cf where "students (fst (raceFrame init i p w)) = map (advance dT cf) (students p)"
    by blast
  then show ?thesis
    by (rule frozen_by_advance)
qed

lemma raceLoop_frozen:
  assumes "\<forall>i \<in> set ins. \<not> rKey i"
  shows "length (students (fst (raceLoop init ins p w))) = length (students p) \<and>
     (\<forall>k < length (students p). finished (students p ! k) \<longrightarrow>
        students (fst (raceLoop init ins p w)) ! k = students p ! k)"
  using assms
proof (induction ins arbitrary: p w)
  case Nil
  then show ?case by simp
next
  case (Cons i rest)
  show ?case
  proof (cases "raceShouldClose p")
    case True
    then show ?thesis by simp
  next
    case False
    let ?p2 = "fst (raceFrame init i p w)" and ?w2 = "snd (raceFrame init i p w)"
    from Cons.prems have n: "\<not> resetsRace i p"
      by (simp add: resetsRace_def)
    from raceFrame_frozen [OF n, of init w] have
      l2: "length (students ?p2) = length (students p)"
      and k2: "\<forall>k < length (students p). finished (students p ! k) \<longrightarrow>
          students ?p2 ! k = students p ! k"
      by simp_all
    from Cons.prems have "\<forall>i \<in> set rest. \<not> rKey i"
      by simp
    from Cons.IH [OF this, of ?p2 ?w2] have
      l1: "length (students (fst (raceLoop init rest ?p2 ?w2))) = length (students ?p2)"
      and k1: "\<forall>k < length (students ?p2). finished (students ?p2 ! k) \<longrightarrow>
          students (fst (raceLoop init rest ?p2 ?w2)) ! k = students ?p2 ! k"
      by simp_all
    from False have r: "raceLoop init (i # rest) p w = raceLoop init rest ?p2 ?w2"
      by simp
    have "\<forall>k < length (students p). finished (students p ! k) \<longrightarrow>
        students (fst (raceLoop init rest ?p2 ?w2)) ! k = students p ! k"
    proof (intro allI impI)
      fix k assume k: "k < length (students p)" and fin: "finished (students p ! k)"
      with k2 have e: "students ?p2 ! k = students p ! k"
        by simp
      with fin k l2 k1 have "students (fst (raceLoop init rest ?p2 ?w2)) ! k = students ?p2 ! k"
        by simp
      with e show "students (fst (raceLoop init rest ?p2 ?w2)) ! k = students p ! k"
        by simp
    qed
    with l1 l2 show ?thesis
      unfolding r by simp
  qed
qed

text \<open>
  A pass that calls \<open>resetRace\<close> hands the whole vector to \<open>initializeStudents\<close>, before
  the update of the pass.
\<close>

lemma raceFrame_reset:
  assumes "resetsRace i p"
  shows "\<exists>w1 dT cf. students (fst (raceFrame init i p w)) =
     map (advance dT cf) (fst (init (students p) w1))"
proof -
  let ?p1 = "p\<lparr>deltaTime := fst (glfwGetTime w) - lastFrame p, lastFrame := fst (glfwGetTime w)\<rparr>"
  let ?q = "if escapeKey i then ?p1\<lparr>raceShouldClose := True\<rparr> else ?p1"
  let ?w0 = "snd (glfwGetTime w)"
  from assms have "rKey i" and "\<not> rPressed (fst (spaceControl i ?q ?w0))"
    by (simp_all add: resetsRace_def rPressed_spaceControl)
  then have "students (fst (resetControl init i (fst (spaceControl i ?q ?w0))
      (snd (spaceControl i ?q ?w0)))) =
      fst (init (students p) (snd (spaceControl i ?q ?w0)))"
    by (simp add: resetControl_def Let_def resetRace_def students_spaceControl)
  then have "students (fst (processInput_race init i ?p1 ?w0)) =
      fst (init (students p) (snd (spaceControl i ?q ?w0)))"
    by (simp add: processInput_race_def Let_def)
  then show ?thesis
    by (auto simp: raceFrame_def Let_def renderStudent_def)
qed

text \<open>
  C6: in a pass of the render loop that does not call \<open>resetRace\<close>, the vector of
  students keeps its length and a student whose \<open>finished\<close> flag is true is left as it
  is: the flag stays true, and position and finish time are not modified. So a pass
  after which a student that was finished is not finished any more has called
  \<open>resetRace\<close>. The same holds over any number of passes in which the key R is never
  down. \<open>resetRace\<close> initialises the students again: it hands the whole vector to
  \<open>initializeStudents\<close>, the function that set the race up, takes what it returns for
  the students and clears \<open>raceStarted\<close> and \<open>raceFinished\<close>; in a pass that calls it
  the students are those that \<open>initializeStudents\<close> returned, updated once.
\<close>

theorem finished_students_frozen_until_reset:
  "(\<not> resetsRace i p \<longrightarrow>
      length (students (fst (raceFrame init i p w))) = length (students p) \<and>
      (\<forall>k < length (students p). finished (students p ! k) \<longrightarrow>
         students (fst (raceFrame init i p w)) ! k = students p ! k \<and>
         finished (students (fst (raceFrame init i p w)) ! k) \<and>
         position_s (students (fst (raceFrame init i p w)) ! k) = position_s (students p ! k) \<and>
         finishTime (students (fst (raceFrame init i p w)) ! k) = finishTime (students p ! k))) \<and>
   (k < length (students p) \<and> finished (students p ! k) \<and>
      \<not> finished (students (fst (raceFrame init i p w)) ! k) \<longrightarrow> resetsRace i p) \<and>
   ((\<forall>i \<in> set ins. \<not> rKey i) \<longrightarrow>
      length (students (fst (raceLoop init ins p w))) = length (students p) \<and>
      (\<forall>k < length (students p). finished (students p ! k) \<longrightarrow>
         students (fst (raceLoop init ins p w)) ! k = students p ! k)) \<and>
   resetRace init p w =
     (p\<lparr>students := fst (init (students p) w), raceStarted := False, raceFinished := False\<rparr>,
      snd (init (students p) w)) \<and>
   (resetsRace i p \<longrightarrow>
      (\<exists>w1 dT cf. students (fst (raceFrame init i p w)) =
         map (advance dT cf) (fst (init (students p) w1))))"
proof -
  have 1: "\<not> resetsRace i p \<longrightarrow>
      length (students (fst (raceFrame init i p w))) = length (students p) \<and>
      (\<forall>k < length (students p). finished (students p ! k) \<longrightarrow>
         students (fst (raceFrame init i p w)) ! k = students p ! k \<and>
         finished (students (fst (raceFrame init i p w)) ! k) \<and>
         position_s (students (fst (raceFrame init i p w)) ! k) = position_s (students p ! k) \<and>
         finishTime (students (fst (raceFrame init i p w)) ! k) = finishTime (students p ! k))"
    using raceFrame_frozen [of i p init w] by auto
  have 2: "k < length (students p) \<and> finished (students p ! k) \<and>
      \<not> finished (students (fst (raceFrame init i p w)) ! k) \<longrightarrow> resetsRace i p"
    using raceFrame_frozen [of i p init w] by metis
  have 3: "(\<forall>i \<in> set ins. \<not> rKey i) \<longrightarrow>
      length (students (fst (raceLoop init ins p w))) = length (students p) \<and>
      (\<forall>k < length (students p). finished (students p ! k) \<longrightarrow>
         students (fst (raceLoop init ins p w)) ! k = students p ! k)"
    using raceLoop_frozen [of ins init p w] by blast
  have 4: "resetRace init p w =
     (p\<lparr>students := fst (init (students p) w), raceStarted := False, raceFinished := False\<rparr>,
      snd (init (students p) w))"
    by (simp add: resetRace_def)
  have 5: "resetsRace i p \<longrightarrow>
      (\<exists>w1 dT cf. students (fst (raceFrame init i p w)) =
         map (advance dT cf) (fst (init (students p) w1)))"
    using raceFrame_reset [of i p init w] by blast
  from 1 2 3 4 5 show ?thesis
    by blast
qed

theorem finished_students_frozen_until_reset_witness:
  "finished (students duo ! 0) \<and> \<not> resetsRace noKeys duo \<and> resetsRace keyR duo \<and>
   students (fst (raceFrame lineUp noKeys duo halfWorld)) ! 0 = arrived \<and>
   finishTime (students (fst (raceFrame lineUp noKeys duo halfWorld)) ! 0) = 7.5 \<and>
   students (fst (raceLoop lineUp [noKeys, noKeys, noKeys] duo halfWorld)) ! 0 = arrived \<and>
   \<not> finished (students (fst (resetRace lineUp duo halfWorld)) ! 0) \<and>
   (\<exists>w1 dT cf. students (fst (raceFrame lineUp keyR duo halfWorld)) =
      map (advance dT cf) (fst (lineUp (students duo) w1)))"
proof -
  have f: "finished (students duo ! 0)" "students duo ! 0 = arrived" "0 < length (students duo)"
    "finishTime arrived = 7.5"
    by (simp_all add: duo_def arrived_def)
  have n: "\<not> resetsRace noKeys duo" "resetsRace keyR duo"
    by (simp_all add: resetsRace_def noKeys_def keyR_def duo_def)
  have r: "\<forall>i \<in> set [noKeys, noKeys, noKeys]. \<not> rKey i"
    by (simp add: noKeys_def)
  from finished_students_frozen_until_reset [of noKeys duo lineUp halfWorld] n f
  have 1: "students (fst (raceFrame lineUp noKeys duo halfWorld)) ! 0 = arrived \<and>
      finishTime (students (fst (raceFrame lineUp noKeys duo halfWorld)) ! 0) = 7.5"
    by auto
  from finished_students_frozen_until_reset
    [of _ duo lineUp halfWorld _ "[noKeys, noKeys, noKeys]"] r f
  have 2: "students (fst (raceLoop lineUp [noKeys, noKeys, noKeys] duo halfWorld)) ! 0 = arrived"
    by (metis (no_types, lifting))
  from finished_students_frozen_until_reset [of _ duo lineUp halfWorld]
  have "resetRace lineUp duo halfWorld =
     (duo\<lparr>students := fst (lineUp (students duo) halfWorld), raceStarted := False,
          raceFinished := False\<rparr>,
      snd (lineUp (students duo) halfWorld))"
    by blast
  then have 3: "\<not> finished (students (fst (resetRace lineUp duo halfWorld)) ! 0)"
    by (simp add: lineUp_def duo_def)
  from finished_students_frozen_until_reset [of keyR duo lineUp halfWorld] n
  have 4: "\<exists>w1 dT cf. students (fst (raceFrame lineUp keyR duo halfWorld)) =
      map (advance dT cf) (fst (lineUp (students duo) w1))"
    by blast
  from f n 1 2 3 4 show ?thesis
    by blast
qed

end
